theory Spec2Isabelle
  imports Main "HOL-Library.Sublist" "HOL-Library.Multiset"
begin

section \<open>The PackageKit transaction client (pk-client.c)\<close>

text \<open>
  A shallow embedding of the GObject \<open>PkClient\<close>. The private structure
  \<open>PkClientPrivate\<close> is a record; every library outside pk-client.c (the enumeration
  converters of pk-enum, the daemon behind D-Bus, PolicyKit, the allocator of
  transaction ids, the observers of the GObject signals) is one record \<open>world\<close> that
  is threaded through the calls. A \<open>GError **error\<close> argument is modelled for a caller
  that passes the address of a \<open>NULL\<close> error: a function returns its \<open>gboolean\<close>
  together with the error it left there.
\<close>

subsection \<open>Errors\<close>

text \<open>
  A \<open>GError\<close> has a domain (a \<open>GQuark\<close>: an interned string, which is given here by
  the string), a code (a \<open>gint\<close>) and a message. \<open>PK_CLIENT_ERROR\<close> is the quark that
  \<open>pk_client_error_quark\<close> makes; \<open>DBUS_GERROR\<close> and \<open>DBUS_GERROR_REMOTE_EXCEPTION\<close>
  are the quark and the last error code of dbus-glib.
\<close>

type_synonym GQuark = string

definition PK_CLIENT_ERROR :: GQuark where
  "PK_CLIENT_ERROR = ''pk_client_error''"

definition DBUS_GERROR :: GQuark where
  "DBUS_GERROR = ''dbus-glib-error-quark''"

definition DBUS_GERROR_REMOTE_EXCEPTION :: int where
  "DBUS_GERROR_REMOTE_EXCEPTION = 32"

text \<open>
  Modelled from the spec: the enumeration \<open>PkClientError\<close> is declared in pk-client.h,
  which is not among the sources; its members count from 0 in the order of the
  taxonomy of errors: failed, failed-auth, no transaction, already bound, role unknown,
  invalid package id.
\<close>

definition PK_CLIENT_ERROR_FAILED :: int where
  "PK_CLIENT_ERROR_FAILED = 0"

definition PK_CLIENT_ERROR_FAILED_AUTH :: int where
  "PK_CLIENT_ERROR_FAILED_AUTH = 1"

definition PK_CLIENT_ERROR_NO_TID :: int where
  "PK_CLIENT_ERROR_NO_TID = 2"

definition PK_CLIENT_ERROR_ALREADY_TID :: int where
  "PK_CLIENT_ERROR_ALREADY_TID = 3"

definition PK_CLIENT_ERROR_ROLE_UNKNOWN :: int where
  "PK_CLIENT_ERROR_ROLE_UNKNOWN = 4"

definition PK_CLIENT_ERROR_INVALID_PACKAGEID :: int where
  "PK_CLIENT_ERROR_INVALID_PACKAGEID = 5"

record GError =
  domain :: GQuark
  code :: int
  message :: string

type_synonym gresult = "bool \<times> GError option"

subsection \<open>Enumerations\<close>

datatype PkRoleEnum =
    PK_ROLE_ENUM_UNKNOWN
  | PK_ROLE_ENUM_SEARCH_NAME
  | PK_ROLE_ENUM_SEARCH_DETAILS
  | PK_ROLE_ENUM_SEARCH_GROUP
  | PK_ROLE_ENUM_SEARCH_FILE
  | PK_ROLE_ENUM_GET_DEPENDS
  | PK_ROLE_ENUM_GET_REQUIRES
  | PK_ROLE_ENUM_GET_DETAILS
  | PK_ROLE_ENUM_GET_FILES
  | PK_ROLE_ENUM_GET_UPDATES
  | PK_ROLE_ENUM_GET_UPDATE_DETAIL
  | PK_ROLE_ENUM_GET_PACKAGES
  | PK_ROLE_ENUM_GET_REPO_LIST
  | PK_ROLE_ENUM_WHAT_PROVIDES
  | PK_ROLE_ENUM_RESOLVE
  | PK_ROLE_ENUM_ROLLBACK
  | PK_ROLE_ENUM_INSTALL_PACKAGES
  | PK_ROLE_ENUM_INSTALL_FILES
  | PK_ROLE_ENUM_INSTALL_SIGNATURE
  | PK_ROLE_ENUM_REMOVE_PACKAGES
  | PK_ROLE_ENUM_UPDATE_PACKAGES
  | PK_ROLE_ENUM_UPDATE_SYSTEM
  | PK_ROLE_ENUM_REFRESH_CACHE
  | PK_ROLE_ENUM_REPO_ENABLE
  | PK_ROLE_ENUM_REPO_SET_DATA
  | PK_ROLE_ENUM_ACCEPT_EULA
  | PK_ROLE_ENUM_GET_OLD_TRANSACTIONS

text \<open>
  \<open>PkStatusEnum\<close> is declared in pk-enum.h; pk-client.c names two of its members. Any
  other value is \<open>PK_STATUS_ENUM n\<close>, where \<open>n\<close> counts the values other than these
  two, so that each value of the C type is written in one way only.
\<close>

datatype PkStatusEnum = PK_STATUS_ENUM_UNKNOWN | PK_STATUS_ENUM_WAIT | PK_STATUS_ENUM nat

text \<open>
  \<open>PkFilterEnum\<close>, \<open>PkProvidesEnum\<close> and \<open>PkSigTypeEnum\<close> are declared in pk-enum.h
  too; again the members that pk-client.c names are kept apart, and any other value
  is written with an index that counts the values other than the named ones.
\<close>

datatype PkFilterEnum = PK_FILTER_ENUM_UNKNOWN | PK_FILTER_ENUM nat

datatype PkProvidesEnum = PK_PROVIDES_ENUM_UNKNOWN | PK_PROVIDES_ENUM nat

datatype PkSigTypeEnum = PK_SIGTYPE_ENUM_GPG | PK_SIGTYPE_ENUM_UNKNOWN | PK_SIGTYPE_ENUM nat

text \<open>
  \<open>PkRestartEnum\<close>, \<open>PkInfoEnum\<close>, \<open>PkExitEnum\<close>, \<open>PkGroupEnum\<close>, \<open>PkErrorCodeEnum\<close>
  and \<open>PkMessageEnum\<close> are C enumerations, that is unsigned integers; pk-client.c
  compares two restart values with \<open>>\<close>.
\<close>

type_synonym PkRestartEnum = nat
type_synonym PkInfoEnum = nat

text \<open>
  Modelled from the spec: \<open>PK_RESTART_ENUM_NONE\<close> is declared in pk-enum.h, which is not
  among the sources; \<open>none\<close> is the least restart level.
\<close>

definition PK_RESTART_ENUM_NONE :: PkRestartEnum where
  "PK_RESTART_ENUM_NONE = 0"

subsection \<open>The bus: method calls, signals of a transaction, signals of the client\<close>

datatype GValue = G_TYPE_STRING "string option" | G_TYPE_BOOLEAN bool | G_TYPE_UINT nat
  | G_TYPE_STRV "string list"

type_synonym bus_call = "string \<times> GValue list"

text \<open>The signals a transaction sends on the bus, with their textual payload.\<close>

datatype bus_signal =
    Finished string nat
  | ProgressChanged nat nat nat nat
  | StatusChanged string
  | Package string string string
  | Transaction string string bool string nat string
  | UpdateDetail string string string string string string string string
  | Details string string string string string nat
  | Files string string
  | RepoSignatureRequired string string string string string string string string
  | EulaRequired string string string string
  | RepoDetail string string bool
  | ErrorCode string string
  | RequireRestart string string
  | Message string string
  | CallerActiveChanged bool
  | AllowCancel bool

text \<open>The GObject signals the client emits to its observers (\<open>PkSignals\<close>), with their payload.\<close>

datatype PkSignals =
    PK_CLIENT_DETAILS string string nat string string nat
  | PK_CLIENT_ERROR_CODE nat string
  | PK_CLIENT_FILES string string
  | PK_CLIENT_FINISHED nat nat
  | PK_CLIENT_PACKAGE nat string string
  | PK_CLIENT_PROGRESS_CHANGED nat nat nat nat
  | PK_CLIENT_REQUIRE_RESTART nat string
  | PK_CLIENT_MESSAGE nat string
  | PK_CLIENT_TRANSACTION string string bool PkRoleEnum nat string
  | PK_CLIENT_STATUS_CHANGED PkStatusEnum
  | PK_CLIENT_UPDATE_DETAIL string string string string string string nat string
  | PK_CLIENT_REPO_SIGNATURE_REQUIRED string string string string string string string string
  | PK_CLIENT_EULA_REQUIRED string string string string
  | PK_CLIENT_CALLER_ACTIVE_CHANGED bool
  | PK_CLIENT_REPO_DETAIL string string bool
  | PK_CLIENT_ALLOW_CANCEL bool

text \<open>
  A \<open>DBusGProxy\<close> for a transaction: the object path it was made for and the names of
  the signals connected to callbacks of the client.
\<close>

record DBusGProxy =
  path :: string
  connected :: "string list"

subsection \<open>The client and the world around it\<close>

text \<open>
  \<open>PkClientPrivate\<close>. The handles \<open>connection\<close>, \<open>control\<close>, \<open>pconnection\<close> and
  \<open>polkit\<close> point to objects of the world; \<open>loop\<close> is the running flag of the private
  \<open>GMainLoop\<close>; \<open>package_list\<close> is the content of the \<open>PkPackageList\<close>.
\<close>

record PkClient =
  proxy :: "DBusGProxy option"
  loop :: bool
  is_finished :: bool
  use_buffer :: bool
  synchronous :: bool
  tid :: "string option"
  package_list :: "(PkInfoEnum \<times> string \<times> string) list"
  require_restart :: PkRestartEnum
  last_status :: PkStatusEnum
  role :: PkRoleEnum
  cached_force :: bool
  cached_allow_deps :: bool
  cached_autoremove :: bool
  cached_trusted :: bool
  cached_package_id :: "string option"
  cached_package_ids :: "string list option"
  cached_transaction_id :: "string option"
  cached_key_id :: "string option"
  cached_full_path :: "string option"
  cached_full_paths :: "string list option"
  cached_search :: "string option"
  cached_provides :: PkProvidesEnum
  cached_filters :: PkFilterEnum

text \<open>
  Everything outside pk-client.c. The converters of pk-enum are functions of the
  library. The daemon answers a method call by nothing (success) or by an error, and
  the answer may depend on all the calls made so far (\<open>dbus_log\<close>, oldest first, each
  with the path of the proxy); \<open>control_reply\<close> is the answer of
  \<open>pk_control_allocate_transaction_id\<close> to the n-th request; \<open>gain_privilege\<close> is
  the answer of PolicyKit to the requests made so far; \<open>pending\<close> holds the signals the
  transaction will send, oldest first; \<open>emitted\<close> is what the observers of the client
  have received; \<open>printf_without_argument\<close> is what the C library writes for a
  conversion of a format that finds no argument (see \<open>g_vasprintf\<close> below).
\<close>

record world =
  pk_exit_enum_from_text :: "string \<Rightarrow> nat"
  pk_status_enum_from_text :: "string \<Rightarrow> PkStatusEnum"
  pk_info_enum_from_text :: "string \<Rightarrow> PkInfoEnum"
  pk_role_enum_from_text :: "string \<Rightarrow> PkRoleEnum"
  pk_restart_enum_from_text :: "string \<Rightarrow> PkRestartEnum"
  pk_group_enum_from_text :: "string \<Rightarrow> nat"
  pk_error_enum_from_text :: "string \<Rightarrow> nat"
  pk_message_enum_from_text :: "string \<Rightarrow> nat"
  pk_filter_enums_to_text :: "PkFilterEnum \<Rightarrow> string"
  pk_provides_enum_to_text :: "PkProvidesEnum \<Rightarrow> string"
  pk_sig_type_enum_to_text :: "PkSigTypeEnum \<Rightarrow> string"
  realpath :: "string \<Rightarrow> string option"
  printf_without_argument :: "string \<Rightarrow> string"
  control_reply :: "nat \<Rightarrow> GError + string"
  control_calls :: nat
  proxy_new_ok :: "string \<Rightarrow> bool"
  dbus_reply :: "(string \<times> bus_call) list \<Rightarrow> GError option"
  dbus_log :: "(string \<times> bus_call) list"
  denied_by_policy :: "GError \<Rightarrow> bool"
  gain_privilege :: "string list \<Rightarrow> bool"
  polkit_log :: "string list"
  pending :: "bus_signal list"
  emitted :: "PkSignals list"

text \<open>\<open>g_signal_emit\<close>: the observers receive the signal; they do not call the client back.\<close>

definition g_signal_emit :: "PkSignals \<Rightarrow> world \<Rightarrow> world" where
  "g_signal_emit s w = w\<lparr>emitted := emitted w @ [s]\<rparr>"

text \<open>
  \<open>dbus_g_proxy_call\<close>: the call is made on the proxy and blocks for the reply of the
  daemon; no signal is dispatched meanwhile. The result is the error the call sets:
  \<open>None\<close> when it returns \<open>TRUE\<close>.
\<close>

definition dbus_g_proxy_call :: "DBusGProxy \<Rightarrow> bus_call \<Rightarrow> world \<Rightarrow> GError option \<times> world" where
  "dbus_g_proxy_call p c w =
     (let log = dbus_log w @ [(path p, c)]
      in (dbus_reply w log, w\<lparr>dbus_log := log\<rparr>))"

subsection \<open>Local functions\<close>

text \<open>
  \<open>g_vasprintf\<close> for a format that is followed by no argument: the text is the format
  with each \<open>%%\<close> written as \<open>%\<close>. Any other conversion takes an argument and finds
  none; C leaves open what is written then, and the world gives the text that the
  library makes of the rest of the format, from the character after the \<open>%\<close> on.
\<close>

fun g_vasprintf :: "world \<Rightarrow> string \<Rightarrow> string" where
  "g_vasprintf w [] = []"
| "g_vasprintf w [c] = (if c = CHR ''%'' then printf_without_argument w [] else [c])"
| "g_vasprintf w (c # d # cs) =
     (if c \<noteq> CHR ''%'' then c # g_vasprintf w (d # cs)
      else if d = CHR ''%'' then CHR ''%'' # g_vasprintf w cs
      else printf_without_argument w (d # cs))"

text \<open>
  \<open>pk_client_error_set\<close>, from the text \<open>buffer\<close> that \<open>g_vasprintf\<close> has made of the
  format and the arguments: an error that was already there is cleared, and the new
  one is set in the domain of the client. Where the format is a literal (its only
  conversions are \<open>%s\<close>, each with its argument) the callers below pass the text with
  the arguments put in; the one format that is not a literal goes through
  \<open>g_vasprintf\<close>.
\<close>

definition pk_client_error_set :: "GError option \<Rightarrow> int \<Rightarrow> string \<Rightarrow> GError option" where
  "pk_client_error_set error c buffer =
     Some \<lparr>domain = PK_CLIENT_ERROR, code = c, message = buffer\<rparr>"

definition pk_client_error_fixup :: "GError option \<Rightarrow> GError option" where
  "pk_client_error_fixup error =
     (case error of
        None \<Rightarrow> None
      | Some e \<Rightarrow>
          if domain e = DBUS_GERROR \<and> code e = DBUS_GERROR_REMOTE_EXCEPTION
          then Some (e\<lparr>code := PK_CLIENT_ERROR_FAILED\<rparr>)
          else Some e)"

definition pk_client_get_tid :: "PkClient \<Rightarrow> string option" where
  "pk_client_get_tid client = tid client"

definition pk_client_set_use_buffer :: "PkClient \<Rightarrow> bool \<Rightarrow> gresult \<times> PkClient" where
  "pk_client_set_use_buffer client b =
     (if use_buffer client
      then ((False, pk_client_error_set None PK_CLIENT_ERROR_FAILED ''already set use_buffer!''), client)
      else ((True, None), client\<lparr>use_buffer := b\<rparr>))"

definition pk_client_set_synchronous :: "PkClient \<Rightarrow> bool \<Rightarrow> gresult \<times> PkClient" where
  "pk_client_set_synchronous client b =
     (if synchronous client
      then ((False, pk_client_error_set None PK_CLIENT_ERROR_FAILED ''already set synchronous!''), client)
      else ((True, None), client\<lparr>synchronous := b\<rparr>))"

definition pk_client_get_use_buffer :: "PkClient \<Rightarrow> bool" where
  "pk_client_get_use_buffer client = use_buffer client"

definition pk_client_get_require_restart :: "PkClient \<Rightarrow> PkRestartEnum" where
  "pk_client_get_require_restart client = require_restart client"

text \<open>
  \<open>pk_client_get_package_list\<close> returns the list object of the client, or \<open>NULL\<close>
  (here \<open>None\<close>) when the buffer is not in use.
\<close>

definition pk_client_get_package_list :: "PkClient \<Rightarrow> (PkInfoEnum \<times> string \<times> string) list option" where
  "pk_client_get_package_list client =
     (if \<not> use_buffer client then None else Some (package_list client))"

text \<open>
  Modelled from the spec: \<open>pk_package_list_add\<close> and \<open>pk_package_list_clear\<close> of
  pk-package-list.c, which is not among the sources. The list is append-only, in
  arrival order, and keeps duplicates.
\<close>

definition pk_package_list_add ::
  "(PkInfoEnum \<times> string \<times> string) list \<Rightarrow> PkInfoEnum \<Rightarrow> string \<Rightarrow> string \<Rightarrow> (PkInfoEnum \<times> string \<times> string) list" where
  "pk_package_list_add l info package_id summary = l @ [(info, package_id, summary)]"

definition pk_package_list_clear :: "(PkInfoEnum \<times> string \<times> string) list \<Rightarrow> (PkInfoEnum \<times> string \<times> string) list" where
  "pk_package_list_clear l = []"

subsection \<open>The callbacks of the signals of the transaction\<close>

definition pk_client_finished_cb :: "string \<Rightarrow> nat \<Rightarrow> PkClient \<Rightarrow> world \<Rightarrow> PkClient \<times> world" where
  "pk_client_finished_cb exit_text runtime client w =
     (let exit = pk_exit_enum_from_text w exit_text;
          client = client\<lparr>is_finished := True\<rparr>;
          w = g_signal_emit (PK_CLIENT_FINISHED exit runtime) w;
          client = (if synchronous client then client\<lparr>loop := False\<rparr> else client)
      in (client, w))"

definition pk_client_progress_changed_cb ::
  "nat \<Rightarrow> nat \<Rightarrow> nat \<Rightarrow> nat \<Rightarrow> PkClient \<Rightarrow> world \<Rightarrow> PkClient \<times> world" where
  "pk_client_progress_changed_cb percentage subpercentage elapsed remaining client w =
     (client, g_signal_emit (PK_CLIENT_PROGRESS_CHANGED percentage subpercentage elapsed remaining) w)"

definition pk_client_change_status :: "PkClient \<Rightarrow> PkStatusEnum \<Rightarrow> world \<Rightarrow> PkClient \<times> world" where
  "pk_client_change_status client status w =
     (let w = g_signal_emit (PK_CLIENT_STATUS_CHANGED status) w
      in (client\<lparr>last_status := status\<rparr>, w))"

definition pk_client_status_changed_cb :: "string \<Rightarrow> PkClient \<Rightarrow> world \<Rightarrow> PkClient \<times> world" where
  "pk_client_status_changed_cb status_text client w =
     (let status = pk_status_enum_from_text w status_text
      in pk_client_change_status client status w)"

definition pk_client_package_cb :: "string \<Rightarrow> string \<Rightarrow> string \<Rightarrow> PkClient \<Rightarrow> world \<Rightarrow> PkClient \<times> world" where
  "pk_client_package_cb info_text package_id summary client w =
     (let info = pk_info_enum_from_text w info_text;
          w = g_signal_emit (PK_CLIENT_PACKAGE info package_id summary) w
      in if use_buffer client \<or> synchronous client
         then (client\<lparr>package_list := pk_package_list_add (package_list client) info package_id summary\<rparr>, w)
         else (client, w))"

definition pk_client_transaction_cb ::
  "string \<Rightarrow> string \<Rightarrow> bool \<Rightarrow> string \<Rightarrow> nat \<Rightarrow> string \<Rightarrow> PkClient \<Rightarrow> world \<Rightarrow> PkClient \<times> world" where
  "pk_client_transaction_cb old_tid timespec succeeded role_text duration data client w =
     (let r = pk_role_enum_from_text w role_text
      in (client, g_signal_emit (PK_CLIENT_TRANSACTION old_tid timespec succeeded r duration data) w))"

definition pk_client_update_detail_cb ::
  "string \<Rightarrow> string \<Rightarrow> string \<Rightarrow> string \<Rightarrow> string \<Rightarrow> string \<Rightarrow> string \<Rightarrow> string \<Rightarrow> PkClient \<Rightarrow> world \<Rightarrow> PkClient \<times> world" where
  "pk_client_update_detail_cb package_id updates obsoletes vendor_url bugzilla_url cve_url restart_text update_text client w =
     (let restart = pk_restart_enum_from_text w restart_text
      in (client, g_signal_emit (PK_CLIENT_UPDATE_DETAIL package_id updates obsoletes vendor_url bugzilla_url cve_url restart update_text) w))"

definition pk_client_details_cb ::
  "string \<Rightarrow> string \<Rightarrow> string \<Rightarrow> string \<Rightarrow> string \<Rightarrow> nat \<Rightarrow> PkClient \<Rightarrow> world \<Rightarrow> PkClient \<times> world" where
  "pk_client_details_cb package_id license group_text description url sz client w =
     (let group = pk_group_enum_from_text w group_text
      in (client, g_signal_emit (PK_CLIENT_DETAILS package_id license group description url sz) w))"

definition pk_client_files_cb :: "string \<Rightarrow> string \<Rightarrow> PkClient \<Rightarrow> world \<Rightarrow> PkClient \<times> world" where
  "pk_client_files_cb package_id filelist client w =
     (client, g_signal_emit (PK_CLIENT_FILES package_id filelist) w)"

definition pk_client_repo_signature_required_cb ::
  "string \<Rightarrow> string \<Rightarrow> string \<Rightarrow> string \<Rightarrow> string \<Rightarrow> string \<Rightarrow> string \<Rightarrow> string \<Rightarrow> PkClient \<Rightarrow> world \<Rightarrow> PkClient \<times> world" where
  "pk_client_repo_signature_required_cb package_id repository_name key_url key_userid key_id key_fingerprint key_timestamp type_text client w =
     (client, g_signal_emit (PK_CLIENT_REPO_SIGNATURE_REQUIRED package_id repository_name key_url key_userid key_id key_fingerprint key_timestamp type_text) w)"

definition pk_client_eula_required_cb ::
  "string \<Rightarrow> string \<Rightarrow> string \<Rightarrow> string \<Rightarrow> PkClient \<Rightarrow> world \<Rightarrow> PkClient \<times> world" where
  "pk_client_eula_required_cb eula_id package_id vendor_name license_agreement client w =
     (client, g_signal_emit (PK_CLIENT_EULA_REQUIRED eula_id package_id vendor_name license_agreement) w)"

definition pk_client_repo_detail_cb :: "string \<Rightarrow> string \<Rightarrow> bool \<Rightarrow> PkClient \<Rightarrow> world \<Rightarrow> PkClient \<times> world" where
  "pk_client_repo_detail_cb repo_id description enabled client w =
     (client, g_signal_emit (PK_CLIENT_REPO_DETAIL repo_id description enabled) w)"

definition pk_client_error_code_cb :: "string \<Rightarrow> string \<Rightarrow> PkClient \<Rightarrow> world \<Rightarrow> PkClient \<times> world" where
  "pk_client_error_code_cb code_text details client w =
     (let c = pk_error_enum_from_text w code_text
      in (client, g_signal_emit (PK_CLIENT_ERROR_CODE c details) w))"

definition pk_client_allow_cancel_cb :: "bool \<Rightarrow> PkClient \<Rightarrow> world \<Rightarrow> PkClient \<times> world" where
  "pk_client_allow_cancel_cb allow_cancel client w =
     (client, g_signal_emit (PK_CLIENT_ALLOW_CANCEL allow_cancel) w)"

definition pk_client_caller_active_changed_cb :: "bool \<Rightarrow> PkClient \<Rightarrow> world \<Rightarrow> PkClient \<times> world" where
  "pk_client_caller_active_changed_cb is_active client w =
     (client, g_signal_emit (PK_CLIENT_CALLER_ACTIVE_CHANGED is_active) w)"

definition pk_client_require_restart_cb :: "string \<Rightarrow> string \<Rightarrow> PkClient \<Rightarrow> world \<Rightarrow> PkClient \<times> world" where
  "pk_client_require_restart_cb restart_text details client w =
     (let restart = pk_restart_enum_from_text w restart_text;
          w = g_signal_emit (PK_CLIENT_REQUIRE_RESTART restart details) w
      in if restart > require_restart client
         then (client\<lparr>require_restart := restart\<rparr>, w)
         else (client, w))"

definition pk_client_message_cb :: "string \<Rightarrow> string \<Rightarrow> PkClient \<Rightarrow> world \<Rightarrow> PkClient \<times> world" where
  "pk_client_message_cb message_text details client w =
     (let m = pk_message_enum_from_text w message_text
      in (client, g_signal_emit (PK_CLIENT_MESSAGE m details) w))"

text \<open>
  The connections made by \<open>pk_client_set_tid\<close> (\<open>dbus_g_proxy_connect_signal\<close>): which
  callback a signal of the transaction runs.
\<close>

fun dbus_g_proxy_signal :: "bus_signal \<Rightarrow> PkClient \<Rightarrow> world \<Rightarrow> PkClient \<times> world" where
  "dbus_g_proxy_signal (Finished exit_text runtime) = pk_client_finished_cb exit_text runtime"
| "dbus_g_proxy_signal (ProgressChanged p s e r) = pk_client_progress_changed_cb p s e r"
| "dbus_g_proxy_signal (StatusChanged t) = pk_client_status_changed_cb t"
| "dbus_g_proxy_signal (Package i p s) = pk_client_package_cb i p s"
| "dbus_g_proxy_signal (Transaction a b c d e f) = pk_client_transaction_cb a b c d e f"
| "dbus_g_proxy_signal (UpdateDetail a b c d e f g h) = pk_client_update_detail_cb a b c d e f g h"
| "dbus_g_proxy_signal (Details a b c d e f) = pk_client_details_cb a b c d e f"
| "dbus_g_proxy_signal (Files a b) = pk_client_files_cb a b"
| "dbus_g_proxy_signal (RepoSignatureRequired a b c d e f g h) = pk_client_repo_signature_required_cb a b c d e f g h"
| "dbus_g_proxy_signal (EulaRequired a b c d) = pk_client_eula_required_cb a b c d"
| "dbus_g_proxy_signal (RepoDetail a b c) = pk_client_repo_detail_cb a b c"
| "dbus_g_proxy_signal (ErrorCode a b) = pk_client_error_code_cb a b"
| "dbus_g_proxy_signal (RequireRestart a b) = pk_client_require_restart_cb a b"
| "dbus_g_proxy_signal (Message a b) = pk_client_message_cb a b"
| "dbus_g_proxy_signal (CallerActiveChanged a) = pk_client_caller_active_changed_cb a"
| "dbus_g_proxy_signal (AllowCancel a) = pk_client_allow_cancel_cb a"

text \<open>A sequence of signals delivered to the client one after the other, oldest first.\<close>

fun deliver :: "bus_signal list \<Rightarrow> PkClient \<Rightarrow> world \<Rightarrow> PkClient \<times> world" where
  "deliver [] client w = (client, w)"
| "deliver (s # ss) client w = (case dbus_g_proxy_signal s client w of (client', w') \<Rightarrow> deliver ss client' w')"


subsection \<open>Helpers from the other files of the library\<close>

text \<open>
  Modelled from the spec: \<open>pk_package_id_check\<close>, \<open>pk_package_ids_check\<close> and
  \<open>pk_package_ids_to_text\<close> of pk-package-id.c and pk-package-ids.c, which are not among
  the sources. A package id is valid when it is built from four fields delimited by
  semicolons; a vector of ids is valid when each id is; the text of a vector is its ids
  joined by the delimiter.
\<close>

definition pk_package_id_check :: "string \<Rightarrow> bool" where
  "pk_package_id_check package_id = (length (filter (\<lambda>c. c = CHR '';'') package_id) = 3)"

definition pk_package_ids_check :: "string list \<Rightarrow> bool" where
  "pk_package_ids_check package_ids = list_all pk_package_id_check package_ids"

fun pk_package_ids_to_text :: "string list \<Rightarrow> string \<Rightarrow> string" where
  "pk_package_ids_to_text [] delimiter = []"
| "pk_package_ids_to_text [x] delimiter = x"
| "pk_package_ids_to_text (x # y # ys) delimiter = x @ delimiter @ pk_package_ids_to_text (y # ys) delimiter"

text \<open>
  Modelled from the spec: \<open>pk_strequal\<close> of pk-common.c (not among the sources) is
  equality of two strings that are both there.
\<close>

definition pk_strequal :: "string option \<Rightarrow> string option \<Rightarrow> bool" where
  "pk_strequal a b = (a \<noteq> None \<and> a = b)"

definition g_str_has_suffix :: "string \<Rightarrow> string \<Rightarrow> bool" where
  "g_str_has_suffix str sfx = suffix sfx str"

text \<open>A \<open>NULL\<close>-terminated vector of strings, read up to its first \<open>NULL\<close>.\<close>

definition g_strv :: "string option list \<Rightarrow> string list" where
  "g_strv v = map the (takeWhile (\<lambda>x. x \<noteq> None) v)"

text \<open>
  Modelled from the spec: \<open>pk_polkit_client_error_denied_by_policy\<close> and
  \<open>pk_polkit_client_gain_privilege_str\<close> of pk-polkit-client.c, which is not among the
  sources. No error is no denial; an error is a denial by policy when the world
  classifies it so; the broker is asked with the policy text and grants or denies.
\<close>

definition pk_polkit_client_error_denied_by_policy :: "world \<Rightarrow> GError option \<Rightarrow> bool" where
  "pk_polkit_client_error_denied_by_policy w error =
     (case error of None \<Rightarrow> False | Some e \<Rightarrow> denied_by_policy w e)"

definition pk_polkit_client_gain_privilege_str :: "string \<Rightarrow> world \<Rightarrow> bool \<times> world" where
  "pk_polkit_client_gain_privilege_str pk_action w =
     (let log = polkit_log w @ [pk_action]
      in (gain_privilege w log, w\<lparr>polkit_log := log\<rparr>))"

text \<open>
  \<open>g_main_loop_run\<close> on the private loop of the client: the signals of the transaction
  are dispatched in order until a callback stops the loop. When the signals run out
  before that, the call never returns: \<open>None\<close>.
\<close>

fun g_main_loop_iterate :: "bus_signal list \<Rightarrow> PkClient \<Rightarrow> world \<Rightarrow> (PkClient \<times> world) option" where
  "g_main_loop_iterate [] client w = None"
| "g_main_loop_iterate (s # ss) client w =
     (case dbus_g_proxy_signal s client (w\<lparr>pending := ss\<rparr>) of
        (client', w') \<Rightarrow>
          if loop client' then g_main_loop_iterate ss client' w' else Some (client', w'))"

definition g_main_loop_run :: "PkClient \<Rightarrow> world \<Rightarrow> (PkClient \<times> world) option" where
  "g_main_loop_run client w = g_main_loop_iterate (pending w) (client\<lparr>loop := True\<rparr>) w"

subsection \<open>Cancelling, binding a transaction id\<close>

definition pk_client_cancel :: "PkClient \<Rightarrow> world \<Rightarrow> gresult \<times> world" where
  "pk_client_cancel client w =
     (case proxy client of
        None \<Rightarrow> ((True, None), w)
      | Some p \<Rightarrow>
          (case dbus_g_proxy_call p (''Cancel'', []) w of
             (None, w) \<Rightarrow> ((True, None), w)
           | (Some error_local, w) \<Rightarrow>
               if pk_strequal (Some (message error_local)) (Some ''cancelling a non-running transaction'')
                  \<or> g_str_has_suffix (message error_local) ('' doesn't exist'' @ [CHR 0x0A])
               then ((True, None), w)
               else ((False, pk_client_error_fixup (Some error_local)), w)))"

definition transaction_signals :: "string list" where
  "transaction_signals =
     [''Finished'', ''ProgressChanged'', ''StatusChanged'', ''Package'', ''Transaction'',
      ''UpdateDetail'', ''Details'', ''Files'', ''RepoSignatureRequired'', ''EulaRequired'',
      ''RepoDetail'', ''ErrorCode'', ''RequireRestart'', ''Message'', ''CallerActiveChanged'',
      ''AllowCancel'']"

definition pk_client_set_tid :: "PkClient \<Rightarrow> string \<Rightarrow> world \<Rightarrow> gresult \<times> PkClient" where
  "pk_client_set_tid client t w =
     (if tid client \<noteq> None
      then ((False, pk_client_error_set None PK_CLIENT_ERROR_ALREADY_TID
               ''cannot set the tid on an already set client''), client)
      else if \<not> proxy_new_ok w t
      then ((False, pk_client_error_set None PK_CLIENT_ERROR_ALREADY_TID
               (''Cannot connect to PackageKit tid '' @ t)), client)
      else ((True, None),
            client\<lparr>tid := Some t, proxy := Some \<lparr>path = t, connected = transaction_signals\<rparr>\<rparr>))"

definition pk_client_allocate_transaction_id :: "PkClient \<Rightarrow> world \<Rightarrow> gresult \<times> PkClient \<times> world" where
  "pk_client_allocate_transaction_id client w =
     (let n = control_calls w;
          w = w\<lparr>control_calls := Suc n\<rparr>
      in case control_reply w n of
           Inl e \<Rightarrow> ((False, Some e), client, w)
         | Inr t \<Rightarrow> (case pk_client_set_tid client t w of (r, client) \<Rightarrow> (r, client, w)))"

text \<open>
  The end of every action, the same text in each of them: when the call was accepted
  and the transaction has not finished, the status becomes \<open>wait\<close> and a synchronous
  client spins its loop until the transaction finishes.
\<close>

definition pk_client_wait :: "bool \<Rightarrow> PkClient \<Rightarrow> world \<Rightarrow> (PkClient \<times> world) option" where
  "pk_client_wait ret client w =
     (if ret \<and> \<not> is_finished client
      then (case pk_client_change_status client PK_STATUS_ENUM_WAIT w of
              (client, w) \<Rightarrow>
                if synchronous client then g_main_loop_run client w else Some (client, w))
      else Some (client, w))"

type_synonym action_result = "(gresult \<times> PkClient \<times> world) option"

definition no_proxy :: "GError option" where
  "no_proxy = pk_client_error_set None PK_CLIENT_ERROR_NO_TID ''No proxy for transaction''"


subsection \<open>Actions that need no privilege\<close>

text \<open>
  The text shared by these actions after the request has been cached: without a proxy
  the action fails with \<open>NoTid\<close>; otherwise the method is called on the proxy, the
  client waits as above, the error is fixed up and the result of the call is returned.
\<close>

definition pk_client_proxy_call :: "bus_call \<Rightarrow> PkClient \<Rightarrow> world \<Rightarrow> action_result" where
  "pk_client_proxy_call c client w =
     (case proxy client of
        None \<Rightarrow> Some ((False, no_proxy), client, w)
      | Some p \<Rightarrow>
          (case dbus_g_proxy_call p c w of
             (error, w) \<Rightarrow>
               map_option (\<lambda>(client, w). ((error = None, pk_client_error_fixup error), client, w))
                 (pk_client_wait (error = None) client w)))"

definition invalid_package_id :: "string \<Rightarrow> GError option" where
  "invalid_package_id package_id =
     pk_client_error_set None PK_CLIENT_ERROR_INVALID_PACKAGEID
       (''package_id '' @ [CHR 0x27] @ package_id @ [CHR 0x27] @ '' is not valid'')"

definition invalid_package_ids :: "string list \<Rightarrow> GError option" where
  "invalid_package_ids package_ids =
     pk_client_error_set None PK_CLIENT_ERROR_INVALID_PACKAGEID
       (''package_ids '' @ [CHR 0x27] @ pk_package_ids_to_text package_ids '', '' @ [CHR 0x27]
          @ '' are not valid'')"

definition pk_client_get_updates :: "PkClient \<Rightarrow> PkFilterEnum \<Rightarrow> world \<Rightarrow> action_result" where
  "pk_client_get_updates client filters w =
     (case pk_client_allocate_transaction_id client w of
        ((ret, error), client, w) \<Rightarrow>
          if \<not> ret then Some ((False, error), client, w)
          else
            pk_client_proxy_call
              (''GetUpdates'', [G_TYPE_STRING (Some (pk_filter_enums_to_text w filters))])
              (client\<lparr>role := PK_ROLE_ENUM_GET_UPDATES, cached_filters := filters\<rparr>) w)"

definition pk_client_search_name :: "PkClient \<Rightarrow> PkFilterEnum \<Rightarrow> string option \<Rightarrow> world \<Rightarrow> action_result" where
  "pk_client_search_name client filters search w =
     (case pk_client_allocate_transaction_id client w of
        ((ret, error), client, w) \<Rightarrow>
          if \<not> ret then Some ((False, error), client, w)
          else
            pk_client_proxy_call
              (''SearchName'', [G_TYPE_STRING (Some (pk_filter_enums_to_text w filters)), G_TYPE_STRING search])
              (client\<lparr>role := PK_ROLE_ENUM_SEARCH_NAME, cached_filters := filters, cached_search := search\<rparr>) w)"

definition pk_client_search_details :: "PkClient \<Rightarrow> PkFilterEnum \<Rightarrow> string option \<Rightarrow> world \<Rightarrow> action_result" where
  "pk_client_search_details client filters search w =
     (case pk_client_allocate_transaction_id client w of
        ((ret, error), client, w) \<Rightarrow>
          if \<not> ret then Some ((False, error), client, w)
          else
            pk_client_proxy_call
              (''SearchDetails'', [G_TYPE_STRING (Some (pk_filter_enums_to_text w filters)), G_TYPE_STRING search])
              (client\<lparr>role := PK_ROLE_ENUM_SEARCH_DETAILS, cached_filters := filters, cached_search := search\<rparr>) w)"

definition pk_client_search_group :: "PkClient \<Rightarrow> PkFilterEnum \<Rightarrow> string option \<Rightarrow> world \<Rightarrow> action_result" where
  "pk_client_search_group client filters search w =
     (case pk_client_allocate_transaction_id client w of
        ((ret, error), client, w) \<Rightarrow>
          if \<not> ret then Some ((False, error), client, w)
          else
            pk_client_proxy_call
              (''SearchGroup'', [G_TYPE_STRING (Some (pk_filter_enums_to_text w filters)), G_TYPE_STRING search])
              (client\<lparr>role := PK_ROLE_ENUM_SEARCH_GROUP, cached_filters := filters, cached_search := search\<rparr>) w)"

definition pk_client_search_file :: "PkClient \<Rightarrow> PkFilterEnum \<Rightarrow> string option \<Rightarrow> world \<Rightarrow> action_result" where
  "pk_client_search_file client filters search w =
     (case pk_client_allocate_transaction_id client w of
        ((ret, error), client, w) \<Rightarrow>
          if \<not> ret then Some ((False, error), client, w)
          else
            pk_client_proxy_call
              (''SearchFile'', [G_TYPE_STRING (Some (pk_filter_enums_to_text w filters)), G_TYPE_STRING search])
              (client\<lparr>role := PK_ROLE_ENUM_SEARCH_FILE, cached_filters := filters, cached_search := search\<rparr>) w)"

definition pk_client_get_depends ::
  "PkClient \<Rightarrow> PkFilterEnum \<Rightarrow> string option \<Rightarrow> bool \<Rightarrow> world \<Rightarrow> action_result" where
  "pk_client_get_depends client filters package_id recursive w =
     (case package_id of
        None \<Rightarrow> Some ((False, None), client, w)
      | Some pid \<Rightarrow>
          if \<not> pk_package_id_check pid then Some ((False, invalid_package_id pid), client, w)
          else
            (case pk_client_allocate_transaction_id client w of
               ((ret, error), client, w) \<Rightarrow>
                 if \<not> ret then Some ((False, error), client, w)
                 else
                   pk_client_proxy_call
                     (''GetDepends'', [G_TYPE_STRING (Some (pk_filter_enums_to_text w filters)),
                        G_TYPE_STRING (Some pid), G_TYPE_BOOLEAN recursive])
                     (client\<lparr>role := PK_ROLE_ENUM_GET_DEPENDS, cached_filters := filters,
                        cached_package_id := Some pid, cached_force := recursive\<rparr>) w))"

definition pk_client_get_packages :: "PkClient \<Rightarrow> PkFilterEnum \<Rightarrow> world \<Rightarrow> action_result" where
  "pk_client_get_packages client filters w =
     (case pk_client_allocate_transaction_id client w of
        ((ret, error), client, w) \<Rightarrow>
          if \<not> ret then Some ((False, error), client, w)
          else
            pk_client_proxy_call
              (''GetPackages'', [G_TYPE_STRING (Some (pk_filter_enums_to_text w filters))])
              (client\<lparr>role := PK_ROLE_ENUM_GET_PACKAGES, cached_filters := filters\<rparr>) w)"

definition pk_client_get_requires ::
  "PkClient \<Rightarrow> PkFilterEnum \<Rightarrow> string option \<Rightarrow> bool \<Rightarrow> world \<Rightarrow> action_result" where
  "pk_client_get_requires client filters package_id recursive w =
     (case package_id of
        None \<Rightarrow> Some ((False, None), client, w)
      | Some pid \<Rightarrow>
          if \<not> pk_package_id_check pid then Some ((False, invalid_package_id pid), client, w)
          else
            (case pk_client_allocate_transaction_id client w of
               ((ret, error), client, w) \<Rightarrow>
                 if \<not> ret then Some ((False, error), client, w)
                 else
                   pk_client_proxy_call
                     (''GetRequires'', [G_TYPE_STRING (Some (pk_filter_enums_to_text w filters)),
                        G_TYPE_STRING (Some pid), G_TYPE_BOOLEAN recursive])
                     (client\<lparr>role := PK_ROLE_ENUM_GET_REQUIRES, cached_filters := filters,
                        cached_package_id := Some pid, cached_force := recursive\<rparr>) w))"

definition pk_client_what_provides ::
  "PkClient \<Rightarrow> PkFilterEnum \<Rightarrow> PkProvidesEnum \<Rightarrow> string option \<Rightarrow> world \<Rightarrow> action_result" where
  "pk_client_what_provides client filters provides search w =
     (if provides = PK_PROVIDES_ENUM_UNKNOWN \<or> search = None then Some ((False, None), client, w)
      else
        (case pk_client_allocate_transaction_id client w of
           ((ret, error), client, w) \<Rightarrow>
             if \<not> ret then Some ((False, error), client, w)
             else
               pk_client_proxy_call
                 (''WhatProvides'', [G_TYPE_STRING (Some (pk_filter_enums_to_text w filters)),
                    G_TYPE_STRING (Some (pk_provides_enum_to_text w provides)), G_TYPE_STRING search])
                 (client\<lparr>role := PK_ROLE_ENUM_WHAT_PROVIDES, cached_search := search,
                    cached_filters := filters, cached_provides := provides\<rparr>) w))"

definition pk_client_get_update_detail :: "PkClient \<Rightarrow> string option \<Rightarrow> world \<Rightarrow> action_result" where
  "pk_client_get_update_detail client package_id w =
     (case package_id of
        None \<Rightarrow> Some ((False, None), client, w)
      | Some pid \<Rightarrow>
          if \<not> pk_package_id_check pid then Some ((False, invalid_package_id pid), client, w)
          else
            (case pk_client_allocate_transaction_id client w of
               ((ret, error), client, w) \<Rightarrow>
                 if \<not> ret then Some ((False, error), client, w)
                 else
                   pk_client_proxy_call (''GetUpdateDetail'', [G_TYPE_STRING (Some pid)])
                     (client\<lparr>role := PK_ROLE_ENUM_GET_UPDATE_DETAIL, cached_package_id := Some pid\<rparr>) w))"

definition pk_client_rollback :: "PkClient \<Rightarrow> string option \<Rightarrow> world \<Rightarrow> action_result" where
  "pk_client_rollback client transaction_id w =
     (case pk_client_allocate_transaction_id client w of
        ((ret, error), client, w) \<Rightarrow>
          if \<not> ret then Some ((False, error), client, w)
          else
            pk_client_proxy_call (''Rollback'', [G_TYPE_STRING transaction_id])
              (client\<lparr>role := PK_ROLE_ENUM_ROLLBACK, cached_transaction_id := transaction_id\<rparr>) w)"

definition pk_client_resolve :: "PkClient \<Rightarrow> PkFilterEnum \<Rightarrow> string option \<Rightarrow> world \<Rightarrow> action_result" where
  "pk_client_resolve client filters package w =
     (case package of
        None \<Rightarrow> Some ((False, None), client, w)
      | Some pkg \<Rightarrow>
          (case pk_client_allocate_transaction_id client w of
             ((ret, error), client, w) \<Rightarrow>
               if \<not> ret then Some ((False, error), client, w)
               else
                 pk_client_proxy_call
                   (''Resolve'', [G_TYPE_STRING (Some (pk_filter_enums_to_text w filters)),
                      G_TYPE_STRING (Some pkg)])
                   (client\<lparr>role := PK_ROLE_ENUM_RESOLVE, cached_filters := filters,
                      cached_package_id := Some pkg\<rparr>) w))"

definition pk_client_get_details :: "PkClient \<Rightarrow> string option \<Rightarrow> world \<Rightarrow> action_result" where
  "pk_client_get_details client package_id w =
     (case package_id of
        None \<Rightarrow> Some ((False, None), client, w)
      | Some pid \<Rightarrow>
          if \<not> pk_package_id_check pid then Some ((False, invalid_package_id pid), client, w)
          else
            (case pk_client_allocate_transaction_id client w of
               ((ret, error), client, w) \<Rightarrow>
                 if \<not> ret then Some ((False, error), client, w)
                 else
                   pk_client_proxy_call (''GetDetails'', [G_TYPE_STRING (Some pid)])
                     (client\<lparr>role := PK_ROLE_ENUM_GET_DETAILS, cached_package_id := Some pid\<rparr>) w))"

definition pk_client_get_files :: "PkClient \<Rightarrow> string option \<Rightarrow> world \<Rightarrow> action_result" where
  "pk_client_get_files client package_id w =
     (case package_id of
        None \<Rightarrow> Some ((False, None), client, w)
      | Some pid \<Rightarrow>
          if \<not> pk_package_id_check pid then Some ((False, invalid_package_id pid), client, w)
          else
            (case pk_client_allocate_transaction_id client w of
               ((ret, error), client, w) \<Rightarrow>
                 if \<not> ret then Some ((False, error), client, w)
                 else
                   pk_client_proxy_call (''GetFiles'', [G_TYPE_STRING (Some pid)])
                     (client\<lparr>role := PK_ROLE_ENUM_GET_FILES, cached_package_id := Some pid\<rparr>) w))"

text \<open>In \<open>pk_client_get_repo_list\<close> the error is fixed up before the client waits.\<close>

definition pk_client_get_repo_list :: "PkClient \<Rightarrow> PkFilterEnum \<Rightarrow> world \<Rightarrow> action_result" where
  "pk_client_get_repo_list client filters w =
     (case pk_client_allocate_transaction_id client w of
        ((ret, error), client, w) \<Rightarrow>
          if \<not> ret then Some ((False, error), client, w)
          else
            (let client = client\<lparr>role := PK_ROLE_ENUM_GET_REPO_LIST, cached_filters := filters\<rparr>
             in case proxy client of
                  None \<Rightarrow> Some ((False, no_proxy), client, w)
                | Some p \<Rightarrow>
                    (case dbus_g_proxy_call p
                            (''GetRepoList'', [G_TYPE_STRING (Some (pk_filter_enums_to_text w filters))]) w of
                       (error, w) \<Rightarrow>
                         (let fixed = pk_client_error_fixup error
                          in map_option (\<lambda>(client, w). ((error = None, fixed), client, w))
                               (pk_client_wait (error = None) client w)))))"

text \<open>
  \<open>pk_client_get_old_transactions\<close> caches nothing, not even the role, and never spins
  the loop.
\<close>

definition pk_client_get_old_transactions :: "PkClient \<Rightarrow> nat \<Rightarrow> world \<Rightarrow> action_result" where
  "pk_client_get_old_transactions client number w =
     (case pk_client_allocate_transaction_id client w of
        ((ret, error), client, w) \<Rightarrow>
          if \<not> ret then Some ((False, error), client, w)
          else
            (case proxy client of
               None \<Rightarrow> Some ((False, no_proxy), client, w)
             | Some p \<Rightarrow>
                 (case dbus_g_proxy_call p (''GetOldTransactions'', [G_TYPE_UINT number]) w of
                    (error, w) \<Rightarrow>
                      (let fixed = pk_client_error_fixup error
                       in if error = None \<and> \<not> is_finished client
                          then (case pk_client_change_status client PK_STATUS_ENUM_WAIT w of
                                  (client, w) \<Rightarrow> Some ((error = None, fixed), client, w))
                          else Some ((error = None, fixed), client, w)))))"


subsection \<open>Actions that may need a privilege\<close>

definition pk_client_update_system_action :: "PkClient \<Rightarrow> world \<Rightarrow> GError option \<times> world" where
  "pk_client_update_system_action client w =
     (case proxy client of
        None \<Rightarrow> (no_proxy, w)
      | Some p \<Rightarrow> dbus_g_proxy_call p (''UpdateSystem'', []) w)"

text \<open>
  \<open>pk_client_update_system\<close>. A denial that remains after the broker was asked is
  reported as \<open>FailedAuth\<close>; the message of the error at hand is the format of
  \<open>pk_client_error_set\<close>, with no argument after it. The error of a failed call is
  propagated as it is.
\<close>

definition pk_client_update_system :: "PkClient \<Rightarrow> world \<Rightarrow> action_result" where
  "pk_client_update_system client w =
     (case pk_client_allocate_transaction_id client w of
        ((ret, error), client, w) \<Rightarrow>
          if \<not> ret then Some ((False, error), client, w)
          else
            (let client = client\<lparr>role := PK_ROLE_ENUM_UPDATE_SYSTEM\<rparr>
             in case pk_client_update_system_action client w of
                  (error_pk, w) \<Rightarrow>
                    (case (if error_pk \<noteq> None \<and> pk_polkit_client_error_denied_by_policy w error_pk
                           then (case pk_polkit_client_gain_privilege_str (message (the error_pk)) w of
                                   (granted, w) \<Rightarrow>
                                     (case (if granted then pk_client_update_system_action client w
                                            else (error_pk, w)) of
                                        (error_pk, w) \<Rightarrow>
                                          if pk_polkit_client_error_denied_by_policy w error_pk
                                          then (True, pk_client_error_set error PK_CLIENT_ERROR_FAILED_AUTH
                                                        (g_vasprintf w (message (the error_pk))), w)
                                          else (False, error_pk, w)))
                           else (False, error_pk, w)) of
                       (failed_auth, error_pk, w) \<Rightarrow>
                         if failed_auth then Some ((False, error_pk), client, w)
                         else
                           map_option (\<lambda>(client, w). ((error_pk = None, error_pk), client, w))
                             (pk_client_wait (error_pk = None) client w))))"

text \<open>
  The block \<open>we were refused by policy\<close> of the other nine actions, the same text in
  each of them: the action is tried; when it is refused by policy the broker is asked
  with the message of the refusal, and when the broker grants, the old error is
  cleared and the action is tried once more. The error of a failed action is then
  fixed up and propagated, and the client waits as in every action.
\<close>

definition pk_client_auth_retry ::
  "(world \<Rightarrow> GError option \<times> world) \<Rightarrow> world \<Rightarrow> GError option \<times> world" where
  "pk_client_auth_retry action w =
     (case action w of
        (error_pk, w) \<Rightarrow>
          if error_pk \<noteq> None \<and> pk_polkit_client_error_denied_by_policy w error_pk
          then (case pk_polkit_client_gain_privilege_str (message (the error_pk)) w of
                  (granted, w) \<Rightarrow> if granted then action w else (error_pk, w))
          else (error_pk, w))"

definition pk_client_privileged ::
  "(world \<Rightarrow> GError option \<times> world) \<Rightarrow> PkClient \<Rightarrow> world \<Rightarrow> action_result" where
  "pk_client_privileged action client w =
     (case pk_client_auth_retry action w of
        (error_pk, w) \<Rightarrow>
          (let error = (if error_pk \<noteq> None then pk_client_error_fixup error_pk else None)
           in map_option (\<lambda>(client, w). ((error_pk = None, error), client, w))
                (pk_client_wait (error_pk = None) client w)))"

definition pk_client_remove_packages_action ::
  "PkClient \<Rightarrow> string list \<Rightarrow> bool \<Rightarrow> bool \<Rightarrow> world \<Rightarrow> GError option \<times> world" where
  "pk_client_remove_packages_action client package_ids allow_deps autoremove w =
     (case proxy client of
        None \<Rightarrow> (no_proxy, w)
      | Some p \<Rightarrow>
          dbus_g_proxy_call p
            (''RemovePackages'', [G_TYPE_STRV package_ids, G_TYPE_BOOLEAN allow_deps,
               G_TYPE_BOOLEAN autoremove]) w)"

definition pk_client_remove_packages ::
  "PkClient \<Rightarrow> string list option \<Rightarrow> bool \<Rightarrow> bool \<Rightarrow> world \<Rightarrow> action_result" where
  "pk_client_remove_packages client package_ids allow_deps autoremove w =
     (case package_ids of
        None \<Rightarrow> Some ((False, None), client, w)
      | Some pids \<Rightarrow>
          if \<not> pk_package_ids_check pids then Some ((False, invalid_package_ids pids), client, w)
          else
            (case pk_client_allocate_transaction_id client w of
               ((ret, error), client, w) \<Rightarrow>
                 if \<not> ret then Some ((False, error), client, w)
                 else
                   (let client = client\<lparr>role := PK_ROLE_ENUM_REMOVE_PACKAGES,
                                   cached_allow_deps := allow_deps, cached_autoremove := autoremove,
                                   cached_package_ids := Some pids\<rparr>
                    in pk_client_privileged
                         (pk_client_remove_packages_action client pids allow_deps autoremove) client w)))"

definition pk_client_refresh_cache_action :: "PkClient \<Rightarrow> bool \<Rightarrow> world \<Rightarrow> GError option \<times> world" where
  "pk_client_refresh_cache_action client force w =
     (case proxy client of
        None \<Rightarrow> (no_proxy, w)
      | Some p \<Rightarrow> dbus_g_proxy_call p (''RefreshCache'', [G_TYPE_BOOLEAN force]) w)"

definition pk_client_refresh_cache :: "PkClient \<Rightarrow> bool \<Rightarrow> world \<Rightarrow> action_result" where
  "pk_client_refresh_cache client force w =
     (case pk_client_allocate_transaction_id client w of
        ((ret, error), client, w) \<Rightarrow>
          if \<not> ret then Some ((False, error), client, w)
          else
            (let client = client\<lparr>role := PK_ROLE_ENUM_REFRESH_CACHE, cached_force := force\<rparr>
             in pk_client_privileged (pk_client_refresh_cache_action client force) client w))"

definition pk_client_install_package_action :: "PkClient \<Rightarrow> string list \<Rightarrow> world \<Rightarrow> GError option \<times> world" where
  "pk_client_install_package_action client package_ids w =
     (case proxy client of
        None \<Rightarrow> (no_proxy, w)
      | Some p \<Rightarrow> dbus_g_proxy_call p (''InstallPackages'', [G_TYPE_STRV package_ids]) w)"

definition pk_client_install_packages :: "PkClient \<Rightarrow> string list option \<Rightarrow> world \<Rightarrow> action_result" where
  "pk_client_install_packages client package_ids w =
     (case package_ids of
        None \<Rightarrow> Some ((False, None), client, w)
      | Some pids \<Rightarrow>
          if \<not> pk_package_ids_check pids then Some ((False, invalid_package_ids pids), client, w)
          else
            (case pk_client_allocate_transaction_id client w of
               ((ret, error), client, w) \<Rightarrow>
                 if \<not> ret then Some ((False, error), client, w)
                 else
                   (let client = client\<lparr>role := PK_ROLE_ENUM_INSTALL_PACKAGES,
                                   cached_package_ids := Some pids\<rparr>
                    in pk_client_privileged (pk_client_install_package_action client pids) client w)))"

definition pk_client_install_signature_action ::
  "PkClient \<Rightarrow> PkSigTypeEnum \<Rightarrow> string \<Rightarrow> string \<Rightarrow> world \<Rightarrow> GError option \<times> world" where
  "pk_client_install_signature_action client ty key_id package_id w =
     (case proxy client of
        None \<Rightarrow> (no_proxy, w)
      | Some p \<Rightarrow>
          dbus_g_proxy_call p
            (''InstallSignature'', [G_TYPE_STRING (Some (pk_sig_type_enum_to_text w ty)),
               G_TYPE_STRING (Some key_id), G_TYPE_STRING (Some package_id)]) w)"

definition pk_client_install_signature ::
  "PkClient \<Rightarrow> PkSigTypeEnum \<Rightarrow> string option \<Rightarrow> string option \<Rightarrow> world \<Rightarrow> action_result" where
  "pk_client_install_signature client ty key_id package_id w =
     (if ty = PK_SIGTYPE_ENUM_UNKNOWN \<or> key_id = None \<or> package_id = None
      then Some ((False, None), client, w)
      else if \<not> pk_package_id_check (the package_id)
      then Some ((False, invalid_package_id (the package_id)), client, w)
      else
        (case pk_client_allocate_transaction_id client w of
           ((ret, error), client, w) \<Rightarrow>
             if \<not> ret then Some ((False, error), client, w)
             else
               (let client = client\<lparr>role := PK_ROLE_ENUM_INSTALL_SIGNATURE,
                               cached_package_id := package_id, cached_key_id := key_id\<rparr>
                in pk_client_privileged
                     (pk_client_install_signature_action client ty (the key_id) (the package_id))
                     client w)))"

definition pk_client_update_packages_action :: "PkClient \<Rightarrow> string list \<Rightarrow> world \<Rightarrow> GError option \<times> world" where
  "pk_client_update_packages_action client package_ids w =
     (case proxy client of
        None \<Rightarrow> (no_proxy, w)
      | Some p \<Rightarrow> dbus_g_proxy_call p (''UpdatePackages'', [G_TYPE_STRV package_ids]) w)"

text \<open>
  \<open>pk_client_update_packages\<close> copies the ids into the cache unless it was handed the
  cached vector itself; either way the cache then holds the ids of the call.
\<close>

definition pk_client_update_packages :: "PkClient \<Rightarrow> string list option \<Rightarrow> world \<Rightarrow> action_result" where
  "pk_client_update_packages client package_ids w =
     (case package_ids of
        None \<Rightarrow> Some ((False, None), client, w)
      | Some pids \<Rightarrow>
          if \<not> pk_package_ids_check pids then Some ((False, invalid_package_ids pids), client, w)
          else
            (case pk_client_allocate_transaction_id client w of
               ((ret, error), client, w) \<Rightarrow>
                 if \<not> ret then Some ((False, error), client, w)
                 else
                   (let client = client\<lparr>role := PK_ROLE_ENUM_UPDATE_PACKAGES,
                                   cached_package_ids := Some pids\<rparr>
                    in pk_client_privileged (pk_client_update_packages_action client pids) client w)))"

text \<open>
  \<open>g_strsplit\<close> with at most one token: the string itself, and no token at all for the
  empty string.
\<close>

definition g_strsplit_1 :: "string \<Rightarrow> string list" where
  "g_strsplit_1 str = (if str = [] then [] else [str])"

definition pk_client_update_package :: "PkClient \<Rightarrow> string option \<Rightarrow> world \<Rightarrow> action_result" where
  "pk_client_update_package client package_id w =
     (case package_id of
        None \<Rightarrow> Some ((False, None), client, w)
      | Some pid \<Rightarrow> pk_client_update_packages client (Some (g_strsplit_1 pid)) w)"

definition pk_client_install_package :: "PkClient \<Rightarrow> string option \<Rightarrow> world \<Rightarrow> action_result" where
  "pk_client_install_package client package_id w =
     (case package_id of
        None \<Rightarrow> Some ((False, None), client, w)
      | Some pid \<Rightarrow> pk_client_install_packages client (Some (g_strsplit_1 pid)) w)"

definition pk_client_remove_package ::
  "PkClient \<Rightarrow> string option \<Rightarrow> bool \<Rightarrow> bool \<Rightarrow> world \<Rightarrow> action_result" where
  "pk_client_remove_package client package_id allow_deps autoremove w =
     (case package_id of
        None \<Rightarrow> Some ((False, None), client, w)
      | Some pid \<Rightarrow> pk_client_remove_packages client (Some (g_strsplit_1 pid)) allow_deps autoremove w)"

definition pk_client_install_files_action ::
  "PkClient \<Rightarrow> bool \<Rightarrow> string list \<Rightarrow> world \<Rightarrow> GError option \<times> world" where
  "pk_client_install_files_action client trusted files w =
     (case proxy client of
        None \<Rightarrow> (no_proxy, w)
      | Some p \<Rightarrow>
          dbus_g_proxy_call p (''InstallFiles'', [G_TYPE_BOOLEAN trusted, G_TYPE_STRV files]) w)"

definition pk_resolve_local_path :: "world \<Rightarrow> string option \<Rightarrow> string option" where
  "pk_resolve_local_path w rel_path =
     (case rel_path of None \<Rightarrow> None | Some r \<Rightarrow> realpath w r)"

text \<open>
  The loop of \<open>pk_client_install_files\<close> that converts the relative paths to absolute
  ones: each path is replaced by its resolution when the two differ. A path that does
  not resolve becomes \<open>NULL\<close> in the vector, which ends the vector there.
\<close>

definition pk_client_resolve_files :: "world \<Rightarrow> string list \<Rightarrow> string list" where
  "pk_client_resolve_files w files_rel =
     g_strv (map (\<lambda>f. let file = pk_resolve_local_path w (Some f)
                       in if \<not> pk_strequal file (Some f) then file else Some f) files_rel)"

text \<open>\<open>pk_client_install_files\<close> allocates the transaction before it resolves the paths.\<close>

definition pk_client_install_files ::
  "PkClient \<Rightarrow> bool \<Rightarrow> string list option \<Rightarrow> world \<Rightarrow> action_result" where
  "pk_client_install_files client trusted files_rel w =
     (case files_rel of
        None \<Rightarrow> Some ((False, None), client, w)
      | Some rel \<Rightarrow>
          (case pk_client_allocate_transaction_id client w of
             ((ret, error), client, w) \<Rightarrow>
               if \<not> ret then Some ((False, error), client, w)
               else
                 (let files = pk_client_resolve_files w rel;
                      client = client\<lparr>role := PK_ROLE_ENUM_INSTALL_FILES, cached_trusted := trusted,
                                  cached_full_paths := Some files\<rparr>
                  in pk_client_privileged (pk_client_install_files_action client trusted files) client w)))"

definition pk_client_install_file :: "PkClient \<Rightarrow> bool \<Rightarrow> string option \<Rightarrow> world \<Rightarrow> action_result" where
  "pk_client_install_file client trusted file_rel w =
     (case file_rel of
        None \<Rightarrow> Some ((False, None), client, w)
      | Some f \<Rightarrow> pk_client_install_files client trusted (Some (g_strsplit_1 f)) w)"

definition pk_client_accept_eula_action :: "PkClient \<Rightarrow> string \<Rightarrow> world \<Rightarrow> GError option \<times> world" where
  "pk_client_accept_eula_action client eula_id w =
     (case proxy client of
        None \<Rightarrow> (no_proxy, w)
      | Some p \<Rightarrow> dbus_g_proxy_call p (''AcceptEula'', [G_TYPE_STRING (Some eula_id)]) w)"

definition pk_client_accept_eula :: "PkClient \<Rightarrow> string option \<Rightarrow> world \<Rightarrow> action_result" where
  "pk_client_accept_eula client eula_id w =
     (case eula_id of
        None \<Rightarrow> Some ((False, None), client, w)
      | Some eid \<Rightarrow>
          (case pk_client_allocate_transaction_id client w of
             ((ret, error), client, w) \<Rightarrow>
               if \<not> ret then Some ((False, error), client, w)
               else
                 (let client = client\<lparr>role := PK_ROLE_ENUM_ACCEPT_EULA\<rparr>
                  in pk_client_privileged (pk_client_accept_eula_action client eid) client w)))"

definition pk_client_repo_enable_action ::
  "PkClient \<Rightarrow> string \<Rightarrow> bool \<Rightarrow> world \<Rightarrow> GError option \<times> world" where
  "pk_client_repo_enable_action client repo_id enabled w =
     (case proxy client of
        None \<Rightarrow> (no_proxy, w)
      | Some p \<Rightarrow>
          dbus_g_proxy_call p (''RepoEnable'', [G_TYPE_STRING (Some repo_id), G_TYPE_BOOLEAN enabled]) w)"

definition pk_client_repo_enable :: "PkClient \<Rightarrow> string option \<Rightarrow> bool \<Rightarrow> world \<Rightarrow> action_result" where
  "pk_client_repo_enable client repo_id enabled w =
     (case repo_id of
        None \<Rightarrow> Some ((False, None), client, w)
      | Some rid \<Rightarrow>
          (case pk_client_allocate_transaction_id client w of
             ((ret, error), client, w) \<Rightarrow>
               if \<not> ret then Some ((False, error), client, w)
               else
                 (let client = client\<lparr>role := PK_ROLE_ENUM_REPO_ENABLE\<rparr>
                  in pk_client_privileged (pk_client_repo_enable_action client rid enabled) client w)))"

definition pk_client_repo_set_data_action ::
  "PkClient \<Rightarrow> string \<Rightarrow> string \<Rightarrow> string \<Rightarrow> world \<Rightarrow> GError option \<times> world" where
  "pk_client_repo_set_data_action client repo_id parameter val w =
     (case proxy client of
        None \<Rightarrow> (no_proxy, w)
      | Some p \<Rightarrow>
          dbus_g_proxy_call p
            (''RepoSetData'', [G_TYPE_STRING (Some repo_id), G_TYPE_STRING (Some parameter),
               G_TYPE_STRING (Some val)]) w)"

definition pk_client_repo_set_data ::
  "PkClient \<Rightarrow> string option \<Rightarrow> string option \<Rightarrow> string option \<Rightarrow> world \<Rightarrow> action_result" where
  "pk_client_repo_set_data client repo_id parameter val w =
     (if repo_id = None \<or> parameter = None \<or> val = None then Some ((False, None), client, w)
      else
        (case pk_client_allocate_transaction_id client w of
           ((ret, error), client, w) \<Rightarrow>
             if \<not> ret then Some ((False, error), client, w)
             else
               (let client = client\<lparr>role := PK_ROLE_ENUM_REPO_SET_DATA\<rparr>
                in pk_client_privileged
                     (pk_client_repo_set_data_action client (the repo_id) (the parameter) (the val))
                     client w)))"


subsection \<open>Requeue, reset and construction\<close>

text \<open>
  \<open>pk_client_requeue\<close>. The end of the function, after the chain that picks the
  action of the cached role: the error is fixed up and the result of the action is
  returned. A role outside the chain returns \<open>RoleUnknown\<close> from within the chain.
\<close>

definition role_unknown :: "GError option" where
  "role_unknown = pk_client_error_set None PK_CLIENT_ERROR_ROLE_UNKNOWN ''role unknown for reque''"

definition fixup_result :: "action_result \<Rightarrow> action_result" where
  "fixup_result r = map_option (\<lambda>((ret, error), client, w). ((ret, pk_client_error_fixup error), client, w)) r"

definition pk_client_requeue :: "PkClient \<Rightarrow> world \<Rightarrow> action_result" where
  "pk_client_requeue client w =
     (if role client = PK_ROLE_ENUM_UNKNOWN then Some ((False, role_unknown), client, w)
      else if \<not> is_finished client
      then Some ((False, pk_client_error_set None PK_CLIENT_ERROR_FAILED
                   ''not finished, so cannot requeue''), client, w)
      else
        (let client = client\<lparr>tid := None, last_status := PK_STATUS_ENUM_UNKNOWN, is_finished := False,
                        package_list := pk_package_list_clear (package_list client)\<rparr>
         in
            if role client = PK_ROLE_ENUM_GET_DEPENDS
            then fixup_result (pk_client_get_depends client (cached_filters client) (cached_package_id client) (cached_force client) w)
            else if role client = PK_ROLE_ENUM_GET_UPDATE_DETAIL
            then fixup_result (pk_client_get_update_detail client (cached_package_id client) w)
            else if role client = PK_ROLE_ENUM_RESOLVE
            then fixup_result (pk_client_resolve client (cached_filters client) (cached_package_id client) w)
            else if role client = PK_ROLE_ENUM_ROLLBACK
            then fixup_result (pk_client_rollback client (cached_transaction_id client) w)
            else if role client = PK_ROLE_ENUM_GET_DETAILS
            then fixup_result (pk_client_get_details client (cached_package_id client) w)
            else if role client = PK_ROLE_ENUM_GET_FILES
            then fixup_result (pk_client_get_files client (cached_package_id client) w)
            else if role client = PK_ROLE_ENUM_GET_REQUIRES
            then fixup_result (pk_client_get_requires client (cached_filters client) (cached_package_id client) (cached_force client) w)
            else if role client = PK_ROLE_ENUM_GET_UPDATES
            then fixup_result (pk_client_get_updates client (cached_filters client) w)
            else if role client = PK_ROLE_ENUM_SEARCH_DETAILS
            then fixup_result (pk_client_search_details client (cached_filters client) (cached_search client) w)
            else if role client = PK_ROLE_ENUM_SEARCH_FILE
            then fixup_result (pk_client_search_file client (cached_filters client) (cached_search client) w)
            else if role client = PK_ROLE_ENUM_SEARCH_GROUP
            then fixup_result (pk_client_search_group client (cached_filters client) (cached_search client) w)
            else if role client = PK_ROLE_ENUM_SEARCH_NAME
            then fixup_result (pk_client_search_name client (cached_filters client) (cached_search client) w)
            else if role client = PK_ROLE_ENUM_INSTALL_PACKAGES
            then fixup_result (pk_client_install_packages client (cached_package_ids client) w)
            else if role client = PK_ROLE_ENUM_INSTALL_FILES
            then fixup_result (pk_client_install_files client (cached_trusted client) (cached_full_paths client) w)
            else if role client = PK_ROLE_ENUM_INSTALL_SIGNATURE
            then fixup_result (pk_client_install_signature client PK_SIGTYPE_ENUM_GPG (cached_key_id client) (cached_package_id client) w)
            else if role client = PK_ROLE_ENUM_REFRESH_CACHE
            then fixup_result (pk_client_refresh_cache client (cached_force client) w)
            else if role client = PK_ROLE_ENUM_REMOVE_PACKAGES
            then fixup_result (pk_client_remove_packages client (cached_package_ids client) (cached_allow_deps client) (cached_autoremove client) w)
            else if role client = PK_ROLE_ENUM_UPDATE_PACKAGES
            then fixup_result (pk_client_update_packages client (cached_package_ids client) w)
            else if role client = PK_ROLE_ENUM_UPDATE_SYSTEM
            then fixup_result (pk_client_update_system client w)
            else if role client = PK_ROLE_ENUM_GET_REPO_LIST
            then fixup_result (pk_client_get_repo_list client (cached_filters client) w)
            else Some ((False, role_unknown), client, w)))"

text \<open>
  \<open>pk_client_disconnect_proxy\<close> disconnects the callbacks, drops the proxy and clears
  the pointer.
\<close>

definition pk_client_disconnect_proxy :: "PkClient \<Rightarrow> bool \<times> PkClient" where
  "pk_client_disconnect_proxy client =
     (case proxy client of
        None \<Rightarrow> (False, client)
      | Some p \<Rightarrow> (True, client\<lparr>proxy := None\<rparr>))"

definition pk_client_reset :: "PkClient \<Rightarrow> world \<Rightarrow> gresult \<times> PkClient \<times> world" where
  "pk_client_reset client w =
     (case (if tid client \<noteq> None \<and> is_finished client \<noteq> True
            then pk_client_cancel client w else ((True, None), w)) of
        ((ret, error), w) \<Rightarrow>
          if \<not> ret then ((False, error), client, w)
          else
            (let client = snd (pk_client_disconnect_proxy client);
                 client = client\<lparr>tid := None, cached_package_id := None, cached_key_id := None,
                            cached_transaction_id := None, cached_full_path := None,
                            cached_full_paths := None, cached_search := None,
                            cached_package_ids := None, cached_filters := PK_FILTER_ENUM_UNKNOWN,
                            last_status := PK_STATUS_ENUM_UNKNOWN, role := PK_ROLE_ENUM_UNKNOWN,
                            is_finished := False\<rparr>;
                 client = client\<lparr>package_list := pk_package_list_clear (package_list client)\<rparr>
             in ((True, None), client, w)))"

text \<open>
  \<open>pk_client_init\<close>: the private data of a new instance; what the function does not
  set is zero.
\<close>

definition pk_client_init :: PkClient where
  "pk_client_init =
     \<lparr>proxy = None, loop = False, is_finished = False, use_buffer = False, synchronous = False,
      tid = None, package_list = [], require_restart = PK_RESTART_ENUM_NONE,
      last_status = PK_STATUS_ENUM_UNKNOWN, role = PK_ROLE_ENUM_UNKNOWN, cached_force = False,
      cached_allow_deps = False, cached_autoremove = False, cached_trusted = False,
      cached_package_id = None, cached_package_ids = None, cached_transaction_id = None,
      cached_key_id = None, cached_full_path = None, cached_full_paths = None,
      cached_search = None, cached_provides = PK_PROVIDES_ENUM_UNKNOWN,
      cached_filters = PK_FILTER_ENUM_UNKNOWN\<rparr>"


subsection \<open>Notions of the specification and example data\<close>

text \<open>The restart levels carried by the \<open>RequireRestart\<close> signals of a sequence, in order.\<close>

fun restart_levels :: "world \<Rightarrow> bus_signal list \<Rightarrow> PkRestartEnum list" where
  "restart_levels w [] = []"
| "restart_levels w (RequireRestart restart_text details # ss) =
     pk_restart_enum_from_text w restart_text # restart_levels w ss"
| "restart_levels w (s # ss) = restart_levels w ss"

text \<open>
  An example world: a daemon that hands out the transaction id \<open>/7_cafe\<close>, accepts
  every call and sends no signal; a broker that grants; the restart levels
  \<open>none < application < session < system < unknown\<close>.
\<close>

definition example_restart :: "string \<Rightarrow> PkRestartEnum" where
  "example_restart t =
     (if t = ''none'' then 0 else if t = ''application'' then 1 else if t = ''session'' then 2
      else if t = ''system'' then 3 else 4)"

definition example_world :: world where
  "example_world =
     \<lparr>pk_exit_enum_from_text = (\<lambda>t. 0),
      pk_status_enum_from_text = (\<lambda>t. PK_STATUS_ENUM_UNKNOWN),
      pk_info_enum_from_text = (\<lambda>t. 0),
      pk_role_enum_from_text = (\<lambda>t. PK_ROLE_ENUM_UNKNOWN),
      pk_restart_enum_from_text = example_restart,
      pk_group_enum_from_text = (\<lambda>t. 0),
      pk_error_enum_from_text = (\<lambda>t. 0),
      pk_message_enum_from_text = (\<lambda>t. 0),
      pk_filter_enums_to_text = (\<lambda>f. ''none''),
      pk_provides_enum_to_text = (\<lambda>f. ''any''),
      pk_sig_type_enum_to_text = (\<lambda>f. ''gpg''),
      realpath = (\<lambda>f. Some f),
      printf_without_argument = (\<lambda>f. ''(null)''),
      control_reply = (\<lambda>n. Inr ''/7_cafe''),
      control_calls = 0,
      proxy_new_ok = (\<lambda>t. True),
      dbus_reply = (\<lambda>l. None),
      dbus_log = [],
      denied_by_policy = (\<lambda>e. domain e = DBUS_GERROR \<and> code e = DBUS_GERROR_REMOTE_EXCEPTION
                                \<and> prefix ''org.freedesktop.packagekit.'' (message e)),
      gain_privilege = (\<lambda>l. True),
      polkit_log = [],
      pending = [],
      emitted = []\<rparr>"

text \<open>A client bound to the transaction \<open>/7_cafe\<close>, and the same after a finished search.\<close>

definition example_bound :: PkClient where
  "example_bound = pk_client_init\<lparr>tid := Some ''/7_cafe'',
     proxy := Some \<lparr>path = ''/7_cafe'', connected = transaction_signals\<rparr>\<rparr>"

definition example_searched :: PkClient where
  "example_searched = example_bound\<lparr>role := PK_ROLE_ENUM_SEARCH_NAME, cached_filters := PK_FILTER_ENUM 4,
     cached_search := Some ''power'', is_finished := True,
     last_status := PK_STATUS_ENUM 17\<rparr>"

text \<open>A daemon that answers every call by the error of a transaction that is not running.\<close>

definition world_cancel_finished :: world where
  "world_cancel_finished = example_world\<lparr>dbus_reply :=
     (\<lambda>l. Some \<lparr>domain = DBUS_GERROR, code = DBUS_GERROR_REMOTE_EXCEPTION,
                message = ''cancelling a non-running transaction''\<rparr>)\<rparr>"

text \<open>
  A world whose daemon cannot be reached: no transaction id is handed out and every call
  on the bus fails.
\<close>

definition world_no_daemon :: world where
  "world_no_daemon = example_world\<lparr>control_reply :=
     (\<lambda>n. Inl \<lparr>domain = DBUS_GERROR, code = 2,
               message = ''The name org.freedesktop.PackageKit was not provided by any .service files''\<rparr>),
     dbus_reply :=
     (\<lambda>l. Some \<lparr>domain = DBUS_GERROR, code = 2,
               message = ''The name org.freedesktop.PackageKit was not provided by any .service files''\<rparr>)\<rparr>"

text \<open>
  A daemon that answers every call by a remote exception that is no denial by policy.
\<close>

definition world_remote_failure :: world where
  "world_remote_failure = example_world\<lparr>dbus_reply :=
     (\<lambda>l. Some \<lparr>domain = DBUS_GERROR, code = DBUS_GERROR_REMOTE_EXCEPTION,
                message = ''Operation not yet supported by backend''\<rparr>)\<rparr>"

text \<open>The public action methods of the client, with their arguments.\<close>

datatype action =
    GetUpdates PkFilterEnum
  | UpdateSystem
  | SearchName PkFilterEnum "string option"
  | SearchDetails PkFilterEnum "string option"
  | SearchGroup PkFilterEnum "string option"
  | SearchFile PkFilterEnum "string option"
  | GetDepends PkFilterEnum "string option" bool
  | GetPackages PkFilterEnum
  | GetRequires PkFilterEnum "string option" bool
  | WhatProvides PkFilterEnum PkProvidesEnum "string option"
  | GetUpdateDetail "string option"
  | Rollback "string option"
  | Resolve PkFilterEnum "string option"
  | GetDetails "string option"
  | GetFiles "string option"
  | RemovePackages "string list option" bool bool
  | RefreshCache bool
  | InstallPackages "string list option"
  | InstallSignature PkSigTypeEnum "string option" "string option"
  | UpdatePackages "string list option"
  | UpdatePackage "string option"
  | InstallPackage "string option"
  | InstallFile bool "string option"
  | RemovePackage "string option" bool bool
  | InstallFiles bool "string list option"
  | GetRepoList PkFilterEnum
  | AcceptEula "string option"
  | RepoEnable "string option" bool
  | RepoSetData "string option" "string option" "string option"
  | GetOldTransactions nat

fun pk_client_action :: "action \<Rightarrow> PkClient \<Rightarrow> world \<Rightarrow> action_result" where
  "pk_client_action (GetUpdates f) client w = pk_client_get_updates client f w"
| "pk_client_action UpdateSystem client w = pk_client_update_system client w"
| "pk_client_action (SearchName f s) client w = pk_client_search_name client f s w"
| "pk_client_action (SearchDetails f s) client w = pk_client_search_details client f s w"
| "pk_client_action (SearchGroup f s) client w = pk_client_search_group client f s w"
| "pk_client_action (SearchFile f s) client w = pk_client_search_file client f s w"
| "pk_client_action (GetDepends f p r) client w = pk_client_get_depends client f p r w"
| "pk_client_action (GetPackages f) client w = pk_client_get_packages client f w"
| "pk_client_action (GetRequires f p r) client w = pk_client_get_requires client f p r w"
| "pk_client_action (WhatProvides f p s) client w = pk_client_what_provides client f p s w"
| "pk_client_action (GetUpdateDetail p) client w = pk_client_get_update_detail client p w"
| "pk_client_action (Rollback t) client w = pk_client_rollback client t w"
| "pk_client_action (Resolve f p) client w = pk_client_resolve client f p w"
| "pk_client_action (GetDetails p) client w = pk_client_get_details client p w"
| "pk_client_action (GetFiles p) client w = pk_client_get_files client p w"
| "pk_client_action (RemovePackages ps a r) client w = pk_client_remove_packages client ps a r w"
| "pk_client_action (RefreshCache f) client w = pk_client_refresh_cache client f w"
| "pk_client_action (InstallPackages ps) client w = pk_client_install_packages client ps w"
| "pk_client_action (InstallSignature t k p) client w = pk_client_install_signature client t k p w"
| "pk_client_action (UpdatePackages ps) client w = pk_client_update_packages client ps w"
| "pk_client_action (UpdatePackage p) client w = pk_client_update_package client p w"
| "pk_client_action (InstallPackage p) client w = pk_client_install_package client p w"
| "pk_client_action (InstallFile t f) client w = pk_client_install_file client t f w"
| "pk_client_action (RemovePackage p a r) client w = pk_client_remove_package client p a r w"
| "pk_client_action (InstallFiles t fs) client w = pk_client_install_files client t fs w"
| "pk_client_action (GetRepoList f) client w = pk_client_get_repo_list client f w"
| "pk_client_action (AcceptEula e) client w = pk_client_accept_eula client e w"
| "pk_client_action (RepoEnable r e) client w = pk_client_repo_enable client r e w"
| "pk_client_action (RepoSetData r p v) client w = pk_client_repo_set_data client r p v w"
| "pk_client_action (GetOldTransactions n) client w = pk_client_get_old_transactions client n w"

definition already_tid :: "GError option" where
  "already_tid = pk_client_error_set None PK_CLIENT_ERROR_ALREADY_TID
     ''cannot set the tid on an already set client''"

text \<open>
  What the checks of an action on its own arguments give, before the action asks for a
  transaction id: \<open>None\<close> when the arguments pass; otherwise the error with which the
  action returns \<open>FALSE\<close> at once. A guard \<open>g_return_val_if_fail\<close> (a string or a
  vector that is \<open>NULL\<close>, a kind that is unknown) returns without an error; an
  invalid package id returns \<open>InvalidPackageId\<close>. The single-item forms put their
  item into a vector with \<open>g_strsplit\<close> and go on as the form for a vector.
\<close>

definition package_id_failure :: "string option \<Rightarrow> GError option option" where
  "package_id_failure package_id =
     (case package_id of
        None \<Rightarrow> Some None
      | Some p \<Rightarrow> if pk_package_id_check p then None else Some (invalid_package_id p))"

definition package_ids_failure :: "string list option \<Rightarrow> GError option option" where
  "package_ids_failure package_ids =
     (case package_ids of
        None \<Rightarrow> Some None
      | Some ps \<Rightarrow> if pk_package_ids_check ps then None else Some (invalid_package_ids ps))"

fun argument_failure :: "action \<Rightarrow> GError option option" where
  "argument_failure (GetDepends f p r) = package_id_failure p"
| "argument_failure (GetRequires f p r) = package_id_failure p"
| "argument_failure (GetUpdateDetail p) = package_id_failure p"
| "argument_failure (GetDetails p) = package_id_failure p"
| "argument_failure (GetFiles p) = package_id_failure p"
| "argument_failure (Resolve f p) = (if p = None then Some None else None)"
| "argument_failure (WhatProvides f k s) =
     (if k = PK_PROVIDES_ENUM_UNKNOWN \<or> s = None then Some None else None)"
| "argument_failure (InstallSignature t k p) =
     (if t = PK_SIGTYPE_ENUM_UNKNOWN \<or> k = None \<or> p = None then Some None
      else package_id_failure p)"
| "argument_failure (InstallPackages ps) = package_ids_failure ps"
| "argument_failure (RemovePackages ps a r) = package_ids_failure ps"
| "argument_failure (UpdatePackages ps) = package_ids_failure ps"
| "argument_failure (InstallPackage p) =
     (case p of None \<Rightarrow> Some None | Some q \<Rightarrow> package_ids_failure (Some (g_strsplit_1 q)))"
| "argument_failure (RemovePackage p a r) =
     (case p of None \<Rightarrow> Some None | Some q \<Rightarrow> package_ids_failure (Some (g_strsplit_1 q)))"
| "argument_failure (UpdatePackage p) =
     (case p of None \<Rightarrow> Some None | Some q \<Rightarrow> package_ids_failure (Some (g_strsplit_1 q)))"
| "argument_failure (InstallFiles t fs) = (if fs = None then Some None else None)"
| "argument_failure (InstallFile t f) = (if f = None then Some None else None)"
| "argument_failure (AcceptEula e) = (if e = None then Some None else None)"
| "argument_failure (RepoEnable r e) = (if r = None then Some None else None)"
| "argument_failure (RepoSetData r p v) =
     (if r = None \<or> p = None \<or> v = None then Some None else None)"
| "argument_failure a = None"

text \<open>
  The package ids that an action takes as arguments: the single id of get-depends,
  get-requires, get-update-detail, get-details, get-files, resolve and
  install-signature, the ids of the vector of install-packages, remove-packages and
  update-packages, and the id of the single-package forms of these three.
\<close>

fun action_package_ids :: "action \<Rightarrow> string list" where
  "action_package_ids (GetDepends f (Some p) r) = [p]"
| "action_package_ids (GetRequires f (Some p) r) = [p]"
| "action_package_ids (GetUpdateDetail (Some p)) = [p]"
| "action_package_ids (GetDetails (Some p)) = [p]"
| "action_package_ids (GetFiles (Some p)) = [p]"
| "action_package_ids (Resolve f (Some p)) = [p]"
| "action_package_ids (InstallSignature t k (Some p)) = [p]"
| "action_package_ids (InstallPackages (Some ps)) = ps"
| "action_package_ids (RemovePackages (Some ps) a r) = ps"
| "action_package_ids (UpdatePackages (Some ps)) = ps"
| "action_package_ids (InstallPackage (Some p)) = [p]"
| "action_package_ids (RemovePackage (Some p) a r) = [p]"
| "action_package_ids (UpdatePackage (Some p)) = [p]"
| "action_package_ids a = []"


text \<open>What \<open>pk_client_requeue\<close> clears before it dispatches.\<close>

definition requeue_cleared :: "PkClient \<Rightarrow> PkClient" where
  "requeue_cleared client =
     client\<lparr>tid := None, last_status := PK_STATUS_ENUM_UNKNOWN, is_finished := False,
       package_list := []\<rparr>"


definition example_provided :: PkClient where
  "example_provided = example_searched\<lparr>role := PK_ROLE_ENUM_WHAT_PROVIDES, cached_provides := PK_PROVIDES_ENUM 3\<rparr>"

text \<open>
  The method and the arguments that a privileged action sends to the transaction, when
  its own arguments pass its checks: the ten actions that wrap their call in the
  request for a privilege, and the single-item forms of four of them.
\<close>

fun privileged_call :: "world \<Rightarrow> action \<Rightarrow> bus_call option" where
  "privileged_call w UpdateSystem = Some (''UpdateSystem'', [])"
| "privileged_call w (RemovePackages (Some ps) a r) =
     (if pk_package_ids_check ps
      then Some (''RemovePackages'', [G_TYPE_STRV ps, G_TYPE_BOOLEAN a, G_TYPE_BOOLEAN r])
      else None)"
| "privileged_call w (RefreshCache f) = Some (''RefreshCache'', [G_TYPE_BOOLEAN f])"
| "privileged_call w (InstallPackages (Some ps)) =
     (if pk_package_ids_check ps then Some (''InstallPackages'', [G_TYPE_STRV ps]) else None)"
| "privileged_call w (InstallSignature t (Some k) (Some p)) =
     (if t \<noteq> PK_SIGTYPE_ENUM_UNKNOWN \<and> pk_package_id_check p
      then Some (''InstallSignature'', [G_TYPE_STRING (Some (pk_sig_type_enum_to_text w t)),
                   G_TYPE_STRING (Some k), G_TYPE_STRING (Some p)])
      else None)"
| "privileged_call w (UpdatePackages (Some ps)) =
     (if pk_package_ids_check ps then Some (''UpdatePackages'', [G_TYPE_STRV ps]) else None)"
| "privileged_call w (InstallFiles t (Some fs)) =
     Some (''InstallFiles'', [G_TYPE_BOOLEAN t, G_TYPE_STRV (pk_client_resolve_files w fs)])"
| "privileged_call w (AcceptEula (Some e)) = Some (''AcceptEula'', [G_TYPE_STRING (Some e)])"
| "privileged_call w (RepoEnable (Some r) e) =
     Some (''RepoEnable'', [G_TYPE_STRING (Some r), G_TYPE_BOOLEAN e])"
| "privileged_call w (RepoSetData (Some r) (Some p) (Some v)) =
     Some (''RepoSetData'', [G_TYPE_STRING (Some r), G_TYPE_STRING (Some p), G_TYPE_STRING (Some v)])"
| "privileged_call w (UpdatePackage (Some p)) =
     (if pk_package_ids_check (g_strsplit_1 p)
      then Some (''UpdatePackages'', [G_TYPE_STRV (g_strsplit_1 p)]) else None)"
| "privileged_call w (InstallPackage (Some p)) =
     (if pk_package_ids_check (g_strsplit_1 p)
      then Some (''InstallPackages'', [G_TYPE_STRV (g_strsplit_1 p)]) else None)"
| "privileged_call w (RemovePackage (Some p) a r) =
     (if pk_package_ids_check (g_strsplit_1 p)
      then Some (''RemovePackages'', [G_TYPE_STRV (g_strsplit_1 p), G_TYPE_BOOLEAN a, G_TYPE_BOOLEAN r])
      else None)"
| "privileged_call w (InstallFile t (Some f)) =
     Some (''InstallFiles'', [G_TYPE_BOOLEAN t, G_TYPE_STRV (pk_client_resolve_files w (g_strsplit_1 f))])"
| "privileged_call w a = None"

text \<open>The error \<open>FailedAuth\<close> that \<open>pk_client_update_system\<close> makes of a denial.\<close>

definition failed_auth :: "world \<Rightarrow> GError \<Rightarrow> GError" where
  "failed_auth w e = \<lparr>domain = PK_CLIENT_ERROR, code = PK_CLIENT_ERROR_FAILED_AUTH,
     message = g_vasprintf w (message e)\<rparr>"

text \<open>
  A daemon that refuses every call by policy, first asking for authentication and, once
  that was tried, with a plain no; and a broker that does not grant.
\<close>

definition denial_auth :: GError where
  "denial_auth = \<lparr>domain = DBUS_GERROR, code = DBUS_GERROR_REMOTE_EXCEPTION,
     message = ''org.freedesktop.packagekit.update-system auth_admin''\<rparr>"

definition denial_no :: GError where
  "denial_no = \<lparr>domain = DBUS_GERROR, code = DBUS_GERROR_REMOTE_EXCEPTION,
     message = ''org.freedesktop.packagekit.update-system no''\<rparr>"

definition world_denied_twice :: world where
  "world_denied_twice = example_world\<lparr>dbus_reply :=
     (\<lambda>l. if length l = 1 then Some denial_auth else Some denial_no)\<rparr>"

definition world_not_granted :: world where
  "world_not_granted = example_world\<lparr>dbus_reply := (\<lambda>l. Some denial_auth),
     gain_privilege := (\<lambda>l. False)\<rparr>"

text \<open>A daemon that refuses the first call by policy and accepts the second.\<close>

definition world_denied_once :: world where
  "world_denied_once = example_world\<lparr>dbus_reply :=
     (\<lambda>l. if length l = 1 then Some denial_auth else None)\<rparr>"

text \<open>
  A daemon that refuses every call by policy with a message that holds \<open>%%\<close>, and a
  broker that does not grant.
\<close>

definition denial_percent :: GError where
  "denial_percent = \<lparr>domain = DBUS_GERROR, code = DBUS_GERROR_REMOTE_EXCEPTION,
     message = ''org.freedesktop.packagekit.update-system 100%% no''\<rparr>"

definition world_denied_percent :: world where
  "world_denied_percent = example_world\<lparr>dbus_reply := (\<lambda>l. Some denial_percent),
     gain_privilege := (\<lambda>l. False)\<rparr>"

text \<open>
  What the caller of a privileged action sees when the first call was refused by policy
  with the error \<open>e1\<close>: \<open>c\<close> is the call, \<open>t\<close> the transaction id. When the broker
  grants, the call has been made exactly twice; if the second call is accepted the
  action returns success (a synchronous client returns once the transaction has
  finished, and only then), and if it fails the action fails. When the broker does not
  grant, the call has been made once and the action fails. The broker has been asked
  once, with the message of the refusal. An action that surfaces \<open>FailedAuth\<close> does so
  for the denial at hand, the second one after a granted privilege and the first one
  otherwise, and with the message of that denial when the message holds no \<open>%\<close>.
\<close>

definition retry_outcome ::
  "bool \<Rightarrow> PkClient \<Rightarrow> world \<Rightarrow> string \<Rightarrow> bus_call \<Rightarrow> GError \<Rightarrow> action_result \<Rightarrow> bool" where
  "retry_outcome surfaces client w t c e1 r =
     (if gain_privilege w (polkit_log w @ [message e1])
      then (case dbus_reply w (dbus_log w @ [(t, c), (t, c)]) of
              None \<Rightarrow>
                ((r \<noteq> None) =
                    (synchronous client \<and> \<not> is_finished client
                       \<longrightarrow> (\<exists>x y. Finished x y \<in> set (pending w))))
                \<and> (\<forall>res c' w'. r = Some (res, c', w') \<longrightarrow>
                      res = (True, None) \<and> dbus_log w' = dbus_log w @ [(t, c), (t, c)]
                      \<and> polkit_log w' = polkit_log w @ [message e1])
            | Some e2 \<Rightarrow>
                (\<exists>err c' w'. r = Some ((False, Some err), c', w')
                   \<and> dbus_log w' = dbus_log w @ [(t, c), (t, c)]
                   \<and> polkit_log w' = polkit_log w @ [message e1]
                   \<and> (surfaces \<and> denied_by_policy w e2 \<longrightarrow>
                         domain err = PK_CLIENT_ERROR \<and> code err = PK_CLIENT_ERROR_FAILED_AUTH
                         \<and> (CHR ''%'' \<notin> set (message e2) \<longrightarrow> message err = message e2))))
      else (\<exists>err c' w'. r = Some ((False, Some err), c', w')
              \<and> dbus_log w' = dbus_log w @ [(t, c)]
              \<and> polkit_log w' = polkit_log w @ [message e1]
              \<and> (surfaces \<longrightarrow>
                    domain err = PK_CLIENT_ERROR \<and> code err = PK_CLIENT_ERROR_FAILED_AUTH
                    \<and> (CHR ''%'' \<notin> set (message e1) \<longrightarrow> message err = message e1))))"

text \<open>
  An action returns, and the package list and the two flags that decide about the
  buffer are as before.
\<close>

definition buffer_kept :: "PkClient \<Rightarrow> action_result \<Rightarrow> bool" where
  "buffer_kept client r =
     (\<exists>res c' w'. r = Some (res, c', w')
        \<and> package_list c' = package_list client \<and> use_buffer c' = use_buffer client
        \<and> synchronous c' = synchronous client)"

section \<open>Verification\<close>

lemmas error_code_defs = PK_CLIENT_ERROR_def DBUS_GERROR_def DBUS_GERROR_REMOTE_EXCEPTION_def
  PK_CLIENT_ERROR_FAILED_def PK_CLIENT_ERROR_FAILED_AUTH_def PK_CLIENT_ERROR_NO_TID_def
  PK_CLIENT_ERROR_ALREADY_TID_def PK_CLIENT_ERROR_ROLE_UNKNOWN_def
  PK_CLIENT_ERROR_INVALID_PACKAGEID_def

subsection \<open>The callbacks\<close>

lemmas cb_defs = pk_client_finished_cb_def pk_client_progress_changed_cb_def
  pk_client_change_status_def pk_client_status_changed_cb_def pk_client_package_cb_def
  pk_client_transaction_cb_def pk_client_update_detail_cb_def pk_client_details_cb_def
  pk_client_files_cb_def pk_client_repo_signature_required_cb_def pk_client_eula_required_cb_def
  pk_client_repo_detail_cb_def pk_client_error_code_cb_def pk_client_allow_cancel_cb_def
  pk_client_caller_active_changed_cb_def pk_client_require_restart_cb_def pk_client_message_cb_def
  g_signal_emit_def

lemma restart_levels_cong:
  "pk_restart_enum_from_text w' = pk_restart_enum_from_text w \<Longrightarrow>
   restart_levels w' ss = restart_levels w ss"
  by (induction w ss rule: restart_levels.induct) simp_all

lemma signal_restart_decoder:
  "pk_restart_enum_from_text (snd (dbus_g_proxy_signal s client w)) = pk_restart_enum_from_text w"
  by (cases s) (simp_all add: cb_defs Let_def)

lemma signal_require_restart:
  "require_restart (fst (dbus_g_proxy_signal s client w)) =
     (case s of
        RequireRestart t d \<Rightarrow> max (require_restart client) (pk_restart_enum_from_text w t)
      | _ \<Rightarrow> require_restart client)"
  by (cases s) (simp_all add: cb_defs Let_def max_def)

lemma deliver_require_restart:
  "require_restart (fst (deliver ss client w)) =
     fold max (restart_levels w ss) (require_restart client)"
proof (induction ss arbitrary: client w)
  case Nil
  show ?case by simp
next
  case (Cons s ss)
  obtain c' w' where step: "dbus_g_proxy_signal s client w = (c', w')"
    by (cases "dbus_g_proxy_signal s client w")
  have dec: "pk_restart_enum_from_text w' = pk_restart_enum_from_text w"
    using signal_restart_decoder [of s client w] step by simp
  have lv: "restart_levels w' ss = restart_levels w ss"
    using dec by (rule restart_levels_cong)
  have r: "require_restart c' =
     (case s of
        RequireRestart t d \<Rightarrow> max (require_restart client) (pk_restart_enum_from_text w t)
      | _ \<Rightarrow> require_restart client)"
    using signal_require_restart [of s client w] step by simp
  show ?case
    using Cons.IH [of c' w'] step r lv
    by (cases s) (simp_all add: max.commute)
qed

lemma fold_max_Max: "fold max xs (a::nat) = Max (insert a (set xs))"
  using Max.set_eq_fold [of a xs] by simp

lemma restart_levels_mset:
  "mset (restart_levels w ss) =
     image_mset (\<lambda>s. case s of RequireRestart t d \<Rightarrow> pk_restart_enum_from_text w t | _ \<Rightarrow> 0)
       (filter_mset (\<lambda>s. case s of RequireRestart t d \<Rightarrow> True | _ \<Rightarrow> False) (mset ss))"
  by (induction w ss rule: restart_levels.induct) simp_all

text \<open>
  C6. For every sequence of signals delivered to a client, the restart level the client
  reports afterwards is the maximum of its level before and of the levels carried by
  the \<open>RequireRestart\<close> signals of the sequence; any reordering of the sequence gives
  the same level; and no single signal lowers the level.
\<close>

theorem require_restart_is_maximum:
  "pk_client_get_require_restart (fst (deliver ss client w)) =
     Max (insert (require_restart client) (set (restart_levels w ss)))
   \<and> (\<forall>ss'. mset ss' = mset ss \<longrightarrow>
        pk_client_get_require_restart (fst (deliver ss' client w)) =
        pk_client_get_require_restart (fst (deliver ss client w)))
   \<and> require_restart client \<le> pk_client_get_require_restart (fst (dbus_g_proxy_signal s client w))"
proof (intro conjI allI impI)
  show "pk_client_get_require_restart (fst (deliver ss client w)) =
     Max (insert (require_restart client) (set (restart_levels w ss)))"
    by (simp only: pk_client_get_require_restart_def deliver_require_restart fold_max_Max)
next
  fix ss' assume p: "mset ss' = mset ss"
  have "mset (restart_levels w ss') = mset (restart_levels w ss)"
    by (simp only: restart_levels_mset p)
  then have "set (restart_levels w ss') = set (restart_levels w ss)"
    by (rule mset_eq_setD)
  then show "pk_client_get_require_restart (fst (deliver ss' client w)) =
        pk_client_get_require_restart (fst (deliver ss client w))"
    by (simp only: pk_client_get_require_restart_def deliver_require_restart fold_max_Max)
next
  show "require_restart client \<le> pk_client_get_require_restart (fst (dbus_g_proxy_signal s client w))"
    using signal_require_restart [of s client w]
    by (cases s) (simp_all add: pk_client_get_require_restart_def)
qed

theorem require_restart_is_maximum_witness:
  "pk_client_get_require_restart (fst (deliver
      [RequireRestart ''system'' ''kernel'', Package ''installed'' ''a;1;i386;f'' ''s'',
       RequireRestart ''session'' ''gdm''] pk_client_init example_world)) = 3
   \<and> pk_client_get_require_restart (fst (deliver
      [RequireRestart ''session'' ''gdm'', RequireRestart ''system'' ''kernel'',
       Package ''installed'' ''a;1;i386;f'' ''s''] pk_client_init example_world)) = 3"
proof -
  let ?ss = "[RequireRestart ''system'' ''kernel'', Package ''installed'' ''a;1;i386;f'' ''s'',
       RequireRestart ''session'' ''gdm'']"
  let ?ss' = "[RequireRestart ''session'' ''gdm'', RequireRestart ''system'' ''kernel'',
       Package ''installed'' ''a;1;i386;f'' ''s'']"
  have m: "mset ?ss' = mset ?ss" by simp
  have lv: "restart_levels example_world ?ss = [3, 2]"
    by (simp add: example_world_def example_restart_def)
  have i: "require_restart pk_client_init = 0"
    by (simp add: pk_client_init_def PK_RESTART_ENUM_NONE_def)
  from require_restart_is_maximum [of ?ss pk_client_init example_world "RequireRestart ''system'' ''kernel''"]
  have a: "pk_client_get_require_restart (fst (deliver ?ss pk_client_init example_world)) =
     Max (insert (require_restart pk_client_init) (set (restart_levels example_world ?ss)))"
    and b: "\<forall>ss'. mset ss' = mset ?ss \<longrightarrow>
        pk_client_get_require_restart (fst (deliver ss' pk_client_init example_world)) =
        pk_client_get_require_restart (fst (deliver ?ss pk_client_init example_world))"
    by blast+
  have a3: "pk_client_get_require_restart (fst (deliver ?ss pk_client_init example_world)) = 3"
    unfolding a lv i by simp
  from b m have "pk_client_get_require_restart (fst (deliver ?ss' pk_client_init example_world)) =
        pk_client_get_require_restart (fst (deliver ?ss pk_client_init example_world))"
    by blast
  with a3 show ?thesis by simp
qed

subsection \<open>The package buffer\<close>

lemma signal_flags:
  "use_buffer (fst (dbus_g_proxy_signal s client w)) = use_buffer client
   \<and> synchronous (fst (dbus_g_proxy_signal s client w)) = synchronous client"
  by (cases s) (simp_all add: cb_defs Let_def)

lemma signal_package_list:
  "\<not> use_buffer client \<Longrightarrow> \<not> synchronous client \<Longrightarrow>
   package_list (fst (dbus_g_proxy_signal s client w)) = package_list client"
  by (cases s) (simp_all add: cb_defs Let_def)

lemma signal_info_decoder:
  "pk_info_enum_from_text (snd (dbus_g_proxy_signal s client w)) = pk_info_enum_from_text w"
  by (cases s) (simp_all add: cb_defs Let_def)

lemma signal_emitted:
  "\<exists>x. emitted (snd (dbus_g_proxy_signal s client w)) = emitted w @ [x]
       \<and> (\<forall>i p t. s = Package i p t \<longrightarrow> x = PK_CLIENT_PACKAGE (pk_info_enum_from_text w i) p t)"
  by (cases s) (simp_all add: cb_defs Let_def)

lemma deliver_emitted_mono:
  "set (emitted w) \<subseteq> set (emitted (snd (deliver ss client w)))"
proof (induction ss arbitrary: client w)
  case Nil
  show ?case by simp
next
  case (Cons s ss)
  obtain c' w' where step: "dbus_g_proxy_signal s client w = (c', w')"
    by (cases "dbus_g_proxy_signal s client w")
  obtain x where "emitted w' = emitted w @ [x]"
    using signal_emitted [of s client w] step by auto
  then have "set (emitted w) \<subseteq> set (emitted w')" by auto
  then show ?case using Cons.IH [where client = c' and w = w'] step by auto
qed

lemma deliver_flags:
  "use_buffer (fst (deliver ss client w)) = use_buffer client
   \<and> synchronous (fst (deliver ss client w)) = synchronous client"
proof (induction ss arbitrary: client w)
  case Nil
  show ?case by simp
next
  case (Cons s ss)
  obtain c' w' where step: "dbus_g_proxy_signal s client w = (c', w')"
    by (cases "dbus_g_proxy_signal s client w")
  show ?case using Cons.IH [of c' w'] signal_flags [of s client w] step by simp
qed

lemma deliver_package_list:
  "\<not> use_buffer client \<Longrightarrow> \<not> synchronous client \<Longrightarrow>
   package_list (fst (deliver ss client w)) = package_list client"
proof (induction ss arbitrary: client w)
  case Nil
  show ?case by simp
next
  case (Cons s ss)
  obtain c' w' where step: "dbus_g_proxy_signal s client w = (c', w')"
    by (cases "dbus_g_proxy_signal s client w")
  have f: "\<not> use_buffer c'" "\<not> synchronous c'"
    using signal_flags [of s client w] step Cons.prems by simp_all
  have "package_list c' = package_list client"
    using signal_package_list [of client s w] step Cons.prems by simp
  then show ?case using Cons.IH [OF f, of w'] step by simp
qed

lemma deliver_package_emitted:
  "Package i p t \<in> set ss \<Longrightarrow>
   PK_CLIENT_PACKAGE (pk_info_enum_from_text w i) p t \<in> set (emitted (snd (deliver ss client w)))"
proof (induction ss arbitrary: client w)
  case Nil
  then show ?case by simp
next
  case (Cons s ss)
  obtain c' w' where step: "dbus_g_proxy_signal s client w = (c', w')"
    by (cases "dbus_g_proxy_signal s client w")
  have dec: "pk_info_enum_from_text w' = pk_info_enum_from_text w"
    using signal_info_decoder [of s client w] step by simp
  show ?case
  proof (cases "s = Package i p t")
    case True
    then have "PK_CLIENT_PACKAGE (pk_info_enum_from_text w i) p t \<in> set (emitted w')"
      using signal_emitted [of s client w] step by auto
    then show ?thesis using deliver_emitted_mono [where w = w' and ss = ss and client = c'] step by auto
  next
    case False
    then have "Package i p t \<in> set ss" using Cons.prems by simp
    then show ?thesis using Cons.IH [where client = c' and w = w'] step dec by simp
  qed
qed

text \<open>The three fields of the client that decide about the package buffer.\<close>

lemma allocate_buffer:
  "pk_client_allocate_transaction_id client w = (r, c', w') \<Longrightarrow>
   package_list c' = package_list client \<and> use_buffer c' = use_buffer client
   \<and> synchronous c' = synchronous client"
  by (auto simp add: pk_client_allocate_transaction_id_def pk_client_set_tid_def Let_def
      split: sum.splits if_splits)

lemma wait_buffer:
  "\<not> synchronous client \<Longrightarrow>
   \<exists>c' w'. pk_client_wait ret client w = Some (c', w')
     \<and> package_list c' = package_list client \<and> use_buffer c' = use_buffer client
     \<and> synchronous c' = synchronous client"
  by (simp add: pk_client_wait_def pk_client_change_status_def Let_def)

lemma buffer_kept_Some:
  "package_list c' = package_list client \<Longrightarrow> use_buffer c' = use_buffer client \<Longrightarrow>
   synchronous c' = synchronous client \<Longrightarrow> buffer_kept client (Some (res, c', w'))"
  by (auto simp add: buffer_kept_def)

lemma buffer_kept_trans:
  "buffer_kept c1 r \<Longrightarrow> package_list c1 = package_list client \<Longrightarrow>
   use_buffer c1 = use_buffer client \<Longrightarrow> synchronous c1 = synchronous client \<Longrightarrow>
   buffer_kept client r"
  by (auto simp add: buffer_kept_def)

lemma proxy_call_buffer:
  "\<not> synchronous client \<Longrightarrow> buffer_kept client (pk_client_proxy_call c client w)"
proof (cases "proxy client")
  case None
  then show ?thesis by (auto simp add: pk_client_proxy_call_def buffer_kept_def)
next
  case (Some p)
  assume ns: "\<not> synchronous client"
  obtain e w1 where d: "dbus_g_proxy_call p c w = (e, w1)" by (cases "dbus_g_proxy_call p c w")
  from wait_buffer [OF ns, of "e = None" w1]
  show ?thesis using Some d by (auto simp add: pk_client_proxy_call_def buffer_kept_def)
qed

lemma privileged_buffer:
  "\<not> synchronous client \<Longrightarrow> buffer_kept client (pk_client_privileged action client w)"
proof -
  assume ns: "\<not> synchronous client"
  obtain e w1 where d: "pk_client_auth_retry action w = (e, w1)"
    by (cases "pk_client_auth_retry action w")
  from wait_buffer [OF ns, of "e = None" w1]
  show ?thesis using d by (auto simp add: pk_client_privileged_def buffer_kept_def Let_def)
qed


lemma after_allocate:
  assumes "\<And>error c1 w1. package_list c1 = package_list client \<Longrightarrow> use_buffer c1 = use_buffer client \<Longrightarrow>
     synchronous c1 = synchronous client \<Longrightarrow> buffer_kept client (k error c1 w1)"
  shows "buffer_kept client
     (case pk_client_allocate_transaction_id client w of
        ((ret, error), c1, w1) \<Rightarrow> if \<not> ret then Some ((False, error), c1, w1) else k error c1 w1)"
proof -
  obtain ret error c1 w1 where a: "pk_client_allocate_transaction_id client w = ((ret, error), c1, w1)"
    by (metis prod.exhaust)
  note b = allocate_buffer [OF a]
  show ?thesis
    using assms [of c1 error w1] b by (auto simp add: a buffer_kept_def)
qed

lemma proxy_call_buffer':
  "\<not> synchronous client \<Longrightarrow> package_list c1 = package_list client \<Longrightarrow>
   use_buffer c1 = use_buffer client \<Longrightarrow> synchronous c1 = synchronous client \<Longrightarrow>
   buffer_kept client (pk_client_proxy_call c c1 w)"
  using proxy_call_buffer [of c1 c w] by (auto intro: buffer_kept_trans)

lemma privileged_buffer':
  "\<not> synchronous client \<Longrightarrow> package_list c1 = package_list client \<Longrightarrow>
   use_buffer c1 = use_buffer client \<Longrightarrow> synchronous c1 = synchronous client \<Longrightarrow>
   buffer_kept client (pk_client_privileged action c1 w)"
  using privileged_buffer [of c1 action w] by (auto intro: buffer_kept_trans)

lemma buffer_kept_early: "buffer_kept client (Some (res, client, w))"
  by (auto simp add: buffer_kept_def)

lemma get_repo_list_buffer:
  "\<not> synchronous client \<Longrightarrow> buffer_kept client (pk_client_get_repo_list client f w)"
proof -
  assume ns: "\<not> synchronous client"
  show ?thesis
    unfolding pk_client_get_repo_list_def
  proof (rule after_allocate)
    fix error :: "GError option" and c1 :: PkClient and w1 :: world
    assume k: "package_list c1 = package_list client" "use_buffer c1 = use_buffer client"
      "synchronous c1 = synchronous client"
    let ?c = "c1\<lparr>role := PK_ROLE_ENUM_GET_REPO_LIST, cached_filters := f\<rparr>"
    have n: "\<not> synchronous ?c" using ns k by simp
    show "buffer_kept client
       (let client = ?c
        in case proxy client of
             None \<Rightarrow> Some ((False, no_proxy), client, w1)
           | Some p \<Rightarrow>
               (case dbus_g_proxy_call p
                       (''GetRepoList'', [G_TYPE_STRING (Some (pk_filter_enums_to_text w1 f))]) w1 of
                  (error, w) \<Rightarrow>
                    (let fixed = pk_client_error_fixup error
                     in map_option (\<lambda>(client, w). ((error = None, fixed), client, w))
                          (pk_client_wait (error = None) client w))))"
    proof (cases "proxy ?c")
      case None
      then show ?thesis using k by (auto simp add: buffer_kept_def Let_def)
    next
      case (Some p)
      obtain e w2 where d: "dbus_g_proxy_call p
          (''GetRepoList'', [G_TYPE_STRING (Some (pk_filter_enums_to_text w1 f))]) w1 = (e, w2)"
        by (metis prod.exhaust)
      from wait_buffer [OF n, of "e = None" w2]
      show ?thesis using Some d k by (auto simp add: buffer_kept_def Let_def)
    qed
  qed
qed

lemma get_old_transactions_buffer:
  "buffer_kept client (pk_client_get_old_transactions client n w)"
  unfolding pk_client_get_old_transactions_def
proof (rule after_allocate)
  fix error :: "GError option" and c1 :: PkClient and w1 :: world
  assume k: "package_list c1 = package_list client" "use_buffer c1 = use_buffer client"
    "synchronous c1 = synchronous client"
  show "buffer_kept client
     (case proxy c1 of
        None \<Rightarrow> Some ((False, no_proxy), c1, w1)
      | Some p \<Rightarrow>
          (case dbus_g_proxy_call p (''GetOldTransactions'', [G_TYPE_UINT n]) w1 of
             (error, w) \<Rightarrow>
               (let fixed = pk_client_error_fixup error
                in if error = None \<and> \<not> is_finished c1
                   then (case pk_client_change_status c1 PK_STATUS_ENUM_WAIT w of
                           (client, w) \<Rightarrow> Some ((error = None, fixed), client, w))
                   else Some ((error = None, fixed), c1, w))))"
    using k
    by (auto simp add: buffer_kept_def Let_def pk_client_change_status_def
        split: option.splits prod.splits)
qed

lemma update_system_buffer:
  "\<not> synchronous client \<Longrightarrow> buffer_kept client (pk_client_update_system client w)"
proof -
  assume ns: "\<not> synchronous client"
  show ?thesis
    unfolding pk_client_update_system_def
  proof (rule after_allocate)
    fix error :: "GError option" and c1 :: PkClient and w1 :: world
    assume k: "package_list c1 = package_list client" "use_buffer c1 = use_buffer client"
      "synchronous c1 = synchronous client"
    let ?c = "c1\<lparr>role := PK_ROLE_ENUM_UPDATE_SYSTEM\<rparr>"
    have n: "\<not> synchronous ?c" using ns k by simp
    have kk: "package_list ?c = package_list client" "use_buffer ?c = use_buffer client"
      "synchronous ?c = synchronous client"
      using k by simp_all
    have wt: "buffer_kept client (map_option (Pair r) (pk_client_wait b ?c v))" for r b v
      using wait_buffer [OF n, of b v] kk by (auto simp add: buffer_kept_def)
    have ea: "buffer_kept client (Some (res, ?c, v))" for res v
      using kk by (rule buffer_kept_Some)
    show "buffer_kept client
       (let client = ?c
        in case pk_client_update_system_action client w1 of
             (error_pk, w) \<Rightarrow>
               (case (if error_pk \<noteq> None \<and> pk_polkit_client_error_denied_by_policy w error_pk
                      then (case pk_polkit_client_gain_privilege_str (message (the error_pk)) w of
                              (granted, w) \<Rightarrow>
                                (case (if granted then pk_client_update_system_action client w
                                       else (error_pk, w)) of
                                   (error_pk, w) \<Rightarrow>
                                     if pk_polkit_client_error_denied_by_policy w error_pk
                                     then (True, pk_client_error_set error PK_CLIENT_ERROR_FAILED_AUTH
                                                   (g_vasprintf w (message (the error_pk))), w)
                                     else (False, error_pk, w)))
                      else (False, error_pk, w)) of
                  (fa, error_pk, w) \<Rightarrow>
                    if fa then Some ((False, error_pk), client, w)
                    else
                      map_option (\<lambda>(client, w). ((error_pk = None, error_pk), client, w))
                        (pk_client_wait (error_pk = None) client w)))"
      unfolding Let_def
      by (auto simp add: wt ea split: prod.splits if_splits)
  qed
qed


lemma action_buffer:
  assumes ns: "\<not> synchronous client"
  shows "buffer_kept client (pk_client_action a client w)"
proof (cases a)
  case (GetRepoList f)
  then show ?thesis using get_repo_list_buffer [OF ns] by simp
next
  case (GetOldTransactions n)
  then show ?thesis using get_old_transactions_buffer by simp
next
  case UpdateSystem
  then show ?thesis using update_system_buffer [OF ns] by simp
qed (auto simp add: pk_client_get_updates_def pk_client_search_name_def
      pk_client_search_details_def pk_client_search_group_def pk_client_search_file_def
      pk_client_get_depends_def pk_client_get_packages_def pk_client_get_requires_def
      pk_client_what_provides_def pk_client_get_update_detail_def pk_client_rollback_def
      pk_client_resolve_def pk_client_get_details_def pk_client_get_files_def
      pk_client_remove_packages_def
      pk_client_refresh_cache_def pk_client_install_packages_def pk_client_install_signature_def
      pk_client_update_packages_def pk_client_install_files_def pk_client_accept_eula_def
      pk_client_repo_enable_def pk_client_repo_set_data_def
      pk_client_update_package_def pk_client_install_package_def
      pk_client_install_file_def pk_client_remove_package_def
      buffer_kept_early Let_def ns
      intro!: after_allocate proxy_call_buffer' privileged_buffer' split: option.splits)

text \<open>
  C8. A client that uses neither the package buffer nor the synchronous mode, and whose
  package list is empty (as it is in a new client), still has an empty package list
  after any sequence of signals of a transaction, the accessor of the package list
  gives no list, and yet every \<open>Package\<close> signal of the sequence has been emitted to
  the observers of the client. The same holds for a whole transaction: any action
  method returns on such a client, and after the signals that follow it the package
  list is empty and the accessor gives no list.
\<close>

theorem buffer_disabled_stays_empty:
  assumes "\<not> use_buffer client" and "\<not> synchronous client" and "package_list client = []"
  shows "package_list (fst (deliver ss client w)) = []
       \<and> pk_client_get_package_list (fst (deliver ss client w)) = None
       \<and> (\<forall>i p t. Package i p t \<in> set ss \<longrightarrow>
            PK_CLIENT_PACKAGE (pk_info_enum_from_text w i) p t \<in> set (emitted (snd (deliver ss client w))))
       \<and> (\<exists>res c1 w1. pk_client_action a client w = Some (res, c1, w1)
            \<and> package_list (fst (deliver ss c1 w1)) = []
            \<and> pk_client_get_package_list (fst (deliver ss c1 w1)) = None)"
proof -
  have signals: "package_list (fst (deliver ss c v)) = []
       \<and> pk_client_get_package_list (fst (deliver ss c v)) = None"
    if "\<not> use_buffer c" "\<not> synchronous c" "package_list c = []" for c v
    using that deliver_package_list [of c ss v] deliver_flags [of ss c v]
    by (simp add: pk_client_get_package_list_def)
  from action_buffer [OF assms(2), of a w]
  obtain res c1 w1 where r: "pk_client_action a client w = Some (res, c1, w1)"
    and k: "package_list c1 = package_list client" "use_buffer c1 = use_buffer client"
      "synchronous c1 = synchronous client"
    unfolding buffer_kept_def by blast
  have "package_list (fst (deliver ss c1 w1)) = []
       \<and> pk_client_get_package_list (fst (deliver ss c1 w1)) = None"
    using signals [of c1 w1] k assms by simp
  then have "\<exists>res c1 w1. pk_client_action a client w = Some (res, c1, w1)
            \<and> package_list (fst (deliver ss c1 w1)) = []
            \<and> pk_client_get_package_list (fst (deliver ss c1 w1)) = None"
    using r by blast
  then show ?thesis
    using signals [OF assms, of w] deliver_package_emitted [where ss = ss and w = w and client = client]
    by blast
qed

theorem buffer_disabled_stays_empty_witness:
  "package_list (fst (deliver [Package ''available'' ''hal;0.5;i386;fedora'' ''HAL'', Finished ''success'' 12]
       pk_client_init example_world)) = []
   \<and> pk_client_get_package_list (fst (deliver
       [Package ''available'' ''hal;0.5;i386;fedora'' ''HAL'', Finished ''success'' 12]
       pk_client_init example_world)) = None
   \<and> PK_CLIENT_PACKAGE 0 ''hal;0.5;i386;fedora'' ''HAL'' \<in> set (emitted (snd (deliver
       [Package ''available'' ''hal;0.5;i386;fedora'' ''HAL'', Finished ''success'' 12]
       pk_client_init example_world)))
   \<and> pk_client_action (SearchName (PK_FILTER_ENUM 1) (Some ''power'')) pk_client_init example_world
       \<noteq> None"
proof -
  have a: "\<not> use_buffer pk_client_init" "\<not> synchronous pk_client_init" "package_list pk_client_init = []"
    by (simp_all add: pk_client_init_def)
  have i: "pk_info_enum_from_text example_world ''available'' = 0"
    by (simp add: example_world_def)
  show ?thesis
    using buffer_disabled_stays_empty [OF a,
      of "[Package ''available'' ''hal;0.5;i386;fedora'' ''HAL'', Finished ''success'' 12]" example_world
         "SearchName (PK_FILTER_ENUM 1) (Some ''power'')"] i
    by auto
qed

text \<open>
  C10. Without the buffer flag \<open>pk_client_get_package_list\<close> returns \<open>NULL\<close>, in
  synchronous mode too, where a \<open>Package\<close> signal is nevertheless appended to the
  internal package list: the appended package stays out of reach of the accessor.
\<close>

theorem package_list_hidden_without_buffer:
  assumes "\<not> use_buffer client"
  shows "pk_client_get_package_list client = None
       \<and> (synchronous client \<longrightarrow>
            package_list (fst (pk_client_package_cb info_text package_id summary client w)) =
              package_list client @ [(pk_info_enum_from_text w info_text, package_id, summary)]
            \<and> pk_client_get_package_list
                (fst (pk_client_package_cb info_text package_id summary client w)) = None)"
  using assms
  by (simp add: pk_client_get_package_list_def pk_client_package_cb_def pk_package_list_add_def Let_def)

theorem package_list_hidden_without_buffer_witness:
  "\<not> use_buffer (pk_client_init\<lparr>synchronous := True\<rparr>)
   \<and> pk_client_get_package_list (pk_client_init\<lparr>synchronous := True\<rparr>) = None
   \<and> package_list (fst (pk_client_package_cb ''available'' ''hal;0.5;i386;fedora'' ''HAL''
        (pk_client_init\<lparr>synchronous := True\<rparr>) example_world)) = [(0, ''hal;0.5;i386;fedora'', ''HAL'')]
   \<and> pk_client_get_package_list (fst (pk_client_package_cb ''available'' ''hal;0.5;i386;fedora'' ''HAL''
        (pk_client_init\<lparr>synchronous := True\<rparr>) example_world)) = None"
proof -
  have a: "\<not> use_buffer (pk_client_init\<lparr>synchronous := True\<rparr>)"
    by (simp add: pk_client_init_def)
  have s: "synchronous (pk_client_init\<lparr>synchronous := True\<rparr>)"
    and l: "package_list (pk_client_init\<lparr>synchronous := True\<rparr>) = []"
    by (simp_all add: pk_client_init_def)
  have i: "pk_info_enum_from_text example_world ''available'' = 0"
    by (simp add: example_world_def)
  show ?thesis
    using package_list_hidden_without_buffer [OF a,
      of "''available''" "''hal;0.5;i386;fedora''" "''HAL''" example_world] a s l i
    by simp
qed

subsection \<open>Cancel\<close>

text \<open>
  \<open>pk_client_cancel\<close> on a client without a proxy for a transaction succeeds and
  leaves the world as it was: nothing is called on the bus. On a client with a proxy
  the \<open>Cancel\<close> method is called once on it; the result is success when the call
  succeeds, and also when its error says that the transaction is not running or does
  not exist; for any other error the result is failure with that error, its code
  rewritten to \<open>Failed\<close> when it is the generic remote exception of the bus.
\<close>

lemma cancel_outcome:
  "(proxy client = None \<longrightarrow> pk_client_cancel client w = ((True, None), w))
   \<and> (\<forall>p. proxy client = Some p \<longrightarrow>
        (\<exists>w'. w' = w\<lparr>dbus_log := dbus_log w @ [(path p, (''Cancel'', []))]\<rparr>
           \<and> (case dbus_reply w (dbus_log w') of
                 None \<Rightarrow> pk_client_cancel client w = ((True, None), w')
               | Some e \<Rightarrow>
                   if message e = ''cancelling a non-running transaction''
                      \<or> suffix ('' doesn't exist'' @ [CHR 0x0A]) (message e)
                   then pk_client_cancel client w = ((True, None), w')
                   else pk_client_cancel client w =
                          ((False, Some (if domain e = DBUS_GERROR \<and> code e = DBUS_GERROR_REMOTE_EXCEPTION
                                         then e\<lparr>code := PK_CLIENT_ERROR_FAILED\<rparr> else e)), w'))))"
  by (auto simp add: pk_client_cancel_def dbus_g_proxy_call_def Let_def pk_strequal_def
      g_str_has_suffix_def pk_client_error_fixup_def split: option.splits)

lemma cancel_bound_example:
  "pk_client_cancel pk_client_init example_world = ((True, None), example_world)
   \<and> fst (pk_client_cancel example_bound world_cancel_finished) = (True, None)
   \<and> dbus_log (snd (pk_client_cancel example_bound world_cancel_finished)) = [(''/7_cafe'', (''Cancel'', []))]"
proof -
  have a: "proxy pk_client_init = None" by (simp add: pk_client_init_def)
  have b: "proxy example_bound = Some \<lparr>path = ''/7_cafe'', connected = transaction_signals\<rparr>"
    by (simp add: example_bound_def pk_client_init_def)
  have 1: "pk_client_cancel pk_client_init example_world = ((True, None), example_world)"
    using cancel_outcome [of pk_client_init example_world] a by simp
  have 2: "pk_client_cancel example_bound world_cancel_finished =
     ((True, None), world_cancel_finished\<lparr>dbus_log := [(''/7_cafe'', (''Cancel'', []))]\<rparr>)"
    using cancel_outcome [of example_bound world_cancel_finished] b
    by (simp add: world_cancel_finished_def example_world_def)
  show ?thesis using 1 2 by simp
qed

text \<open>
  \<open>pk_client_requeue\<close> clears the transaction id and keeps the proxy, where
  \<open>pk_client_reset\<close> drops the proxy too.
\<close>

lemma requeue_keeps_proxy:
  "proxy (requeue_cleared client) = proxy client \<and> tid (requeue_cleared client) = None"
  by (simp add: requeue_cleared_def)

text \<open>
  C5. The claim fails on a client whose transaction id was cleared by a requeue that
  then got no new id: the client has no transaction id, hence no bound transaction,
  and still holds the proxy of the old transaction. \<open>pk_client_cancel\<close> looks at the
  proxy only: it calls \<open>Cancel\<close> on the bus, and with a daemon that cannot be reached
  it returns failure. The same client after \<open>pk_client_reset\<close> has neither transaction
  id nor proxy, and \<open>pk_client_cancel\<close> succeeds on it without a call on the bus.
\<close>

theorem cancel_after_failed_requeue:
  "pk_client_requeue example_searched world_no_daemon =
     Some ((False, Some \<lparr>domain = DBUS_GERROR, code = 2,
        message = ''The name org.freedesktop.PackageKit was not provided by any .service files''\<rparr>),
       requeue_cleared example_searched, world_no_daemon\<lparr>control_calls := 1\<rparr>)
   \<and> tid (requeue_cleared example_searched) = None
   \<and> pk_client_cancel (requeue_cleared example_searched) (world_no_daemon\<lparr>control_calls := 1\<rparr>) =
       ((False, Some \<lparr>domain = DBUS_GERROR, code = 2,
          message = ''The name org.freedesktop.PackageKit was not provided by any .service files''\<rparr>),
        world_no_daemon\<lparr>control_calls := 1, dbus_log := [(''/7_cafe'', (''Cancel'', []))]\<rparr>)
   \<and> tid (fst (snd (pk_client_reset example_searched world_no_daemon))) = None
   \<and> pk_client_cancel (fst (snd (pk_client_reset example_searched world_no_daemon))) world_no_daemon =
       ((True, None), world_no_daemon)"
proof -
  let ?e = "\<lparr>domain = DBUS_GERROR, code = 2,
        message = ''The name org.freedesktop.PackageKit was not provided by any .service files''\<rparr>"
  let ?P = "\<lparr>path = ''/7_cafe'', connected = transaction_signals\<rparr>"
  have c: "example_searched\<lparr>tid := None, last_status := PK_STATUS_ENUM_UNKNOWN, is_finished := False,
             package_list := pk_package_list_clear (package_list example_searched)\<rparr>
           = requeue_cleared example_searched"
    by (simp add: requeue_cleared_def pk_package_list_clear_def)
  have al: "pk_client_allocate_transaction_id (requeue_cleared example_searched) world_no_daemon =
      ((False, Some ?e), requeue_cleared example_searched, world_no_daemon\<lparr>control_calls := 1\<rparr>)"
    by (simp add: pk_client_allocate_transaction_id_def Let_def world_no_daemon_def example_world_def)
  have f: "role (requeue_cleared example_searched) = PK_ROLE_ENUM_SEARCH_NAME"
    "role example_searched = PK_ROLE_ENUM_SEARCH_NAME" "is_finished example_searched"
    by (simp_all add: requeue_cleared_def example_searched_def)
  have fx: "pk_client_error_fixup (Some ?e) = Some ?e"
    by (simp add: pk_client_error_fixup_def error_code_defs)
  have s: "pk_client_search_name (requeue_cleared example_searched)
       (cached_filters (requeue_cleared example_searched)) (cached_search (requeue_cleared example_searched))
       world_no_daemon =
      Some ((False, Some ?e), requeue_cleared example_searched, world_no_daemon\<lparr>control_calls := 1\<rparr>)"
    by (simp add: pk_client_search_name_def al)
  have 1: "pk_client_requeue example_searched world_no_daemon =
     Some ((False, Some ?e), requeue_cleared example_searched, world_no_daemon\<lparr>control_calls := 1\<rparr>)"
    unfolding pk_client_requeue_def Let_def c
    by (simp add: f s fixup_result_def fx)
  have 2: "tid (requeue_cleared example_searched) = None"
    by (simp add: requeue_cleared_def)
  have p: "proxy (requeue_cleared example_searched) = Some ?P"
    by (simp add: requeue_cleared_def example_searched_def example_bound_def)
  have ns: "\<not> g_str_has_suffix
      ''The name org.freedesktop.PackageKit was not provided by any .service files''
      ('' doesn't exist'' @ [CHR 0x0A])"
  proof
    assume "g_str_has_suffix
      ''The name org.freedesktop.PackageKit was not provided by any .service files''
      ('' doesn't exist'' @ [CHR 0x0A])"
    then obtain zs where
      "''The name org.freedesktop.PackageKit was not provided by any .service files'' =
         zs @ '' doesn't exist'' @ [CHR 0x0A]"
      unfolding g_str_has_suffix_def suffix_def by blast
    then have "last ''The name org.freedesktop.PackageKit was not provided by any .service files'' =
         last (zs @ '' doesn't exist'' @ [CHR 0x0A])"
      by (rule arg_cong)
    then show False by simp
  qed
  have d: "dbus_reply world_no_daemon l = Some ?e" "dbus_log world_no_daemon = []" for l
    by (simp_all add: world_no_daemon_def example_world_def)
  have call: "dbus_g_proxy_call ?P (''Cancel'', []) (world_no_daemon\<lparr>control_calls := 1\<rparr>) =
     (Some ?e, world_no_daemon\<lparr>control_calls := 1, dbus_log := [(''/7_cafe'', (''Cancel'', []))]\<rparr>)"
    by (simp add: dbus_g_proxy_call_def Let_def d)
  have ne: "\<not> pk_strequal (Some (message ?e)) (Some ''cancelling a non-running transaction'')"
    by (simp add: pk_strequal_def)
  have 3: "pk_client_cancel (requeue_cleared example_searched) (world_no_daemon\<lparr>control_calls := 1\<rparr>) =
       ((False, Some ?e),
        world_no_daemon\<lparr>control_calls := 1, dbus_log := [(''/7_cafe'', (''Cancel'', []))]\<rparr>)"
    unfolding pk_client_cancel_def p option.case call prod.case using ns ne fx
    by simp
  have r: "pk_client_reset example_searched world_no_daemon =
     ((True, None), pk_client_init\<lparr>cached_filters := PK_FILTER_ENUM_UNKNOWN\<rparr>, world_no_daemon)"
    by (simp add: pk_client_reset_def example_searched_def example_bound_def pk_client_init_def
      pk_client_disconnect_proxy_def Let_def pk_package_list_clear_def)
  have 4: "tid (fst (snd (pk_client_reset example_searched world_no_daemon))) = None"
    unfolding r by (simp add: pk_client_init_def)
  have 5: "pk_client_cancel (fst (snd (pk_client_reset example_searched world_no_daemon))) world_no_daemon =
       ((True, None), world_no_daemon)"
    unfolding r by (simp add: pk_client_cancel_def pk_client_init_def)
  from 1 2 3 4 5 show ?thesis by blast
qed

subsection \<open>Binding a transaction id\<close>

lemma allocate_bound:
  "tid client \<noteq> None \<Longrightarrow>
   pk_client_allocate_transaction_id client w =
     ((False, case control_reply w (control_calls w) of Inl e \<Rightarrow> Some e | Inr t \<Rightarrow> already_tid),
      client, w\<lparr>control_calls := Suc (control_calls w)\<rparr>)"
  by (simp add: pk_client_allocate_transaction_id_def pk_client_set_tid_def already_tid_def Let_def
      split: sum.splits)

lemmas plain_action_defs = pk_client_get_updates_def pk_client_search_name_def
  pk_client_search_details_def pk_client_search_group_def pk_client_search_file_def
  pk_client_get_depends_def pk_client_get_packages_def pk_client_get_requires_def
  pk_client_what_provides_def pk_client_get_update_detail_def pk_client_rollback_def
  pk_client_resolve_def pk_client_get_details_def pk_client_get_files_def
  pk_client_get_repo_list_def pk_client_get_old_transactions_def

lemmas privileged_action_defs = pk_client_update_system_def pk_client_remove_packages_def
  pk_client_refresh_cache_def pk_client_install_packages_def pk_client_install_signature_def
  pk_client_update_packages_def pk_client_install_files_def pk_client_accept_eula_def
  pk_client_repo_enable_def pk_client_repo_set_data_def

lemmas wrapper_action_defs = pk_client_update_package_def pk_client_install_package_def
  pk_client_install_file_def pk_client_remove_package_def

lemma action_bound:
  assumes "tid client \<noteq> None"
  shows "pk_client_action a client w =
     (case argument_failure a of
        Some e \<Rightarrow> Some ((False, e), client, w)
      | None \<Rightarrow>
          Some ((False, case control_reply w (control_calls w) of
                          Inl x \<Rightarrow> Some x | Inr t \<Rightarrow> already_tid),
                client, w\<lparr>control_calls := Suc (control_calls w)\<rparr>))"
proof (cases a)
qed (simp_all add: plain_action_defs privileged_action_defs wrapper_action_defs
      allocate_bound [OF assms] package_id_failure_def package_ids_failure_def
      split: option.splits)

theorem bind_twice_counterexample:
  "tid example_bound = Some ''/7_cafe''
   \<and> map_option fst (pk_client_get_updates example_bound (PK_FILTER_ENUM 1) world_no_daemon) =
       Some (False, Some \<lparr>domain = DBUS_GERROR, code = 2,
         message = ''The name org.freedesktop.PackageKit was not provided by any .service files''\<rparr>)
   \<and> map_option (fst \<circ> snd) (pk_client_get_updates example_bound (PK_FILTER_ENUM 1) world_no_daemon) = Some example_bound
   \<and> Some \<lparr>domain = DBUS_GERROR, code = 2,
         message = ''The name org.freedesktop.PackageKit was not provided by any .service files''\<rparr>
       \<noteq> already_tid
   \<and> \<not> pk_package_id_check ''foo;1.0;x86_64''
   \<and> pk_client_get_depends example_bound (PK_FILTER_ENUM 1) (Some ''foo;1.0;x86_64'') True example_world =
       Some ((False, invalid_package_id ''foo;1.0;x86_64''), example_bound, example_world)
   \<and> invalid_package_id ''foo;1.0;x86_64'' \<noteq> already_tid"
proof -
  have t: "tid example_bound \<noteq> None" by (simp add: example_bound_def)
  have v: "\<not> pk_package_id_check ''foo;1.0;x86_64''"
    by (simp add: pk_package_id_check_def)
  have g: "pk_client_get_depends example_bound (PK_FILTER_ENUM 1) (Some ''foo;1.0;x86_64'') True example_world =
       Some ((False, invalid_package_id ''foo;1.0;x86_64''), example_bound, example_world)"
    using v by (simp add: pk_client_get_depends_def)
  have n: "invalid_package_id ''foo;1.0;x86_64'' \<noteq> already_tid"
    by (simp add: invalid_package_id_def already_tid_def pk_client_error_set_def)
  have r: "control_reply world_no_daemon (control_calls world_no_daemon) =
     Inl \<lparr>domain = DBUS_GERROR, code = 2,
         message = ''The name org.freedesktop.PackageKit was not provided by any .service files''\<rparr>"
    by (simp add: world_no_daemon_def)
  have u: "tid example_bound = Some ''/7_cafe''
   \<and> map_option fst (pk_client_get_updates example_bound (PK_FILTER_ENUM 1) world_no_daemon) =
       Some (False, Some \<lparr>domain = DBUS_GERROR, code = 2,
         message = ''The name org.freedesktop.PackageKit was not provided by any .service files''\<rparr>)
   \<and> map_option (fst \<circ> snd) (pk_client_get_updates example_bound (PK_FILTER_ENUM 1) world_no_daemon) = Some example_bound
   \<and> Some \<lparr>domain = DBUS_GERROR, code = 2,
         message = ''The name org.freedesktop.PackageKit was not provided by any .service files''\<rparr>
       \<noteq> already_tid"
    by (simp add: pk_client_get_updates_def allocate_bound [OF t] r)
       (simp add: example_bound_def already_tid_def pk_client_error_set_def
          PK_CLIENT_ERROR_ALREADY_TID_def)
  from u v g n show ?thesis by blast
qed

text \<open>
  C7, as amended. \<open>pk_client_set_tid\<close> on a client whose transaction id is set fails
  with \<open>AlreadyTid\<close> and leaves the client, hence its tid, proxy and connected
  signals, unchanged. Every action method called on such a client fails and returns
  the client unchanged. When the arguments do not pass the checks of the action, it
  returns the result of these checks (no error after a guard, \<open>InvalidPackageId\<close>
  for an invalid package id) and the world is as before. When they pass, the action
  asks the daemon for a transaction id, once, and does nothing else to the world: it
  fails with the error of the daemon when no id is handed out, and with
  \<open>AlreadyTid\<close> when one is. In no case is a method of a transaction called on the
  bus.
\<close>

theorem bind_twice_fails:
  assumes "tid client \<noteq> None"
  shows "pk_client_set_tid client t w = ((False, already_tid), client)
       \<and> pk_client_action a client w =
           (case argument_failure a of
              Some e \<Rightarrow> Some ((False, e), client, w)
            | None \<Rightarrow>
                Some ((False, case control_reply w (control_calls w) of
                                Inl x \<Rightarrow> Some x | Inr t' \<Rightarrow> already_tid),
                      client, w\<lparr>control_calls := Suc (control_calls w)\<rparr>))
       \<and> (\<exists>e w'. pk_client_action a client w = Some ((False, e), client, w')
             \<and> dbus_log w' = dbus_log w)"
proof (intro conjI)
  show "pk_client_set_tid client t w = ((False, already_tid), client)"
    using assms by (simp add: pk_client_set_tid_def already_tid_def)
next
  show "pk_client_action a client w =
           (case argument_failure a of
              Some e \<Rightarrow> Some ((False, e), client, w)
            | None \<Rightarrow>
                Some ((False, case control_reply w (control_calls w) of
                                Inl x \<Rightarrow> Some x | Inr t' \<Rightarrow> already_tid),
                      client, w\<lparr>control_calls := Suc (control_calls w)\<rparr>))"
    using assms by (rule action_bound)
next
  show "\<exists>e w'. pk_client_action a client w = Some ((False, e), client, w')
             \<and> dbus_log w' = dbus_log w"
    unfolding action_bound [OF assms] by (cases "argument_failure a") simp_all
qed

theorem bind_twice_fails_witness:
  "tid example_bound \<noteq> None
   \<and> pk_client_set_tid example_bound ''/8_beef'' example_world = ((False, already_tid), example_bound)
   \<and> pk_client_action (SearchName (PK_FILTER_ENUM 1) (Some ''power'')) example_bound example_world =
       Some ((False, already_tid), example_bound, example_world\<lparr>control_calls := Suc 0\<rparr>)
   \<and> pk_client_action (GetDepends (PK_FILTER_ENUM 1) (Some ''foo;1.0;x86_64'') True) example_bound example_world =
       Some ((False, invalid_package_id ''foo;1.0;x86_64''), example_bound, example_world)"
proof -
  have t: "tid example_bound \<noteq> None" by (simp add: example_bound_def)
  have c: "control_calls example_world = 0" "control_reply example_world 0 = Inr ''/7_cafe''"
    by (simp_all add: example_world_def)
  have v: "\<not> pk_package_id_check ''foo;1.0;x86_64''"
    by (simp add: pk_package_id_check_def)
  show ?thesis
    using bind_twice_fails [OF t, of "''/8_beef''" example_world "SearchName (PK_FILTER_ENUM 1) (Some ''power'')"]
      bind_twice_fails [OF t, of "''/8_beef''" example_world "GetDepends (PK_FILTER_ENUM 1) (Some ''foo;1.0;x86_64'') True"]
      t c v
    by (simp add: package_id_failure_def)
qed

subsection \<open>Reset\<close>

theorem reset_clears_cached_request_counterexample:
  "fst (pk_client_reset example_searched example_world) = (True, None)
   \<and> cached_search example_searched = Some ''power''
   \<and> cached_search (fst (snd (pk_client_reset example_searched example_world))) = None
   \<and> cached_filters example_searched = PK_FILTER_ENUM 4
   \<and> cached_filters (fst (snd (pk_client_reset example_searched example_world))) = PK_FILTER_ENUM_UNKNOWN"
  by (simp add: pk_client_reset_def example_searched_def example_bound_def pk_client_init_def
      pk_client_disconnect_proxy_def Let_def)

text \<open>
  C3, as amended. When \<open>pk_client_reset\<close> succeeds, the transaction id, the proxy with
  its signal connections, the package list, the last status, the role and the finished
  flag are cleared, and so are the cached strings of the request (package id and ids,
  key id, transaction id, full path and paths, search text) and the cached filters,
  which become \<open>unknown\<close>. What survives the reset is the rest of the cached request
  (the flags force, allow-deps, autoremove, trusted and the provides kind), the
  buffer and synchronous flags, the restart level and the private loop.
\<close>

theorem reset_effect:
  assumes "pk_client_reset client w = ((True, e), client', w')"
  shows "tid client' = None \<and> proxy client' = None \<and> package_list client' = []
       \<and> last_status client' = PK_STATUS_ENUM_UNKNOWN \<and> role client' = PK_ROLE_ENUM_UNKNOWN
       \<and> \<not> is_finished client'
       \<and> cached_package_id client' = None \<and> cached_package_ids client' = None
       \<and> cached_key_id client' = None \<and> cached_transaction_id client' = None
       \<and> cached_full_path client' = None \<and> cached_full_paths client' = None
       \<and> cached_search client' = None \<and> cached_filters client' = PK_FILTER_ENUM_UNKNOWN
       \<and> cached_force client' = cached_force client
       \<and> cached_allow_deps client' = cached_allow_deps client
       \<and> cached_autoremove client' = cached_autoremove client
       \<and> cached_trusted client' = cached_trusted client
       \<and> cached_provides client' = cached_provides client
       \<and> use_buffer client' = use_buffer client \<and> synchronous client' = synchronous client
       \<and> require_restart client' = require_restart client \<and> loop client' = loop client"
proof -
  obtain r w1 where c: "(if tid client \<noteq> None \<and> is_finished client \<noteq> True
            then pk_client_cancel client w else ((True, None), w)) = (r, w1)"
    by (cases "if tid client \<noteq> None \<and> is_finished client \<noteq> True
            then pk_client_cancel client w else ((True, None), w)")
  obtain ret err where r: "r = (ret, err)" by (cases r)
  have ok: "ret" using assms c r by (auto simp add: pk_client_reset_def split: if_splits)
  have "client' = (snd (pk_client_disconnect_proxy client))\<lparr>tid := None, cached_package_id := None,
       cached_key_id := None, cached_transaction_id := None, cached_full_path := None,
       cached_full_paths := None, cached_search := None, cached_package_ids := None,
       cached_filters := PK_FILTER_ENUM_UNKNOWN, last_status := PK_STATUS_ENUM_UNKNOWN,
       role := PK_ROLE_ENUM_UNKNOWN, is_finished := False,
       package_list := pk_package_list_clear (package_list (snd (pk_client_disconnect_proxy client)))\<rparr>"
    using assms c r ok by (simp add: pk_client_reset_def Let_def)
  then show ?thesis
    by (cases "proxy client") (simp_all add: pk_client_disconnect_proxy_def pk_package_list_clear_def)
qed

theorem reset_effect_witness:
  "pk_client_reset example_searched example_world =
     ((True, None), pk_client_init\<lparr>cached_filters := PK_FILTER_ENUM_UNKNOWN\<rparr>, example_world)
   \<and> cached_search (pk_client_init\<lparr>cached_filters := PK_FILTER_ENUM_UNKNOWN\<rparr>) = None
   \<and> role (pk_client_init\<lparr>cached_filters := PK_FILTER_ENUM_UNKNOWN\<rparr>) = PK_ROLE_ENUM_UNKNOWN"
proof -
  have ev: "pk_client_reset example_searched example_world =
     ((True, None), pk_client_init\<lparr>cached_filters := PK_FILTER_ENUM_UNKNOWN\<rparr>, example_world)"
    by (simp add: pk_client_reset_def example_searched_def example_bound_def pk_client_init_def
      pk_client_disconnect_proxy_def Let_def pk_package_list_clear_def)
  show ?thesis using reset_effect [OF ev] ev by simp
qed

subsection \<open>Normalising remote errors\<close>

lemma error_fixup_remote_exception:
  "domain e = DBUS_GERROR \<Longrightarrow> code e = DBUS_GERROR_REMOTE_EXCEPTION \<Longrightarrow>
   pk_client_error_fixup (Some e) = Some (e\<lparr>code := PK_CLIENT_ERROR_FAILED\<rparr>)
   \<and> message (the (pk_client_error_fixup (Some e))) = message e"
  by (simp add: pk_client_error_fixup_def)

lemma error_fixup_other:
  "domain e \<noteq> DBUS_GERROR \<or> code e \<noteq> DBUS_GERROR_REMOTE_EXCEPTION \<Longrightarrow>
   pk_client_error_fixup (Some e) = Some e"
  by (auto simp add: pk_client_error_fixup_def)

lemma allocate_fresh:
  "tid client = None \<Longrightarrow> control_reply w (control_calls w) = Inr t \<Longrightarrow> proxy_new_ok w t \<Longrightarrow>
   pk_client_allocate_transaction_id client w =
     ((True, None),
      client\<lparr>tid := Some t, proxy := Some \<lparr>path = t, connected = transaction_signals\<rparr>\<rparr>,
      w\<lparr>control_calls := Suc (control_calls w)\<rparr>)"
  by (simp add: pk_client_allocate_transaction_id_def pk_client_set_tid_def Let_def)

text \<open>
  C9. The claim fails on \<open>pk_client_update_system\<close>: when the daemon answers
  \<open>UpdateSystem\<close> by a remote exception that is no denial by policy, the caller gets
  the error with the code of the remote exception, not \<open>Failed\<close>. The sibling
  \<open>pk_client_refresh_cache\<close>, in the same world, fixes the code up to \<open>Failed\<close> and
  keeps the message.
\<close>

theorem update_system_error_not_fixed_up:
  "map_option fst (pk_client_update_system pk_client_init world_remote_failure) =
     Some (False, Some \<lparr>domain = DBUS_GERROR, code = DBUS_GERROR_REMOTE_EXCEPTION,
                        message = ''Operation not yet supported by backend''\<rparr>)
   \<and> map_option fst (pk_client_refresh_cache pk_client_init False world_remote_failure) =
     Some (False, Some \<lparr>domain = DBUS_GERROR, code = PK_CLIENT_ERROR_FAILED,
                        message = ''Operation not yet supported by backend''\<rparr>)
   \<and> DBUS_GERROR_REMOTE_EXCEPTION \<noteq> PK_CLIENT_ERROR_FAILED"
proof -
  have a: "tid pk_client_init = None" by (simp add: pk_client_init_def)
  have b: "control_reply world_remote_failure (control_calls world_remote_failure) = Inr ''/7_cafe''"
    "proxy_new_ok world_remote_failure ''/7_cafe''"
    by (simp_all add: world_remote_failure_def example_world_def)
  have d: "\<not> denied_by_policy world_remote_failure \<lparr>domain = DBUS_GERROR, code = DBUS_GERROR_REMOTE_EXCEPTION,
                        message = ''Operation not yet supported by backend''\<rparr>"
    by (simp add: world_remote_failure_def example_world_def)
  have r: "dbus_reply world_remote_failure l = Some \<lparr>domain = DBUS_GERROR, code = DBUS_GERROR_REMOTE_EXCEPTION,
                        message = ''Operation not yet supported by backend''\<rparr>" for l
    by (simp add: world_remote_failure_def example_world_def)
  have 1: "map_option fst (pk_client_update_system pk_client_init world_remote_failure) =
     Some (False, Some \<lparr>domain = DBUS_GERROR, code = DBUS_GERROR_REMOTE_EXCEPTION,
                        message = ''Operation not yet supported by backend''\<rparr>)"
    by (simp add: pk_client_update_system_def allocate_fresh [OF a b] pk_client_update_system_action_def
        dbus_g_proxy_call_def Let_def r d pk_polkit_client_error_denied_by_policy_def pk_client_wait_def)
  have 2: "map_option fst (pk_client_refresh_cache pk_client_init False world_remote_failure) =
     Some (False, Some \<lparr>domain = DBUS_GERROR, code = PK_CLIENT_ERROR_FAILED,
                        message = ''Operation not yet supported by backend''\<rparr>)"
    by (simp add: pk_client_refresh_cache_def allocate_fresh [OF a b] pk_client_refresh_cache_action_def
        pk_client_privileged_def pk_client_auth_retry_def
        dbus_g_proxy_call_def Let_def r d pk_polkit_client_error_denied_by_policy_def pk_client_wait_def
        pk_client_error_fixup_def)
  show ?thesis using 1 2 by (simp add: DBUS_GERROR_REMOTE_EXCEPTION_def PK_CLIENT_ERROR_FAILED_def)
qed

subsection \<open>Checking package ids before the transaction\<close>

lemma sublist_context: "sublist p m \<Longrightarrow> sublist p (a @ m @ b)"
proof -
  assume "sublist p m"
  then obtain ps ss where "m = ps @ p @ ss" by (auto simp add: sublist_def)
  then have "a @ m @ b = (a @ ps) @ p @ (ss @ b)" by simp
  then show ?thesis unfolding sublist_def by blast
qed

lemma ids_to_text_sublist:
  "p \<in> set ps \<Longrightarrow> sublist p (pk_package_ids_to_text ps d)"
proof (induction ps d rule: pk_package_ids_to_text.induct)
  case (1 d)
  then show ?case by simp
next
  case (2 x d)
  then show ?case by simp
next
  case (3 x y ys d)
  show ?case
  proof (cases "p = x")
    case True
    then show ?thesis using sublist_appendI [of x "[]" "d @ pk_package_ids_to_text (y # ys) d"] by simp
  next
    case False
    then have "sublist p (pk_package_ids_to_text (y # ys) d)" using 3 by simp
    then show ?thesis
      using sublist_context [of p "pk_package_ids_to_text (y # ys) d" "x @ d" "[]"] by simp
  qed
qed

lemma invalid_package_id_error:
  "\<exists>e. invalid_package_id p = Some e \<and> domain e = PK_CLIENT_ERROR
       \<and> code e = PK_CLIENT_ERROR_INVALID_PACKAGEID \<and> sublist p (message e)"
  using sublist_appendI [of p "''package_id '' @ [CHR 0x27]" "[CHR 0x27] @ '' is not valid''"]
  by (simp add: invalid_package_id_def pk_client_error_set_def)

lemma invalid_package_ids_error:
  "p \<in> set ps \<Longrightarrow>
   \<exists>e. invalid_package_ids ps = Some e \<and> domain e = PK_CLIENT_ERROR
       \<and> code e = PK_CLIENT_ERROR_INVALID_PACKAGEID \<and> sublist p (message e)"
proof -
  assume "p \<in> set ps"
  then have "sublist p (pk_package_ids_to_text ps '', '')" by (rule ids_to_text_sublist)
  then have "sublist p ((''package_ids '' @ [CHR 0x27]) @ pk_package_ids_to_text ps '', ''
      @ ([CHR 0x27] @ '' are not valid''))"
    by (rule sublist_context)
  then show ?thesis
    by (simp add: invalid_package_ids_def pk_client_error_set_def)
qed

lemma ids_check_fails:
  "p \<in> set ps \<Longrightarrow> \<not> pk_package_id_check p \<Longrightarrow> \<not> pk_package_ids_check ps"
  by (auto simp add: pk_package_ids_check_def list_all_iff)

text \<open>
  C4, as amended. Take get-depends, get-requires, get-details, get-files,
  get-update-detail, install-packages, remove-packages, update-packages,
  install-signature called with a known signature type and a key id, or one of the
  single-package forms install-package, remove-package, update-package called with an
  id that is not the empty string. When one of the package ids of the action is invalid
  the action fails with \<open>InvalidPackageId\<close>, the message of the error contains the
  text of that id, and both the client and the world are as before: no transaction id
  was asked for and no method was called on the bus. (Resolve is not among these
  actions: its argument is the name of a package and is not validated.)
\<close>

theorem invalid_package_id_rejected_early:
  assumes "p \<in> set (action_package_ids a)" and "\<not> pk_package_id_check p"
    and "\<forall>f x. a \<noteq> Resolve f x"
    and "\<forall>t k x. a = InstallSignature t k x \<longrightarrow> t \<noteq> PK_SIGTYPE_ENUM_UNKNOWN \<and> k \<noteq> None"
    and "p = [] \<longrightarrow> (\<forall>x. a \<noteq> InstallPackage x) \<and> (\<forall>x y z. a \<noteq> RemovePackage x y z)
                       \<and> (\<forall>x. a \<noteq> UpdatePackage x)"
  shows "\<exists>e. pk_client_action a client w = Some ((False, Some e), client, w)
           \<and> domain e = PK_CLIENT_ERROR \<and> code e = PK_CLIENT_ERROR_INVALID_PACKAGEID
           \<and> sublist p (message e)"
proof -
  have one: "\<exists>e. Some ((False, invalid_package_id p), client, w) = Some ((False, Some e), client, w)
           \<and> domain e = PK_CLIENT_ERROR \<and> code e = PK_CLIENT_ERROR_INVALID_PACKAGEID
           \<and> sublist p (message e)"
    using invalid_package_id_error [of p] by auto
  have many: "\<exists>e. Some ((False, invalid_package_ids ps), client, w) = Some ((False, Some e), client, w)
           \<and> domain e = PK_CLIENT_ERROR \<and> code e = PK_CLIENT_ERROR_INVALID_PACKAGEID
           \<and> sublist p (message e)" if "p \<in> set ps" for ps
    using invalid_package_ids_error [OF that] by auto
  have single: "\<not> pk_package_ids_check (g_strsplit_1 p) \<and> p \<in> set (g_strsplit_1 p)" if "p \<noteq> []"
    using that assms(2) by (simp add: g_strsplit_1_def pk_package_ids_check_def)
  show ?thesis
  proof (cases a)
    case (GetDepends f q r)
    then show ?thesis using assms one by (cases q) (simp_all add: pk_client_get_depends_def)
  next
    case (GetRequires f q r)
    then show ?thesis using assms one by (cases q) (simp_all add: pk_client_get_requires_def)
  next
    case (GetUpdateDetail q)
    then show ?thesis using assms one by (cases q) (simp_all add: pk_client_get_update_detail_def)
  next
    case (GetDetails q)
    then show ?thesis using assms one by (cases q) (simp_all add: pk_client_get_details_def)
  next
    case (GetFiles q)
    then show ?thesis using assms one by (cases q) (simp_all add: pk_client_get_files_def)
  next
    case (InstallSignature t k q)
    then show ?thesis using assms one
      by (cases k; cases q) (simp_all add: pk_client_install_signature_def)
  next
    case (InstallPackages qs)
    then show ?thesis using assms many ids_check_fails [of p]
      by (cases qs) (simp_all add: pk_client_install_packages_def)
  next
    case (RemovePackages qs x y)
    then show ?thesis using assms many ids_check_fails [of p]
      by (cases qs) (simp_all add: pk_client_remove_packages_def)
  next
    case (UpdatePackages qs)
    then show ?thesis using assms many ids_check_fails [of p]
      by (cases qs) (simp_all add: pk_client_update_packages_def)
  next
    case (InstallPackage q)
    then have q: "q = Some p" and n: "p \<noteq> []" using assms by (cases q; auto)+
    show ?thesis using InstallPackage q single [OF n] many [of "g_strsplit_1 p"]
      by (simp add: pk_client_install_package_def pk_client_install_packages_def)
  next
    case (RemovePackage q x y)
    then have q: "q = Some p" and n: "p \<noteq> []" using assms by (cases q; auto)+
    show ?thesis using RemovePackage q single [OF n] many [of "g_strsplit_1 p"]
      by (simp add: pk_client_remove_package_def pk_client_remove_packages_def)
  next
    case (UpdatePackage q)
    then have q: "q = Some p" and n: "p \<noteq> []" using assms by (cases q; auto)+
    show ?thesis using UpdatePackage q single [OF n] many [of "g_strsplit_1 p"]
      by (simp add: pk_client_update_package_def pk_client_update_packages_def)
  next
    case (Resolve f q)
    then show ?thesis using assms by simp
  qed (use assms in simp_all)
qed

theorem resolve_checks_no_package_id_counterexample:
  "\<not> pk_package_id_check ''foo;1.0;x86_64''
   \<and> map_option fst (pk_client_resolve pk_client_init (PK_FILTER_ENUM 1) (Some ''foo;1.0;x86_64'') example_world) =
       Some (True, None)
   \<and> map_option (tid \<circ> fst \<circ> snd)
         (pk_client_resolve pk_client_init (PK_FILTER_ENUM 1) (Some ''foo;1.0;x86_64'') example_world) =
       Some (Some ''/7_cafe'')
   \<and> map_option (control_calls \<circ> snd \<circ> snd)
         (pk_client_resolve pk_client_init (PK_FILTER_ENUM 1) (Some ''foo;1.0;x86_64'') example_world) = Some 1
   \<and> map_option (dbus_log \<circ> snd \<circ> snd)
         (pk_client_resolve pk_client_init (PK_FILTER_ENUM 1) (Some ''foo;1.0;x86_64'') example_world) =
       Some [(''/7_cafe'', (''Resolve'', [G_TYPE_STRING (Some ''none''),
                G_TYPE_STRING (Some ''foo;1.0;x86_64'')]))]
   \<and> pk_client_install_signature pk_client_init PK_SIGTYPE_ENUM_UNKNOWN (Some ''0xDEADBEEF'')
         (Some ''foo;1.0;x86_64'') example_world =
       Some ((False, None), pk_client_init, example_world)"
proof -
  have a: "tid pk_client_init = None" by (simp add: pk_client_init_def)
  have b: "control_reply example_world (control_calls example_world) = Inr ''/7_cafe''"
    "proxy_new_ok example_world ''/7_cafe''"
    by (simp_all add: example_world_def)
  have v: "\<not> pk_package_id_check ''foo;1.0;x86_64''"
    by (simp add: pk_package_id_check_def)
  have r: "pk_client_resolve pk_client_init (PK_FILTER_ENUM 1) (Some ''foo;1.0;x86_64'') example_world =
      Some ((True, None),
        pk_client_init\<lparr>tid := Some ''/7_cafe'',
          proxy := Some \<lparr>path = ''/7_cafe'', connected = transaction_signals\<rparr>,
          role := PK_ROLE_ENUM_RESOLVE, cached_filters := PK_FILTER_ENUM 1,
          cached_package_id := Some ''foo;1.0;x86_64'', last_status := PK_STATUS_ENUM_WAIT\<rparr>,
        example_world\<lparr>control_calls := 1,
          dbus_log := [(''/7_cafe'', (''Resolve'', [G_TYPE_STRING (Some ''none''),
                G_TYPE_STRING (Some ''foo;1.0;x86_64'')]))],
          emitted := [PK_CLIENT_STATUS_CHANGED PK_STATUS_ENUM_WAIT]\<rparr>)"
    by (simp add: pk_client_resolve_def allocate_fresh [OF a b] pk_client_proxy_call_def
        dbus_g_proxy_call_def Let_def pk_client_wait_def pk_client_change_status_def
        g_signal_emit_def pk_client_error_fixup_def)
       (simp add: example_world_def pk_client_init_def)
  have s: "pk_client_install_signature pk_client_init PK_SIGTYPE_ENUM_UNKNOWN (Some ''0xDEADBEEF'')
         (Some ''foo;1.0;x86_64'') example_world =
       Some ((False, None), pk_client_init, example_world)"
    by (simp add: pk_client_install_signature_def)
  show ?thesis using v s unfolding r by (simp add: pk_client_init_def)
qed

theorem invalid_package_id_rejected_early_witness:
  "\<not> pk_package_id_check ''foo;1.0;x86_64''
   \<and> pk_client_get_depends pk_client_init (PK_FILTER_ENUM 1) (Some ''foo;1.0;x86_64'') True example_world =
       Some ((False, Some \<lparr>domain = PK_CLIENT_ERROR, code = PK_CLIENT_ERROR_INVALID_PACKAGEID,
                message = ''package_id '' @ [CHR 0x27] @ ''foo;1.0;x86_64'' @ [CHR 0x27] @ '' is not valid''\<rparr>),
             pk_client_init, example_world)"
proof -
  have v: "\<not> pk_package_id_check ''foo;1.0;x86_64''"
    by (simp add: pk_package_id_check_def)
  have m: "''foo;1.0;x86_64'' \<in> set (action_package_ids (GetDepends (PK_FILTER_ENUM 1) (Some ''foo;1.0;x86_64'') True))"
    by simp
  have ev: "invalid_package_id ''foo;1.0;x86_64'' = Some \<lparr>domain = PK_CLIENT_ERROR,
      code = PK_CLIENT_ERROR_INVALID_PACKAGEID,
      message = ''package_id '' @ [CHR 0x27] @ ''foo;1.0;x86_64'' @ [CHR 0x27] @ '' is not valid''\<rparr>"
    by (simp add: invalid_package_id_def pk_client_error_set_def)
  from invalid_package_id_rejected_early [OF m v, of pk_client_init example_world]
  obtain e where "pk_client_action (GetDepends (PK_FILTER_ENUM 1) (Some ''foo;1.0;x86_64'') True) pk_client_init example_world
      = Some ((False, Some e), pk_client_init, example_world)"
    by auto
  moreover have "pk_client_action (GetDepends (PK_FILTER_ENUM 1) (Some ''foo;1.0;x86_64'') True) pk_client_init example_world
      = Some ((False, invalid_package_id ''foo;1.0;x86_64''), pk_client_init, example_world)"
    using v by (simp add: pk_client_get_depends_def)
  ultimately show ?thesis using v ev by simp
qed

text \<open>
  The two restrictions of the amended claim. With an unknown signature type, or
  without a key id, \<open>pk_client_install_signature\<close> returns from its guard before it
  looks at the package id, without an error. The single-package forms split their id
  with \<open>g_strsplit\<close>, which makes the empty vector of the empty string: the empty id
  does not reach the check, and the empty vector passes the check of a vector as it
  is modelled here; a transaction id is then asked for and the method is called with
  no package at all.
\<close>

lemma install_signature_guard_first:
  "pk_client_install_signature client PK_SIGTYPE_ENUM_UNKNOWN (Some k) (Some p) w =
     Some ((False, None), client, w)"
  by (simp add: pk_client_install_signature_def)

lemma install_package_empty_id_unchecked:
  "\<not> pk_package_id_check []
   \<and> map_option fst (pk_client_install_package pk_client_init (Some []) example_world) = Some (True, None)
   \<and> map_option (dbus_log \<circ> snd \<circ> snd) (pk_client_install_package pk_client_init (Some []) example_world) =
       Some [(''/7_cafe'', (''InstallPackages'', [G_TYPE_STRV []]))]"
proof -
  let ?P = "\<lparr>path = ''/7_cafe'', connected = transaction_signals\<rparr>"
  let ?c = "(''InstallPackages'', [G_TYPE_STRV []])"
  define c1 where "c1 = pk_client_init\<lparr>tid := Some ''/7_cafe'', proxy := Some ?P,
      role := PK_ROLE_ENUM_INSTALL_PACKAGES, cached_package_ids := Some []\<rparr>"
  define w1 where "w1 = example_world\<lparr>control_calls := Suc (control_calls example_world)\<rparr>"
  define w2 where "w2 = w1\<lparr>dbus_log := [(''/7_cafe'', ?c)]\<rparr>"
  have a: "tid pk_client_init = None" by (simp add: pk_client_init_def)
  have b: "control_reply example_world (control_calls example_world) = Inr ''/7_cafe''"
    "proxy_new_ok example_world ''/7_cafe''"
    by (simp_all add: example_world_def)
  have f: "proxy c1 = Some ?P" "\<not> synchronous c1" "\<not> is_finished c1"
    by (simp_all add: c1_def pk_client_init_def)
  have act: "pk_client_install_package_action c1 [] w1 = (None, w2)"
    by (simp add: pk_client_install_package_action_def f dbus_g_proxy_call_def Let_def
        w1_def w2_def example_world_def)
  have ar: "pk_client_auth_retry (pk_client_install_package_action c1 []) w1 = (None, w2)"
    by (simp add: pk_client_auth_retry_def act)
  obtain c2 w3 where wt: "pk_client_wait True c1 w2 = Some (c2, w3)" and l: "dbus_log w3 = dbus_log w2"
    using f by (simp add: pk_client_wait_def pk_client_change_status_def g_signal_emit_def Let_def)
  have pr: "pk_client_privileged (pk_client_install_package_action c1 []) c1 w1 =
      Some ((True, None), c2, w3)"
    by (simp add: pk_client_privileged_def ar wt)
  have r: "pk_client_install_package pk_client_init (Some []) example_world =
      Some ((True, None), c2, w3)"
    by (simp add: pk_client_install_package_def pk_client_install_packages_def g_strsplit_1_def
        pk_package_ids_check_def allocate_fresh [OF a b] Let_def
        c1_def [symmetric] w1_def [symmetric] pr)
  show ?thesis unfolding r using l by (simp add: pk_package_id_check_def w2_def)
qed

subsection \<open>Requeue\<close>





text \<open>
  What the amended claim leaves out: the roles for which \<open>pk_client_requeue\<close> has no
  branch. \<open>pk_client_what_provides\<close> and \<open>pk_client_get_packages\<close> save their request
  so that it can be issued again, and yet a requeue after either of them clears the
  transaction id, the status and the finished flag and then fails with \<open>RoleUnknown\<close>.
\<close>

lemma requeue_what_provides_not_reissued:
  "role example_provided = PK_ROLE_ENUM_WHAT_PROVIDES \<and> is_finished example_provided
   \<and> pk_client_requeue example_provided example_world =
       Some ((False, role_unknown), requeue_cleared example_provided, example_world)"
  by (simp add: pk_client_requeue_def example_provided_def example_searched_def
      example_bound_def pk_client_init_def requeue_cleared_def pk_package_list_clear_def Let_def)

subsection \<open>Asking for a privilege and trying once more\<close>

lemma g_vasprintf_plain: "CHR ''%'' \<notin> set s \<Longrightarrow> g_vasprintf w s = s"
  by (induction w s rule: g_vasprintf.induct) auto

lemma g_vasprintf_world:
  "printf_without_argument v = printf_without_argument w \<Longrightarrow> g_vasprintf v s = g_vasprintf w s"
  by (induction w s rule: g_vasprintf.induct) simp_all

lemma failed_auth_fields:
  "domain (failed_auth w e) = PK_CLIENT_ERROR \<and> code (failed_auth w e) = PK_CLIENT_ERROR_FAILED_AUTH
   \<and> (CHR ''%'' \<notin> set (message e) \<longrightarrow> message (failed_auth w e) = message e)"
  by (simp add: failed_auth_def g_vasprintf_plain)

lemma signal_logs:
  "dbus_log (snd (dbus_g_proxy_signal s client w)) = dbus_log w
   \<and> polkit_log (snd (dbus_g_proxy_signal s client w)) = polkit_log w"
  by (cases s) (simp_all add: cb_defs Let_def)

lemma signal_synchronous:
  "synchronous (fst (dbus_g_proxy_signal s client w)) = synchronous client"
  by (cases s) (simp_all add: cb_defs Let_def)

lemma signal_loop:
  "synchronous client \<Longrightarrow> loop client \<Longrightarrow>
   loop (fst (dbus_g_proxy_signal s client w)) = (\<forall>x y. s \<noteq> Finished x y)"
  by (cases s) (simp_all add: cb_defs Let_def)

lemma iterate_logs:
  "g_main_loop_iterate ss client w = Some (c', w') \<Longrightarrow>
   dbus_log w' = dbus_log w \<and> polkit_log w' = polkit_log w"
proof (induction ss arbitrary: client w)
  case Nil
  then show ?case by simp
next
  case (Cons s ss)
  obtain c1 w1 where step: "dbus_g_proxy_signal s client (w\<lparr>pending := ss\<rparr>) = (c1, w1)"
    by (cases "dbus_g_proxy_signal s client (w\<lparr>pending := ss\<rparr>)")
  have l: "dbus_log w1 = dbus_log w \<and> polkit_log w1 = polkit_log w"
    using signal_logs [of s client "w\<lparr>pending := ss\<rparr>"] step by simp
  show ?case
  proof (cases "loop c1")
    case True
    then have "g_main_loop_iterate ss c1 w1 = Some (c', w')" using Cons.prems step by simp
    then show ?thesis using Cons.IH [where client = c1 and w = w1] l by simp
  next
    case False
    then show ?thesis using Cons.prems step l by simp
  qed
qed

lemma iterate_returns:
  "synchronous client \<Longrightarrow> loop client \<Longrightarrow>
   (g_main_loop_iterate ss client w \<noteq> None) = (\<exists>x y. Finished x y \<in> set ss)"
proof (induction ss arbitrary: client w)
  case Nil
  then show ?case by simp
next
  case (Cons s ss)
  obtain c1 w1 where step: "dbus_g_proxy_signal s client (w\<lparr>pending := ss\<rparr>) = (c1, w1)"
    by (cases "dbus_g_proxy_signal s client (w\<lparr>pending := ss\<rparr>)")
  have sy: "synchronous c1"
    using signal_synchronous [of s client "w\<lparr>pending := ss\<rparr>"] step Cons.prems by simp
  have lo: "loop c1 = (\<forall>x y. s \<noteq> Finished x y)"
    using signal_loop [of client s "w\<lparr>pending := ss\<rparr>"] step Cons.prems by simp
  show ?case
  proof (cases "loop c1")
    case True
    then show ?thesis using Cons.IH [OF sy True, of w1] step lo by auto
  next
    case False
    then show ?thesis using step lo by auto
  qed
qed

lemma wait_logs:
  "pk_client_wait ret client w = Some (c', w') \<Longrightarrow>
   dbus_log w' = dbus_log w \<and> polkit_log w' = polkit_log w"
  by (auto simp add: pk_client_wait_def pk_client_change_status_def g_signal_emit_def
      g_main_loop_run_def Let_def split: if_splits dest: iterate_logs)

lemma wait_returns:
  "(pk_client_wait ret client w \<noteq> None) =
     (ret \<and> synchronous client \<and> \<not> is_finished client \<longrightarrow> (\<exists>x y. Finished x y \<in> set (pending w)))"
proof (cases "ret \<and> \<not> is_finished client \<and> synchronous client")
  case False
  then show ?thesis
    by (auto simp add: pk_client_wait_def pk_client_change_status_def Let_def)
next
  case True
  let ?c = "client\<lparr>last_status := PK_STATUS_ENUM_WAIT, loop := True\<rparr>"
  let ?w = "w\<lparr>emitted := emitted w @ [PK_CLIENT_STATUS_CHANGED PK_STATUS_ENUM_WAIT]\<rparr>"
  have e: "pk_client_wait ret client w = g_main_loop_iterate (pending w) ?c ?w"
    using True
    by (simp add: pk_client_wait_def pk_client_change_status_def g_signal_emit_def
        g_main_loop_run_def Let_def)
  have "synchronous ?c" "loop ?c" using True by simp_all
  then have "(g_main_loop_iterate (pending w) ?c ?w \<noteq> None) = (\<exists>x y. Finished x y \<in> set (pending w))"
    by (rule iterate_returns)
  then show ?thesis using True e by simp
qed

lemma wait_failed: "pk_client_wait False client w = Some (client, w)"
  by (simp add: pk_client_wait_def)

lemma auth_retry_denied:
  assumes act: "\<And>v. pk_sig_type_enum_to_text v = pk_sig_type_enum_to_text w \<Longrightarrow>
                   action v = dbus_g_proxy_call P c v"
    and d: "dbus_reply w (dbus_log w @ [(path P, c)]) = Some e1" "denied_by_policy w e1"
  shows "pk_client_auth_retry action w =
     (if gain_privilege w (polkit_log w @ [message e1])
      then (dbus_reply w (dbus_log w @ [(path P, c), (path P, c)]),
            w\<lparr>dbus_log := dbus_log w @ [(path P, c), (path P, c)],
              polkit_log := polkit_log w @ [message e1]\<rparr>)
      else (Some e1, w\<lparr>dbus_log := dbus_log w @ [(path P, c)],
              polkit_log := polkit_log w @ [message e1]\<rparr>))"
proof -
  define w2 where "w2 = w\<lparr>dbus_log := dbus_log w @ [(path P, c)]\<rparr>"
  define w3 where "w3 = w2\<lparr>polkit_log := polkit_log w @ [message e1]\<rparr>"
  have a1: "action w = (Some e1, w2)"
    using act [of w] d by (simp add: dbus_g_proxy_call_def Let_def w2_def)
  have g: "pk_polkit_client_gain_privilege_str (message e1) w2 =
     (gain_privilege w (polkit_log w @ [message e1]), w3)"
    by (simp add: pk_polkit_client_gain_privilege_str_def Let_def w2_def w3_def)
  have a2: "action w3 = (dbus_reply w (dbus_log w @ [(path P, c), (path P, c)]),
            w\<lparr>dbus_log := dbus_log w @ [(path P, c), (path P, c)],
              polkit_log := polkit_log w @ [message e1]\<rparr>)"
    using act [of w3] by (simp add: dbus_g_proxy_call_def Let_def w2_def w3_def)
  have den: "pk_polkit_client_error_denied_by_policy w2 (Some e1)"
    using d by (simp add: pk_polkit_client_error_denied_by_policy_def w2_def)
  have w3': "w3 = w\<lparr>dbus_log := dbus_log w @ [(path P, c)], polkit_log := polkit_log w @ [message e1]\<rparr>"
    by (simp add: w3_def w2_def)
  show ?thesis
    by (simp add: pk_client_auth_retry_def a1 den g a2) (simp add: w3')
qed

lemma fixup_some: "\<exists>err. pk_client_error_fixup (Some e) = Some err"
  by (simp add: pk_client_error_fixup_def)


lemma privileged_outcome:
  assumes d: "dbus_reply w (dbus_log w @ [(t, c)]) = Some e1" "denied_by_policy w e1"
    and p: "path P = t"
    and s: "synchronous c1 = synchronous client" "is_finished c1 = is_finished client"
    and act: "\<And>v. pk_sig_type_enum_to_text v = pk_sig_type_enum_to_text w \<Longrightarrow>
                   action v = dbus_g_proxy_call P c v"
  shows "retry_outcome False client w t c e1
           (pk_client_privileged action c1 (w\<lparr>control_calls := n\<rparr>))"
proof -
  define w1 where "w1 = w\<lparr>control_calls := n\<rparr>"
  have f1: "dbus_reply w1 = dbus_reply w" "dbus_log w1 = dbus_log w" "polkit_log w1 = polkit_log w"
    "gain_privilege w1 = gain_privilege w" "denied_by_policy w1 = denied_by_policy w"
    "pending w1 = pending w" "pk_sig_type_enum_to_text w1 = pk_sig_type_enum_to_text w"
    by (simp_all add: w1_def)
  have act1: "action v = dbus_g_proxy_call P c v"
    if "pk_sig_type_enum_to_text v = pk_sig_type_enum_to_text w1" for v
    using act [of v] that f1 by simp
  have d1: "dbus_reply w1 (dbus_log w1 @ [(path P, c)]) = Some e1" "denied_by_policy w1 e1"
    using d p f1 by simp_all
  note ar = auth_retry_denied [of w1 action P c, OF act1 d1, unfolded f1 p]
  show ?thesis
  proof (cases "gain_privilege w (polkit_log w @ [message e1])")
    case False
    define w3 where "w3 = w1\<lparr>dbus_log := dbus_log w @ [(t, c)], polkit_log := polkit_log w @ [message e1]\<rparr>"
    have a: "pk_client_auth_retry action w1 = (Some e1, w3)"
      using False ar by (simp add: w3_def)
    obtain err where e: "pk_client_error_fixup (Some e1) = Some err" using fixup_some by blast
    have r: "pk_client_privileged action c1 w1 = Some ((False, Some err), c1, w3)"
      by (simp add: pk_client_privileged_def a e wait_failed)
    have l: "dbus_log w3 = dbus_log w @ [(t, c)]" "polkit_log w3 = polkit_log w @ [message e1]"
      by (simp_all add: w3_def)
    show ?thesis
      unfolding retry_outcome_def w1_def [symmetric] r using False l by simp
  next
    case True
    define w4 where "w4 = w1\<lparr>dbus_log := dbus_log w @ [(t, c), (t, c)],
                 polkit_log := polkit_log w @ [message e1]\<rparr>"
    have l: "dbus_log w4 = dbus_log w @ [(t, c), (t, c)]" "polkit_log w4 = polkit_log w @ [message e1]"
      "pending w4 = pending w"
      by (simp_all add: w4_def w1_def)
    have a: "pk_client_auth_retry action w1 =
        (dbus_reply w (dbus_log w @ [(t, c), (t, c)]), w4)"
      using True ar by (simp add: w4_def)
    show ?thesis
    proof (cases "dbus_reply w (dbus_log w @ [(t, c), (t, c)])")
      case (Some e2)
      obtain err where e: "pk_client_error_fixup (Some e2) = Some err" using fixup_some by blast
      have r: "pk_client_privileged action c1 w1 = Some ((False, Some err), c1, w4)"
        by (simp add: pk_client_privileged_def a Some e wait_failed)
      show ?thesis
        unfolding retry_outcome_def w1_def [symmetric] r using True Some l by simp
    next
      case None
      have r: "pk_client_privileged action c1 w1 =
         map_option (\<lambda>(c', w'). ((True, None), c', w')) (pk_client_wait True c1 w4)"
        by (simp add: pk_client_privileged_def a None)
      have ret: "(pk_client_wait True c1 w4 \<noteq> None) =
         (synchronous client \<and> \<not> is_finished client \<longrightarrow> (\<exists>x y. Finished x y \<in> set (pending w)))"
        using wait_returns [of True c1 w4] s l by simp
      have logs: "dbus_log w' = dbus_log w @ [(t, c), (t, c)] \<and> polkit_log w' = polkit_log w @ [message e1]"
        if "pk_client_wait True c1 w4 = Some (c', w')" for c' w'
        using wait_logs [OF that] l by simp
      show ?thesis
      proof (cases "pk_client_wait True c1 w4")
        case None
        then show ?thesis
          unfolding retry_outcome_def w1_def [symmetric] r
          using True \<open>dbus_reply w (dbus_log w @ [(t, c), (t, c)]) = None\<close> ret by simp
      next
        case (Some cw)
        obtain c' w' where cw: "cw = (c', w')" by (cases cw)
        show ?thesis
          unfolding retry_outcome_def w1_def [symmetric] r
          using True \<open>dbus_reply w (dbus_log w @ [(t, c), (t, c)]) = None\<close> ret Some cw
            logs [of c' w']
          by simp
      qed
    qed
  qed
qed


lemma update_system_outcome:
  assumes fresh: "tid client = None"
    and alloc: "control_reply w (control_calls w) = Inr t" "proxy_new_ok w t"
    and d: "dbus_reply w (dbus_log w @ [(t, (''UpdateSystem'', []))]) = Some e1" "denied_by_policy w e1"
  shows "retry_outcome True client w t (''UpdateSystem'', []) e1 (pk_client_update_system client w)"
proof -
  let ?c = "(''UpdateSystem'', [])"
  define c1 where "c1 = client\<lparr>tid := Some t,
     proxy := Some \<lparr>path = t, connected = transaction_signals\<rparr>, role := PK_ROLE_ENUM_UPDATE_SYSTEM\<rparr>"
  define w1 where "w1 = w\<lparr>control_calls := Suc (control_calls w)\<rparr>"
  have s: "synchronous c1 = synchronous client" "is_finished c1 = is_finished client"
    by (simp_all add: c1_def)
  have act: "pk_client_update_system_action c1 v =
     (dbus_reply v (dbus_log v @ [(t, ?c)]), v\<lparr>dbus_log := dbus_log v @ [(t, ?c)]\<rparr>)" for v
    by (simp add: pk_client_update_system_action_def c1_def dbus_g_proxy_call_def Let_def)
  have us: "pk_client_update_system client w =
     (case pk_client_update_system_action c1 w1 of
                  (error_pk, w) \<Rightarrow>
                    (case (if error_pk \<noteq> None \<and> pk_polkit_client_error_denied_by_policy w error_pk
                           then (case pk_polkit_client_gain_privilege_str (message (the error_pk)) w of
                                   (granted, w) \<Rightarrow>
                                     (case (if granted then pk_client_update_system_action c1 w
                                            else (error_pk, w)) of
                                        (error_pk, w) \<Rightarrow>
                                          if pk_polkit_client_error_denied_by_policy w error_pk
                                          then (True, pk_client_error_set None PK_CLIENT_ERROR_FAILED_AUTH
                                                        (g_vasprintf w (message (the error_pk))), w)
                                          else (False, error_pk, w)))
                           else (False, error_pk, w)) of
                       (fa, error_pk, w) \<Rightarrow>
                         if fa then Some ((False, error_pk), c1, w)
                         else
                           map_option (\<lambda>(client, w). ((error_pk = None, error_pk), client, w))
                             (pk_client_wait (error_pk = None) c1 w)))"
    unfolding c1_def w1_def
    by (simp add: pk_client_update_system_def allocate_fresh [OF fresh alloc] Let_def)
  define w2 where "w2 = w1\<lparr>dbus_log := dbus_log w @ [(t, ?c)]\<rparr>"
  define w3 where "w3 = w2\<lparr>polkit_log := polkit_log w @ [message e1]\<rparr>"
  define w4 where "w4 = w3\<lparr>dbus_log := dbus_log w @ [(t, ?c), (t, ?c)]\<rparr>"
  have a1: "pk_client_update_system_action c1 w1 = (Some e1, w2)"
    using d by (simp add: act w1_def w2_def)
  have g: "pk_polkit_client_gain_privilege_str (message e1) w2 =
     (gain_privilege w (polkit_log w @ [message e1]), w3)"
    by (simp add: pk_polkit_client_gain_privilege_str_def Let_def w1_def w2_def w3_def)
  have a2: "pk_client_update_system_action c1 w3 = (dbus_reply w (dbus_log w @ [(t, ?c), (t, ?c)]), w4)"
    by (simp add: act w1_def w2_def w3_def w4_def)
  have den: "pk_polkit_client_error_denied_by_policy w2 (Some e) = denied_by_policy w e"
    "pk_polkit_client_error_denied_by_policy w3 (Some e) = denied_by_policy w e"
    "pk_polkit_client_error_denied_by_policy w4 (Some e) = denied_by_policy w e"
    "pk_polkit_client_error_denied_by_policy w4 None = False" for e
    by (simp_all add: pk_polkit_client_error_denied_by_policy_def w1_def w2_def w3_def w4_def)
  have pw: "g_vasprintf w3 m = g_vasprintf w m" "g_vasprintf w4 m = g_vasprintf w m" for m
    by (rule g_vasprintf_world, simp add: w4_def w3_def w2_def w1_def)+
  have l3: "dbus_log w3 = dbus_log w @ [(t, ?c)]" "polkit_log w3 = polkit_log w @ [message e1]"
    by (simp_all add: w3_def w2_def w1_def)
  have l4: "dbus_log w4 = dbus_log w @ [(t, ?c), (t, ?c)]" "polkit_log w4 = polkit_log w @ [message e1]"
    "pending w4 = pending w"
    by (simp_all add: w4_def w3_def w2_def w1_def)
  show ?thesis
  proof (cases "gain_privilege w (polkit_log w @ [message e1])")
    case False
    have r: "pk_client_update_system client w = Some ((False, Some (failed_auth w e1)), c1, w3)"
      using False d
      by (simp add: us a1 g den pk_client_error_set_def failed_auth_def pw)
    show ?thesis unfolding retry_outcome_def r using False l3 failed_auth_fields [of w e1] by simp
  next
    case True
    show ?thesis
    proof (cases "dbus_reply w (dbus_log w @ [(t, ?c), (t, ?c)])")
      case (Some e2)
      have r: "pk_client_update_system client w =
          Some ((False, Some (if denied_by_policy w e2 then failed_auth w e2 else e2)), c1, w4)"
        using True Some d
        by (simp add: us a1 g a2 den pk_client_error_set_def failed_auth_def wait_failed pw)
      show ?thesis unfolding retry_outcome_def r using True Some l4 failed_auth_fields [of w e2] by simp
    next
      case None
      have r: "pk_client_update_system client w =
         map_option (\<lambda>(c', w'). ((True, None), c', w')) (pk_client_wait True c1 w4)"
        using True None d
        by (simp add: us a1 g a2 den)
      have ret: "(pk_client_wait True c1 w4 \<noteq> None) =
         (synchronous client \<and> \<not> is_finished client \<longrightarrow> (\<exists>x y. Finished x y \<in> set (pending w)))"
        using wait_returns [of True c1 w4] s l4 by simp
      have logs: "dbus_log w' = dbus_log w @ [(t, ?c), (t, ?c)] \<and> polkit_log w' = polkit_log w @ [message e1]"
        if "pk_client_wait True c1 w4 = Some (c', w')" for c' w'
        using wait_logs [OF that] l4 by simp
      show ?thesis
      proof (cases "pk_client_wait True c1 w4")
        case None
        then show ?thesis
          unfolding retry_outcome_def r
          using True \<open>dbus_reply w (dbus_log w @ [(t, ?c), (t, ?c)]) = None\<close> ret by simp
      next
        case (Some cw)
        obtain c' w' where cw: "cw = (c', w')" by (cases cw)
        show ?thesis
          unfolding retry_outcome_def r
          using True \<open>dbus_reply w (dbus_log w @ [(t, ?c), (t, ?c)]) = None\<close> ret Some cw
            logs [of c' w']
          by simp
      qed
    qed
  qed
qed


lemma reduce_step:
  assumes fresh: "tid client = None"
    and alloc: "control_reply w (control_calls w) = Inr t" "proxy_new_ok w t"
    and d: "dbus_reply w (dbus_log w @ [(t, c)]) = Some e1" "denied_by_policy w e1"
    and r: "r = pk_client_privileged action c1 (w\<lparr>control_calls := Suc (control_calls w)\<rparr>)"
    and p: "proxy c1 = Some P" "path P = t"
    and s: "synchronous c1 = synchronous client" "is_finished c1 = is_finished client"
    and act: "\<And>v. pk_sig_type_enum_to_text v = pk_sig_type_enum_to_text w \<Longrightarrow>
                   action v = dbus_g_proxy_call P c v"
  shows "retry_outcome False client w t c e1 r"
  unfolding r using d p(2) s act by (rule privileged_outcome)

lemma privileged_base_outcome:
  assumes fresh: "tid client = None"
    and alloc: "control_reply w (control_calls w) = Inr t" "proxy_new_ok w t"
    and call: "privileged_call w a = Some c"
    and d: "dbus_reply w (dbus_log w @ [(t, c)]) = Some e1" "denied_by_policy w e1"
    and base: "a \<noteq> UpdateSystem" "\<forall>p. a \<noteq> UpdatePackage p" "\<forall>p. a \<noteq> InstallPackage p"
      "\<forall>p x y. a \<noteq> RemovePackage p x y" "\<forall>x f. a \<noteq> InstallFile x f"
  shows "retry_outcome False client w t c e1 (pk_client_action a client w)"
proof (cases a)
  let ?P = "\<lparr>path = t, connected = transaction_signals\<rparr>"
  case (RemovePackages qs x y)
  then obtain ps where a: "a = RemovePackages (Some ps) x y" and ok: "pk_package_ids_check ps"
    and c: "c = (''RemovePackages'', [G_TYPE_STRV ps, G_TYPE_BOOLEAN x, G_TYPE_BOOLEAN y])"
    using call by (cases qs) (auto split: if_splits)
  let ?P = "\<lparr>path = t, connected = transaction_signals\<rparr>"
  let ?c1 = "client\<lparr>tid := Some t, proxy := Some ?P, role := PK_ROLE_ENUM_REMOVE_PACKAGES,
      cached_allow_deps := x, cached_autoremove := y, cached_package_ids := Some ps\<rparr>"
  show ?thesis
    unfolding a
    by (rule reduce_step [OF fresh alloc d, where ?c1.0 = ?c1 and P = ?P
        and action = "pk_client_remove_packages_action ?c1 ps x y"])
      (simp_all add: pk_client_remove_packages_def pk_client_remove_packages_action_def
        allocate_fresh [OF fresh alloc] Let_def ok c)
next
  case (RefreshCache f)
  then have a: "a = RefreshCache f" and c: "c = (''RefreshCache'', [G_TYPE_BOOLEAN f])"
    using call by auto
  let ?P = "\<lparr>path = t, connected = transaction_signals\<rparr>"
  let ?c1 = "client\<lparr>tid := Some t, proxy := Some ?P, role := PK_ROLE_ENUM_REFRESH_CACHE,
      cached_force := f\<rparr>"
  show ?thesis
    unfolding a
    by (rule reduce_step [OF fresh alloc d, where ?c1.0 = ?c1 and P = ?P
        and action = "pk_client_refresh_cache_action ?c1 f"])
      (simp_all add: pk_client_refresh_cache_def pk_client_refresh_cache_action_def
        allocate_fresh [OF fresh alloc] Let_def c)
next
  case (InstallPackages qs)
  then obtain ps where a: "a = InstallPackages (Some ps)" and ok: "pk_package_ids_check ps"
    and c: "c = (''InstallPackages'', [G_TYPE_STRV ps])"
    using call by (cases qs) (auto split: if_splits)
  let ?P = "\<lparr>path = t, connected = transaction_signals\<rparr>"
  let ?c1 = "client\<lparr>tid := Some t, proxy := Some ?P, role := PK_ROLE_ENUM_INSTALL_PACKAGES,
      cached_package_ids := Some ps\<rparr>"
  show ?thesis
    unfolding a
    by (rule reduce_step [OF fresh alloc d, where ?c1.0 = ?c1 and P = ?P
        and action = "pk_client_install_package_action ?c1 ps"])
      (simp_all add: pk_client_install_packages_def pk_client_install_package_action_def
        allocate_fresh [OF fresh alloc] Let_def ok c)
next
  case (InstallSignature ty ko po)
  then obtain k q where a: "a = InstallSignature ty (Some k) (Some q)"
    and ok: "ty \<noteq> PK_SIGTYPE_ENUM_UNKNOWN" "pk_package_id_check q"
    and c: "c = (''InstallSignature'', [G_TYPE_STRING (Some (pk_sig_type_enum_to_text w ty)),
                   G_TYPE_STRING (Some k), G_TYPE_STRING (Some q)])"
    using call by (cases ko; cases po) (auto split: if_splits)
  let ?P = "\<lparr>path = t, connected = transaction_signals\<rparr>"
  let ?c1 = "client\<lparr>tid := Some t, proxy := Some ?P, role := PK_ROLE_ENUM_INSTALL_SIGNATURE,
      cached_package_id := Some q, cached_key_id := Some k\<rparr>"
  show ?thesis
    unfolding a
    by (rule reduce_step [OF fresh alloc d, where ?c1.0 = ?c1 and P = ?P
        and action = "pk_client_install_signature_action ?c1 ty k q"])
      (simp_all add: pk_client_install_signature_def pk_client_install_signature_action_def
        allocate_fresh [OF fresh alloc] Let_def ok c)
next
  case (UpdatePackages qs)
  then obtain ps where a: "a = UpdatePackages (Some ps)" and ok: "pk_package_ids_check ps"
    and c: "c = (''UpdatePackages'', [G_TYPE_STRV ps])"
    using call by (cases qs) (auto split: if_splits)
  let ?P = "\<lparr>path = t, connected = transaction_signals\<rparr>"
  let ?c1 = "client\<lparr>tid := Some t, proxy := Some ?P, role := PK_ROLE_ENUM_UPDATE_PACKAGES,
      cached_package_ids := Some ps\<rparr>"
  show ?thesis
    unfolding a
    by (rule reduce_step [OF fresh alloc d, where ?c1.0 = ?c1 and P = ?P
        and action = "pk_client_update_packages_action ?c1 ps"])
      (simp_all add: pk_client_update_packages_def pk_client_update_packages_action_def
        allocate_fresh [OF fresh alloc] Let_def ok c)
next
  case (InstallFiles tr fo)
  then obtain fs where a: "a = InstallFiles tr (Some fs)"
    and c: "c = (''InstallFiles'', [G_TYPE_BOOLEAN tr, G_TYPE_STRV (pk_client_resolve_files w fs)])"
    using call by (cases fo) auto
  let ?P = "\<lparr>path = t, connected = transaction_signals\<rparr>"
  let ?c1 = "client\<lparr>tid := Some t, proxy := Some ?P, role := PK_ROLE_ENUM_INSTALL_FILES,
      cached_trusted := tr, cached_full_paths := Some (pk_client_resolve_files w fs)\<rparr>"
  have rf: "pk_client_resolve_files (w\<lparr>control_calls := n\<rparr>) fs = pk_client_resolve_files w fs" for n
    by (simp add: pk_client_resolve_files_def pk_resolve_local_path_def)
  show ?thesis
    unfolding a
    by (rule reduce_step [OF fresh alloc d, where ?c1.0 = ?c1 and P = ?P
        and action = "pk_client_install_files_action ?c1 tr (pk_client_resolve_files w fs)"])
      (simp_all add: pk_client_install_files_def pk_client_install_files_action_def
        allocate_fresh [OF fresh alloc] Let_def c rf)
next
  case (AcceptEula eo)
  then obtain e where a: "a = AcceptEula (Some e)"
    and c: "c = (''AcceptEula'', [G_TYPE_STRING (Some e)])"
    using call by (cases eo) auto
  let ?P = "\<lparr>path = t, connected = transaction_signals\<rparr>"
  let ?c1 = "client\<lparr>tid := Some t, proxy := Some ?P, role := PK_ROLE_ENUM_ACCEPT_EULA\<rparr>"
  show ?thesis
    unfolding a
    by (rule reduce_step [OF fresh alloc d, where ?c1.0 = ?c1 and P = ?P
        and action = "pk_client_accept_eula_action ?c1 e"])
      (simp_all add: pk_client_accept_eula_def pk_client_accept_eula_action_def
        allocate_fresh [OF fresh alloc] Let_def c)
next
  case (RepoEnable ro en)
  then obtain r where a: "a = RepoEnable (Some r) en"
    and c: "c = (''RepoEnable'', [G_TYPE_STRING (Some r), G_TYPE_BOOLEAN en])"
    using call by (cases ro) auto
  let ?P = "\<lparr>path = t, connected = transaction_signals\<rparr>"
  let ?c1 = "client\<lparr>tid := Some t, proxy := Some ?P, role := PK_ROLE_ENUM_REPO_ENABLE\<rparr>"
  show ?thesis
    unfolding a
    by (rule reduce_step [OF fresh alloc d, where ?c1.0 = ?c1 and P = ?P
        and action = "pk_client_repo_enable_action ?c1 r en"])
      (simp_all add: pk_client_repo_enable_def pk_client_repo_enable_action_def
        allocate_fresh [OF fresh alloc] Let_def c)
next
  case (RepoSetData ro po vo)
  then obtain r q v where a: "a = RepoSetData (Some r) (Some q) (Some v)"
    and c: "c = (''RepoSetData'', [G_TYPE_STRING (Some r), G_TYPE_STRING (Some q), G_TYPE_STRING (Some v)])"
    using call by (cases ro; cases po; cases vo) auto
  let ?P = "\<lparr>path = t, connected = transaction_signals\<rparr>"
  let ?c1 = "client\<lparr>tid := Some t, proxy := Some ?P, role := PK_ROLE_ENUM_REPO_SET_DATA\<rparr>"
  show ?thesis
    unfolding a
    by (rule reduce_step [OF fresh alloc d, where ?c1.0 = ?c1 and P = ?P
        and action = "pk_client_repo_set_data_action ?c1 r q v"])
      (simp_all add: pk_client_repo_set_data_def pk_client_repo_set_data_action_def
        allocate_fresh [OF fresh alloc] Let_def c)
qed (use call base in simp_all)


lemma privileged_outcome_all:
  assumes fresh: "tid client = None"
    and alloc: "control_reply w (control_calls w) = Inr t" "proxy_new_ok w t"
    and call: "privileged_call w a = Some c"
    and d: "dbus_reply w (dbus_log w @ [(t, c)]) = Some e1" "denied_by_policy w e1"
  shows "retry_outcome (a = UpdateSystem) client w t c e1 (pk_client_action a client w)"
proof -
  consider (us) "a = UpdateSystem"
    | (up) p where "a = UpdatePackage p"
    | (ip) p where "a = InstallPackage p"
    | (rp) p x y where "a = RemovePackage p x y"
    | (fi) x f where "a = InstallFile x f"
    | (base) "a \<noteq> UpdateSystem" "\<forall>p. a \<noteq> UpdatePackage p" "\<forall>p. a \<noteq> InstallPackage p"
      "\<forall>p x y. a \<noteq> RemovePackage p x y" "\<forall>x f. a \<noteq> InstallFile x f"
    by blast
  then show ?thesis
  proof cases
    case us
    then have "c = (''UpdateSystem'', [])" using call by simp
    then show ?thesis using us update_system_outcome [OF fresh alloc] d by simp
  next
    case (up p)
    then obtain q where q: "p = Some q" using call by (cases p) simp_all
    have "privileged_call w (UpdatePackages (Some (g_strsplit_1 q))) = Some c"
      using call up q by simp
    from privileged_base_outcome [OF fresh alloc this d]
    show ?thesis using up q by (simp add: pk_client_update_package_def)
  next
    case (ip p)
    then obtain q where q: "p = Some q" using call by (cases p) simp_all
    have "privileged_call w (InstallPackages (Some (g_strsplit_1 q))) = Some c"
      using call ip q by simp
    from privileged_base_outcome [OF fresh alloc this d]
    show ?thesis using ip q by (simp add: pk_client_install_package_def)
  next
    case (rp p x y)
    then obtain q where q: "p = Some q" using call by (cases p) simp_all
    have "privileged_call w (RemovePackages (Some (g_strsplit_1 q)) x y) = Some c"
      using call rp q by simp
    from privileged_base_outcome [OF fresh alloc this d]
    show ?thesis using rp q by (simp add: pk_client_remove_package_def)
  next
    case (fi x f)
    then obtain g where g: "f = Some g" using call by (cases f) simp_all
    have "privileged_call w (InstallFiles x (Some (g_strsplit_1 g))) = Some c"
      using call fi g by simp
    from privileged_base_outcome [OF fresh alloc this d]
    show ?thesis using fi g by (simp add: pk_client_install_file_def)
  next
    case base
    then show ?thesis using privileged_base_outcome [OF fresh alloc call d] by simp
  qed
qed

text \<open>
  C1, as amended. Take any of the ten actions that wrap their call in the request for a
  privilege (update-system, install-packages, install-files, install-signature,
  remove-packages, update-packages, refresh-cache, accept-eula, repo-enable,
  repo-set-data, and the single-item forms), on an unbound client that is handed the
  transaction id \<open>t\<close>, and let the first call \<open>c\<close> be refused by policy with the
  error \<open>e1\<close>. The broker is asked once, with the message of \<open>e1\<close>. If it grants, the
  call is made exactly once more: when the second call is accepted the action returns
  success (a synchronous client returns once the transaction has finished, and only
  then), and when the second call fails the action fails. If the broker does not
  grant, the call is not made again and the action fails. For update-system the
  failure after a refused privilege is \<open>FailedAuth\<close> for \<open>e1\<close>, and the failure after
  a second denial is \<open>FailedAuth\<close> for that second denial; the error carries the
  message of the denial it is for, when that message holds no \<open>%\<close>.
\<close>

theorem auth_retry_once:
  assumes "tid client = None"
    and "control_reply w (control_calls w) = Inr t" and "proxy_new_ok w t"
    and "privileged_call w a = Some c"
    and "dbus_reply w (dbus_log w @ [(t, c)]) = Some e1" and "denied_by_policy w e1"
  shows "(gain_privilege w (polkit_log w @ [message e1]) \<longrightarrow>
          (case dbus_reply w (dbus_log w @ [(t, c), (t, c)]) of
             None \<Rightarrow>
               ((pk_client_action a client w \<noteq> None) =
                   (synchronous client \<and> \<not> is_finished client
                      \<longrightarrow> (\<exists>x y. Finished x y \<in> set (pending w))))
               \<and> (\<forall>res c' w'. pk_client_action a client w = Some (res, c', w') \<longrightarrow>
                     res = (True, None) \<and> dbus_log w' = dbus_log w @ [(t, c), (t, c)]
                     \<and> polkit_log w' = polkit_log w @ [message e1])
           | Some e2 \<Rightarrow>
               (\<exists>err c' w'. pk_client_action a client w = Some ((False, Some err), c', w')
                  \<and> dbus_log w' = dbus_log w @ [(t, c), (t, c)]
                  \<and> polkit_log w' = polkit_log w @ [message e1]
                  \<and> (a = UpdateSystem \<and> denied_by_policy w e2 \<longrightarrow>
                        domain err = PK_CLIENT_ERROR \<and> code err = PK_CLIENT_ERROR_FAILED_AUTH
                        \<and> (CHR ''%'' \<notin> set (message e2) \<longrightarrow> message err = message e2)))))
       \<and> (\<not> gain_privilege w (polkit_log w @ [message e1]) \<longrightarrow>
            (\<exists>err c' w'. pk_client_action a client w = Some ((False, Some err), c', w')
               \<and> dbus_log w' = dbus_log w @ [(t, c)]
               \<and> polkit_log w' = polkit_log w @ [message e1]
               \<and> (a = UpdateSystem \<longrightarrow>
                     domain err = PK_CLIENT_ERROR \<and> code err = PK_CLIENT_ERROR_FAILED_AUTH
                     \<and> (CHR ''%'' \<notin> set (message e1) \<longrightarrow> message err = message e1))))"
  using privileged_outcome_all [OF assms] unfolding retry_outcome_def
  by (cases "gain_privilege w (polkit_log w @ [message e1])") simp_all


theorem failed_auth_message_counterexample:
  "dbus_reply world_denied_twice (dbus_log world_denied_twice @ [(''/7_cafe'', (''UpdateSystem'', []))])
     = Some denial_auth
   \<and> denied_by_policy world_denied_twice denial_auth
   \<and> gain_privilege world_denied_twice (polkit_log world_denied_twice @ [message denial_auth])
   \<and> message denial_auth = ''org.freedesktop.packagekit.update-system auth_admin''
   \<and> map_option fst (pk_client_update_system pk_client_init world_denied_twice) =
       Some (False, Some \<lparr>domain = PK_CLIENT_ERROR, code = PK_CLIENT_ERROR_FAILED_AUTH,
                message = ''org.freedesktop.packagekit.update-system no''\<rparr>)"
proof -
  have fresh: "tid pk_client_init = None" by (simp add: pk_client_init_def)
  have alloc: "control_reply world_denied_twice (control_calls world_denied_twice) = Inr ''/7_cafe''"
    "proxy_new_ok world_denied_twice ''/7_cafe''"
    by (simp_all add: world_denied_twice_def example_world_def)
  have d: "dbus_reply world_denied_twice (dbus_log world_denied_twice @ [(''/7_cafe'', (''UpdateSystem'', []))])
     = Some denial_auth" "denied_by_policy world_denied_twice denial_auth"
    by (simp_all add: world_denied_twice_def example_world_def denial_auth_def)
  have g: "gain_privilege world_denied_twice (polkit_log world_denied_twice @ [message denial_auth])"
    by (simp add: world_denied_twice_def example_world_def)
  have r2: "dbus_reply world_denied_twice (dbus_log world_denied_twice @
       [(''/7_cafe'', (''UpdateSystem'', [])), (''/7_cafe'', (''UpdateSystem'', []))]) = Some denial_no"
    and d2: "denied_by_policy world_denied_twice denial_no"
    and l: "dbus_log world_denied_twice = []"
    by (simp_all add: world_denied_twice_def example_world_def denial_no_def)
  have rp: "dbus_reply world_denied_twice l = (if length l = 1 then Some denial_auth else Some denial_no)"
    and gp: "gain_privilege world_denied_twice m" for l m
    by (simp_all add: world_denied_twice_def example_world_def)
  have "map_option fst (pk_client_update_system pk_client_init world_denied_twice) =
       Some (False, Some \<lparr>domain = PK_CLIENT_ERROR, code = PK_CLIENT_ERROR_FAILED_AUTH,
                message = g_vasprintf world_denied_twice (message denial_no)\<rparr>)"
    using d(2) d2 l
    by (simp add: pk_client_update_system_def allocate_fresh [OF fresh alloc]
        pk_client_update_system_action_def dbus_g_proxy_call_def Let_def rp gp
        pk_polkit_client_error_denied_by_policy_def pk_polkit_client_gain_privilege_str_def
        pk_client_error_set_def)
       (simp add: denial_no_def g_vasprintf_plain)
  then show ?thesis
    using d g by (simp add: denial_no_def denial_auth_def g_vasprintf_plain)
qed

text \<open>
  What the amended claim leaves out. First, the message of the denial is the format of
  the error that \<open>pk_client_update_system\<close> makes, not its text: a \<open>%%\<close> in the
  message comes out as a single \<open>%\<close>. Second, the nine other actions have no such
  block: they return the denial itself, fixed up, where update-system returns
  \<open>FailedAuth\<close>.
\<close>

lemma failed_auth_message_is_a_format:
  "message denial_percent = ''org.freedesktop.packagekit.update-system 100%% no''
   \<and> map_option fst (pk_client_update_system pk_client_init world_denied_percent) =
       Some (False, Some \<lparr>domain = PK_CLIENT_ERROR, code = PK_CLIENT_ERROR_FAILED_AUTH,
                message = ''org.freedesktop.packagekit.update-system 100% no''\<rparr>)"
proof -
  let ?w = world_denied_percent
  have fresh: "tid pk_client_init = None" by (simp add: pk_client_init_def)
  have alloc: "control_reply ?w (control_calls ?w) = Inr ''/7_cafe''" "proxy_new_ok ?w ''/7_cafe''"
    by (simp_all add: world_denied_percent_def example_world_def)
  have d: "dbus_reply ?w l = Some denial_percent" "denied_by_policy ?w denial_percent"
    "\<not> gain_privilege ?w m" for l m
    by (simp_all add: world_denied_percent_def example_world_def denial_percent_def)
  have "map_option fst (pk_client_update_system pk_client_init ?w) =
       Some (False, Some \<lparr>domain = PK_CLIENT_ERROR, code = PK_CLIENT_ERROR_FAILED_AUTH,
                message = g_vasprintf ?w (message denial_percent)\<rparr>)"
    by (simp add: pk_client_update_system_def allocate_fresh [OF fresh alloc]
        pk_client_update_system_action_def dbus_g_proxy_call_def Let_def d
        pk_polkit_client_error_denied_by_policy_def pk_polkit_client_gain_privilege_str_def
        pk_client_error_set_def)
       (simp add: denial_percent_def)
  then show ?thesis by (simp add: denial_percent_def)
qed

lemma install_packages_surfaces_no_failed_auth:
  "map_option fst (pk_client_install_packages pk_client_init (Some [''hal;0.5.10;i386;fedora''])
      world_not_granted) =
     Some (False, Some \<lparr>domain = DBUS_GERROR, code = PK_CLIENT_ERROR_FAILED,
              message = ''org.freedesktop.packagekit.update-system auth_admin''\<rparr>)
   \<and> map_option fst (pk_client_update_system pk_client_init world_not_granted) =
     Some (False, Some \<lparr>domain = PK_CLIENT_ERROR, code = PK_CLIENT_ERROR_FAILED_AUTH,
              message = ''org.freedesktop.packagekit.update-system auth_admin''\<rparr>)"
proof -
  let ?w = world_not_granted
  let ?P = "\<lparr>path = ''/7_cafe'', connected = transaction_signals\<rparr>"
  have fresh: "tid pk_client_init = None" by (simp add: pk_client_init_def)
  have alloc: "control_reply ?w (control_calls ?w) = Inr ''/7_cafe''" "proxy_new_ok ?w ''/7_cafe''"
    by (simp_all add: world_not_granted_def example_world_def)
  have ok: "pk_package_ids_check [''hal;0.5.10;i386;fedora'']"
    by (simp add: pk_package_ids_check_def pk_package_id_check_def)
  have d: "dbus_reply ?w l = Some denial_auth" "denied_by_policy ?w denial_auth"
    "\<not> gain_privilege ?w m" for l m
    by (simp_all add: world_not_granted_def example_world_def denial_auth_def)
  let ?c1 = "pk_client_init\<lparr>tid := Some ''/7_cafe'', proxy := Some ?P,
      role := PK_ROLE_ENUM_INSTALL_PACKAGES, cached_package_ids := Some [''hal;0.5.10;i386;fedora'']\<rparr>"
  let ?w1 = "?w\<lparr>control_calls := Suc (control_calls ?w)\<rparr>"
  have ar: "pk_client_auth_retry (pk_client_install_package_action ?c1 [''hal;0.5.10;i386;fedora'']) ?w1 =
     (Some denial_auth, ?w1\<lparr>dbus_log := dbus_log ?w1 @ [(path ?P, (''InstallPackages'', [G_TYPE_STRV [''hal;0.5.10;i386;fedora'']]))],
              polkit_log := polkit_log ?w1 @ [message denial_auth]\<rparr>)"
    using auth_retry_denied [of ?w1 "pk_client_install_package_action ?c1 [''hal;0.5.10;i386;fedora'']" ?P
        "(''InstallPackages'', [G_TYPE_STRV [''hal;0.5.10;i386;fedora'']])" denial_auth] d
    by (simp add: pk_client_install_package_action_def)
  have 1: "map_option fst (pk_client_install_packages pk_client_init (Some [''hal;0.5.10;i386;fedora'']) ?w) =
     Some (False, Some \<lparr>domain = DBUS_GERROR, code = PK_CLIENT_ERROR_FAILED,
              message = ''org.freedesktop.packagekit.update-system auth_admin''\<rparr>)"
    by (simp add: pk_client_install_packages_def ok allocate_fresh [OF fresh alloc] Let_def
        pk_client_privileged_def ar wait_failed)
       (simp add: pk_client_error_fixup_def denial_auth_def)
  have "map_option fst (pk_client_update_system pk_client_init ?w) =
       Some (False, Some \<lparr>domain = PK_CLIENT_ERROR, code = PK_CLIENT_ERROR_FAILED_AUTH,
                message = g_vasprintf ?w (message denial_auth)\<rparr>)"
    by (simp add: pk_client_update_system_def allocate_fresh [OF fresh alloc]
        pk_client_update_system_action_def dbus_g_proxy_call_def Let_def d
        pk_polkit_client_error_denied_by_policy_def pk_polkit_client_gain_privilege_str_def
        pk_client_error_set_def)
       (simp add: denial_auth_def g_vasprintf_plain)
  then have 2: "map_option fst (pk_client_update_system pk_client_init ?w) =
     Some (False, Some \<lparr>domain = PK_CLIENT_ERROR, code = PK_CLIENT_ERROR_FAILED_AUTH,
              message = ''org.freedesktop.packagekit.update-system auth_admin''\<rparr>)"
    by (simp add: denial_auth_def g_vasprintf_plain)
  show ?thesis using 1 2 by simp
qed

theorem auth_retry_once_witness:
  "tid pk_client_init = None
   \<and> privileged_call world_denied_once (InstallPackages (Some [''hal;0.5.10;i386;fedora''])) =
       Some (''InstallPackages'', [G_TYPE_STRV [''hal;0.5.10;i386;fedora'']])
   \<and> denied_by_policy world_denied_once denial_auth
   \<and> map_option fst (pk_client_action (InstallPackages (Some [''hal;0.5.10;i386;fedora'']))
         pk_client_init world_denied_once) = Some (True, None)
   \<and> map_option (dbus_log \<circ> snd \<circ> snd)
         (pk_client_action (InstallPackages (Some [''hal;0.5.10;i386;fedora'']))
           pk_client_init world_denied_once) =
       Some [(''/7_cafe'', (''InstallPackages'', [G_TYPE_STRV [''hal;0.5.10;i386;fedora'']])),
             (''/7_cafe'', (''InstallPackages'', [G_TYPE_STRV [''hal;0.5.10;i386;fedora'']]))]"
proof -
  let ?w = world_denied_once
  let ?a = "InstallPackages (Some [''hal;0.5.10;i386;fedora''])"
  let ?c = "(''InstallPackages'', [G_TYPE_STRV [''hal;0.5.10;i386;fedora'']])"
  have fresh: "tid pk_client_init = None" by (simp add: pk_client_init_def)
  have alloc: "control_reply ?w (control_calls ?w) = Inr ''/7_cafe''" "proxy_new_ok ?w ''/7_cafe''"
    by (simp_all add: world_denied_once_def example_world_def)
  have call: "privileged_call ?w ?a = Some ?c"
    by (simp add: pk_package_ids_check_def pk_package_id_check_def)
  have d: "dbus_reply ?w (dbus_log ?w @ [(''/7_cafe'', ?c)]) = Some denial_auth"
    "denied_by_policy ?w denial_auth"
    by (simp_all add: world_denied_once_def example_world_def denial_auth_def)
  have g: "gain_privilege ?w (polkit_log ?w @ [message denial_auth])"
    and r2: "dbus_reply ?w (dbus_log ?w @ [(''/7_cafe'', ?c), (''/7_cafe'', ?c)]) = None"
    and sy: "\<not> synchronous pk_client_init"
    and l: "dbus_log ?w = []"
    by (simp_all add: world_denied_once_def example_world_def pk_client_init_def)
  from auth_retry_once [OF fresh alloc call d] g r2 sy
  have ret: "pk_client_action ?a pk_client_init ?w \<noteq> None"
    and res: "\<forall>res c' w'. pk_client_action ?a pk_client_init ?w = Some (res, c', w') \<longrightarrow>
                     res = (True, None) \<and> dbus_log w' = dbus_log ?w @ [(''/7_cafe'', ?c), (''/7_cafe'', ?c)]
                     \<and> polkit_log w' = polkit_log ?w @ [message denial_auth]"
    by auto
  from ret obtain res c' w' where e: "pk_client_action ?a pk_client_init ?w = Some (res, c', w')"
    by (cases "pk_client_action ?a pk_client_init ?w") auto
  with res have "res = (True, None)" "dbus_log w' = [(''/7_cafe'', ?c), (''/7_cafe'', ?c)]"
    using l by (cases res; auto)+
  then show ?thesis using fresh call d(2) e by simp
qed

end
